theory Spec2Isabelle
  imports Main "HOL-Library.Word" "HOL-Library.Sublist"
begin

unbundle bit_operations_syntax

section \<open>Data model of main.c\<close>

text \<open>The enumeration \<^verbatim>\<open>en_switch_event_t\<close> (main.c, lines 81-86).\<close>

datatype en_switch_event_t = SWITCH_NO_EVENT | SWITCH_SHORT_PRESS | SWITCH_LONG_PRESS

text \<open>The status values of the RTC driver, as the header comment of
  \<^verbatim>\<open>rtc_alarmconfig\<close> lists them (lines 342-347).\<close>

datatype cy_en_rtc_status_t =
  CY_RTC_SUCCESS | CY_RTC_BAD_PARAM | CY_RTC_TIMEOUT | CY_RTC_INVALID_STATE | CY_RTC_UNKNOWN

text \<open>The status of the power-management driver. The program only compares it with
  \<^verbatim>\<open>CY_SYSPM_SUCCESS\<close> (line 286); the other values stand for the driver's failures.\<close>

datatype cy_en_syspm_status_t =
  CY_SYSPM_SUCCESS | CY_SYSPM_BAD_PARAM | CY_SYSPM_TIMEOUT | CY_SYSPM_INVALID_STATE
  | CY_SYSPM_CANCELED | CY_SYSPM_SYSCALL_PENDING | CY_SYSPM_FAIL

text \<open>The fields of \<^verbatim>\<open>cy_stc_rtc_config_t\<close> that \<^verbatim>\<open>convert_date_to_string\<close> reads
  (lines 462-467), each a \<^verbatim>\<open>uint32_t\<close>. The field \<^verbatim>\<open>min\<close> is called
  \<open>min_rtc\<close> here, \<open>min\<close> being a constant of HOL.\<close>

record cy_stc_rtc_config_t =
  sec :: "32 word"
  min_rtc :: "32 word"
  hour :: "32 word"
  date :: "32 word"
  month :: "32 word"
  year :: "32 word"

text \<open>What the program does to the outside, in the order it does it: console output, delays,
  commands to the RTC and to the power-management driver, interrupt masking, and the failed
  assertion.\<close>

datatype hw_event =
  Printf string
  | Delay nat
  | RtcInit cy_en_rtc_status_t
  | SetAlarm cy_en_rtc_status_t
  | DeepSleep
  | SetHibernateWakeupSource
  | EnterHibernate "cy_en_syspm_status_t option"
  | IoUnfreeze
  | UartEnable
  | InitUserButton
  | SetInterruptMaskAlarm2
  | SysIntInit
  | NvicClearPendingIRQ
  | NvicEnableIRQ
  | DisableIrq
  | EnableIrq
  | AssertFail

text \<open>The state of the program and of the board: the globals \<^verbatim>\<open>alarm_flag\<close> (line 105)
  and \<^verbatim>\<open>buffer\<close> (line 107, its content as a string), the interrupt mask of the CPU, the
  events so far, and how many times each input of the environment has been read. \<open>overrun\<close>
  records that some \<^verbatim>\<open>sprintf\<close> has written past the end of its array: it is no variable of
  the program, and nothing in the model reads it.\<close>

record world =
  trace :: "hw_event list"
  alarm_flag :: "8 word"
  buffer :: string
  primask :: bool
  n_gpio :: nat
  n_alarm :: nat
  n_init :: nat
  n_time :: nat
  n_sleep :: nat
  n_hib :: nat
  overrun :: bool

text \<open>What wakes the CPU from deep sleep: the alarm-2 interrupt of the RTC, or another one.\<close>

datatype wake_source = Alarm2_irq | Other_irq

text \<open>The environment: what each driver call returns, by the number of earlier calls of the
  same kind. \<open>gpio_pressed k\<close> says whether the \<open>k\<close>-th read of the button is
  \<^verbatim>\<open>CYBSP_BTN_PRESSED\<close>; \<open>hibernate_result k\<close> is \<open>None\<close> when the call powers the
  system down and does not return; \<open>deep_sleep_wake k\<close> is \<open>None\<close> when nothing ever wakes
  the CPU. The status words are compared with \<^verbatim>\<open>CY_RSLT_SUCCESS\<close> only.
  \<open>hib_wakeup_mask\<close> is the constant \<^verbatim>\<open>CY_SYSLIB_RESET_HIB_WAKEUP\<close>, which the
  driver's header defines. \<open>arrays_after_overrun t\<close> is what the six local arrays of
  \<^verbatim>\<open>convert_date_to_string\<close> hold, read as strings in the order \<^verbatim>\<open>secbuf\<close>,
  \<^verbatim>\<open>minbuf\<close>, \<^verbatim>\<open>hourbuf\<close>, \<^verbatim>\<open>daybuf\<close>, \<^verbatim>\<open>monthbuf\<close>, \<^verbatim>\<open>yearbuf\<close>, after
  the six calls of \<^verbatim>\<open>sprintf\<close> for the time \<open>t\<close> when one of them has written past the end
  of its array: C does not say, it depends on where the compiler has put the arrays.\<close>

record env =
  cybsp_init_result :: "32 word"
  io_frozen :: bool
  uart_init_result :: "32 word"
  uart_setup_result :: "32 word"
  retarget_io_result :: "32 word"
  reset_reason :: "32 word"
  hib_wakeup_mask :: "32 word"
  gpio_pressed :: "nat \<Rightarrow> bool"
  rtc_init_result :: "nat \<Rightarrow> cy_en_rtc_status_t"
  set_alarm_result :: "nat \<Rightarrow> cy_en_rtc_status_t"
  rtc_time :: "nat \<Rightarrow> cy_stc_rtc_config_t"
  deep_sleep_wake :: "nat \<Rightarrow> wake_source option"
  hibernate_result :: "nat \<Rightarrow> cy_en_syspm_status_t option"
  arrays_after_overrun ::
    "cy_stc_rtc_config_t \<Rightarrow> string \<times> string \<times> string \<times> string \<times> string \<times> string"

text \<open>Why a run stops: a failed assertion, the power-down, or a deep sleep that nothing
  ends.\<close>

datatype stop_reason = Halted | Powered_down | Asleep_forever

datatype 'a result = Ok 'a world | Stop stop_reason world

text \<open>Sequencing: the rest of the code runs only when the first part returns.\<close>

fun and_then :: "'a result \<Rightarrow> ('a \<Rightarrow> world \<Rightarrow> 'b result) \<Rightarrow> 'b result" where
  "and_then (Ok a w) f = f a w"
| "and_then (Stop r w) f = Stop r w"

fun world_of :: "'a result \<Rightarrow> world" where
  "world_of (Ok a w) = w"
| "world_of (Stop r w) = w"

definition emit :: "hw_event \<Rightarrow> world \<Rightarrow> world" where
  "emit e w = w\<lparr>trace := trace w @ [e]\<rparr>"

text \<open>The events of \<open>w'\<close> that \<open>w\<close> does not have yet.\<close>

definition emitted :: "world \<Rightarrow> world \<Rightarrow> hw_event list" where
  "emitted w w' = drop (length (trace w)) (trace w')"

section \<open>Constants (lines 55-75)\<close>

definition MAX_ATTEMPTS :: "32 word" where "MAX_ATTEMPTS = 500"
definition INIT_DELAY_MS :: nat where "INIT_DELAY_MS = 5"
definition SHORT_PRESS_COUNT :: "32 word" where "SHORT_PRESS_COUNT = 10"
definition LONG_PRESS_COUNT :: "32 word" where "LONG_PRESS_COUNT = 200"
definition SHORT_GLITCH_DELAY_MS :: nat where "SHORT_GLITCH_DELAY_MS = 10"
definition LONG_GLITCH_DELAY_MS :: nat where "LONG_GLITCH_DELAY_MS = 100"
definition STRING_BUFFER_SIZE :: nat where "STRING_BUFFER_SIZE = 80"
definition CY_RSLT_SUCCESS :: "32 word" where "CY_RSLT_SUCCESS = 0"

definition crlf :: string where
  "crlf = [CHR 0x0D, CHR 0x0A]"

definition lf :: string where
  "lf = [CHR 0x0A]"

definition Cy_SysLib_Delay :: "nat \<Rightarrow> world \<Rightarrow> world" where
  "Cy_SysLib_Delay ms w = emit (Delay ms) w"

section \<open>The button: \<^verbatim>\<open>get_switch_event\<close> (lines 386-415)\<close>

text \<open>The loop of lines 392-399. It runs for as long as the button reads pressed, so it need
  not end: not returning is the value \<open>None\<close>. The counter is a \<^verbatim>\<open>uint32_t\<close>.\<close>

partial_function (option) press_loop :: "env \<Rightarrow> 32 word \<Rightarrow> world \<Rightarrow> (32 word \<times> world) option"
where
  [code]: "press_loop e press_count w =
     (if gpio_pressed e (n_gpio w)
      then press_loop e (press_count + 1)
             (Cy_SysLib_Delay SHORT_GLITCH_DELAY_MS (w\<lparr>n_gpio := n_gpio w + 1\<rparr>))
      else Some (press_count, w\<lparr>n_gpio := n_gpio w + 1\<rparr>))"

text \<open>Lines 388 and 401-409: the event starts as \<^verbatim>\<open>SWITCH_NO_EVENT\<close> and the two
  comparisons overwrite it.\<close>

definition press_event :: "32 word \<Rightarrow> en_switch_event_t" where
  "press_event press_count =
     (if press_count > LONG_PRESS_COUNT then SWITCH_LONG_PRESS
      else if press_count > SHORT_PRESS_COUNT then SWITCH_SHORT_PRESS
      else SWITCH_NO_EVENT)"

definition get_switch_event :: "env \<Rightarrow> world \<Rightarrow> (en_switch_event_t \<times> world) option" where
  "get_switch_event e w =
     (case press_loop e 0 w of
        None \<Rightarrow> None
      | Some (press_count, w1) \<Rightarrow>
          Some (press_event press_count, Cy_SysLib_Delay SHORT_GLITCH_DELAY_MS w1))"

section \<open>The time stamp: \<^verbatim>\<open>convert_date_to_string\<close> and \<^verbatim>\<open>debug_printf\<close>\<close>

text \<open>The conversion \<^verbatim>\<open>%d\<close> of the C library: the decimal digits, after a minus sign for a
  negative number.\<close>

fun dec_digits :: "nat \<Rightarrow> string" where
  "dec_digits n =
     (if n < 10 then [''0123456789'' ! n]
      else dec_digits (n div 10) @ [''0123456789'' ! (n mod 10)])"

declare dec_digits.simps [simp del]

definition printf_d :: "int \<Rightarrow> string" where
  "printf_d i = (if i < 0 then CHR ''-'' # dec_digits (nat (- i)) else dec_digits (nat i))"

text \<open>\<^verbatim>\<open>sprintf(buf, "%d", v)\<close> for an array \<^verbatim>\<open>char buf[n]\<close>: the characters and the
  terminating NUL are written from the start of the array. When they do not fit, the call writes
  past the end of the array, which C leaves undefined: the value is \<open>None\<close>.\<close>

definition sprintf_d :: "nat \<Rightarrow> int \<Rightarrow> string option" where
  "sprintf_d n v =
     (if length (printf_d v) + 1 \<le> n then Some (printf_d v) else None)"

text \<open>\<^verbatim>\<open>snprintf(buf, n, ...)\<close> keeps at most \<open>n - 1\<close> characters of the text.\<close>

definition snprintf :: "nat \<Rightarrow> string \<Rightarrow> string" where
  "snprintf n s = take (n - 1) s"

text \<open>The text of line 479: the format puts one space between any two of its eleven strings,
  the sixth of which is empty.\<close>

definition time_stamp ::
  "string \<times> string \<times> string \<times> string \<times> string \<times> string \<Rightarrow> string" where
  "time_stamp arrays =
     (case arrays of (secbuf, minbuf, hourbuf, daybuf, monthbuf, yearbuf) \<Rightarrow>
        hourbuf @ '' '' @ '':'' @ '' '' @ minbuf @ '' '' @ '':'' @ '' '' @ secbuf
        @ '' '' @ [] @ '' '' @ yearbuf @ '' '' @ ''-'' @ '' '' @ monthbuf
        @ '' '' @ ''-'' @ '' '' @ daybuf)"

text \<open>Lines 458-483. The six local arrays have two characters each (line 470); the values are
  cast to \<^verbatim>\<open>int\<close>. When the six renderings fit, the arrays hold them. When one does not,
  the function goes on all the same, as the compiled code does: line 479 formats what the arrays
  then hold, which the environment gives, and the overrun is recorded.\<close>

definition convert_date_to_string :: "env \<Rightarrow> cy_stc_rtc_config_t \<Rightarrow> world \<Rightarrow> unit result" where
  "convert_date_to_string e dateTime w =
     (case (sprintf_d 2 (sint (sec dateTime)), sprintf_d 2 (sint (min_rtc dateTime)),
            sprintf_d 2 (sint (hour dateTime)), sprintf_d 2 (sint (date dateTime)),
            sprintf_d 2 (sint (month dateTime)), sprintf_d 2 (sint (year dateTime))) of
        (Some secbuf, Some minbuf, Some hourbuf, Some daybuf, Some monthbuf, Some yearbuf) \<Rightarrow>
          Ok () (w\<lparr>buffer := snprintf STRING_BUFFER_SIZE
                   (time_stamp (secbuf, minbuf, hourbuf, daybuf, monthbuf, yearbuf))\<rparr>)
      | _ \<Rightarrow>
          Ok () (w\<lparr>buffer := snprintf STRING_BUFFER_SIZE
                   (time_stamp (arrays_after_overrun e dateTime)),
                  overrun := True\<rparr>))"

text \<open>Lines 430-442: read the clock, convert, print \<^verbatim>\<open>"%s: %s\r\n"\<close>.\<close>

definition debug_printf :: "env \<Rightarrow> string \<Rightarrow> world \<Rightarrow> unit result" where
  "debug_printf e str w =
     and_then (convert_date_to_string e (rtc_time e (n_time w)) (w\<lparr>n_time := n_time w + 1\<rparr>))
       (\<lambda>_ w1. Ok () (emit (Printf (buffer w1 @ '': '' @ str @ crlf)) w1))"

section \<open>Stopping: \<^verbatim>\<open>handle_error\<close> (lines 144-149)\<close>

text \<open>Modelled from the spec: the macro \<^verbatim>\<open>CY_ASSERT\<close> comes from the driver library's
  headers. The spec (section 7) has a fatal condition "halt all further progress
  deterministically (disable interrupts, enter a non-recoverable stop state)";
  \<^verbatim>\<open>CY_ASSERT(0)\<close> is the stop state: nothing after it runs.\<close>

definition CY_ASSERT_0 :: "world \<Rightarrow> 'a result" where
  "CY_ASSERT_0 w = Stop Halted (emit AssertFail w)"

definition disable_irq :: "world \<Rightarrow> world" where
  "disable_irq w = emit DisableIrq (w\<lparr>primask := True\<rparr>)"

definition enable_irq :: "world \<Rightarrow> world" where
  "enable_irq w = emit EnableIrq (w\<lparr>primask := False\<rparr>)"

definition handle_error :: "world \<Rightarrow> 'a result" where
  "handle_error w = CY_ASSERT_0 (disable_irq w)"

section \<open>The bounded retries: \<^verbatim>\<open>rtc_init\<close> and \<^verbatim>\<open>rtc_alarmconfig\<close>\<close>

text \<open>The body of the loop of lines 319-325 without the decrement, which \<open>init_loop\<close> does:
  one call of \<^verbatim>\<open>Cy_RTC_Init\<close>, then the delay.\<close>

definition init_attempt :: "env \<Rightarrow> world \<Rightarrow> world" where
  "init_attempt e w =
     Cy_SysLib_Delay INIT_DELAY_MS
       (emit (RtcInit (rtc_init_result e (n_init w))) (w\<lparr>n_init := n_init w + 1\<rparr>))"

text \<open>The \<^verbatim>\<open>do ... while\<close> of lines 319-325: the body runs, \<^verbatim>\<open>attempts\<close> (a
  \<^verbatim>\<open>uint32_t\<close>) is decremented, and the loop repeats while the result is not success and
  the counter is not zero.\<close>

function init_loop :: "env \<Rightarrow> 32 word \<Rightarrow> world \<Rightarrow> cy_en_rtc_status_t \<times> world" where
  "init_loop e attempts w =
     (if rtc_init_result e (n_init w) \<noteq> CY_RTC_SUCCESS \<and> attempts - 1 \<noteq> 0
      then init_loop e (attempts - 1) (init_attempt e w)
      else (rtc_init_result e (n_init w), init_attempt e w))"
  by pat_completeness auto
termination
proof (relation "measure (\<lambda>(e, attempts, w). unat (attempts - 1))", goal_cases)
  case 1
  show ?case by simp
next
  case (2 e attempts w)
  then have ne: "attempts - 1 \<noteq> 0" by simp
  have "unat (attempts - 1 - 1) = unat (attempts - 1) - 1"
    by (rule unat_minus_one [OF ne])
  moreover have "0 < unat (attempts - 1)"
    using ne by (simp add: unat_gt_0)
  ultimately have "unat (attempts - 1 - 1) < unat (attempts - 1)"
    by linarith
  then show ?case by simp
qed

declare init_loop.simps [simp del]

definition rtc_init :: "env \<Rightarrow> world \<Rightarrow> cy_en_rtc_status_t result" where
  "rtc_init e w = (case init_loop e MAX_ATTEMPTS w of (rtc_result, w1) \<Rightarrow> Ok rtc_result w1)"

text \<open>Lines 360-365, in the same way, for \<^verbatim>\<open>Cy_RTC_SetAlarmDateAndTime\<close>.\<close>

definition alarm_attempt :: "env \<Rightarrow> world \<Rightarrow> world" where
  "alarm_attempt e w =
     Cy_SysLib_Delay INIT_DELAY_MS
       (emit (SetAlarm (set_alarm_result e (n_alarm w))) (w\<lparr>n_alarm := n_alarm w + 1\<rparr>))"

function alarm_loop :: "env \<Rightarrow> 32 word \<Rightarrow> world \<Rightarrow> cy_en_rtc_status_t \<times> world" where
  "alarm_loop e attempts w =
     (if set_alarm_result e (n_alarm w) \<noteq> CY_RTC_SUCCESS \<and> attempts - 1 \<noteq> 0
      then alarm_loop e (attempts - 1) (alarm_attempt e w)
      else (set_alarm_result e (n_alarm w), alarm_attempt e w))"
  by pat_completeness auto
termination
proof (relation "measure (\<lambda>(e, attempts, w). unat (attempts - 1))", goal_cases)
  case 1
  show ?case by simp
next
  case (2 e attempts w)
  then have ne: "attempts - 1 \<noteq> 0" by simp
  have "unat (attempts - 1 - 1) = unat (attempts - 1) - 1"
    by (rule unat_minus_one [OF ne])
  moreover have "0 < unat (attempts - 1)"
    using ne by (simp add: unat_gt_0)
  ultimately have "unat (attempts - 1 - 1) < unat (attempts - 1)"
    by linarith
  then show ?case by simp
qed

declare alarm_loop.simps [simp del]

text \<open>Lines 350-368: the status line, then the loop.\<close>

definition rtc_alarmconfig :: "env \<Rightarrow> world \<Rightarrow> cy_en_rtc_status_t result" where
  "rtc_alarmconfig e w =
     and_then (debug_printf e (''RTC alarm will be generated after 1 second'' @ crlf) w)
       (\<lambda>_ w1. case alarm_loop e MAX_ATTEMPTS w1 of (rtc_result, w2) \<Rightarrow> Ok rtc_result w2)"

section \<open>The interrupt (lines 500-526)\<close>

text \<open>Lines 522-526.\<close>

definition Cy_RTC_Alarm2Interrupt :: "world \<Rightarrow> world" where
  "Cy_RTC_Alarm2Interrupt w = w\<lparr>alarm_flag := 1\<rparr>"

text \<open>Lines 500-505. \<^verbatim>\<open>Cy_RTC_Interrupt\<close> is the driver's dispatcher; as the comment of
  lines 490-491 says, it calls the alarm-2 handler if that is the interrupt that occurs.\<close>

definition rtc_interrupt_handler :: "bool \<Rightarrow> world \<Rightarrow> world" where
  "rtc_interrupt_handler alarm2 w = (if alarm2 then Cy_RTC_Alarm2Interrupt w else w)"

section \<open>The power modes\<close>

text \<open>\<^verbatim>\<open>Cy_SysPm_CpuEnterDeepSleep(CY_SYSPM_WAIT_FOR_INTERRUPT)\<close>: the CPU sleeps until an
  interrupt arrives; the handler runs when interrupts are not masked. The status that the call
  returns is not used by the program (line 273). This is the one place where the interrupt
  arrives in this development: no code reads \<^verbatim>\<open>alarm_flag\<close>, so an interrupt at another
  point of the program would change the flag and nothing else.\<close>

definition Cy_SysPm_CpuEnterDeepSleep :: "env \<Rightarrow> world \<Rightarrow> unit result" where
  "Cy_SysPm_CpuEnterDeepSleep e w =
     (case deep_sleep_wake e (n_sleep w) of
        None \<Rightarrow> Stop Asleep_forever (emit DeepSleep (w\<lparr>n_sleep := n_sleep w + 1\<rparr>))
      | Some src \<Rightarrow>
          Ok () (if primask w then emit DeepSleep (w\<lparr>n_sleep := n_sleep w + 1\<rparr>)
                 else rtc_interrupt_handler (src = Alarm2_irq)
                        (emit DeepSleep (w\<lparr>n_sleep := n_sleep w + 1\<rparr>))))"

text \<open>\<^verbatim>\<open>Cy_SysPm_SystemEnterHibernate\<close>: either the system powers down and the call does not
  return, or the call returns a status.\<close>

definition Cy_SysPm_SystemEnterHibernate :: "env \<Rightarrow> world \<Rightarrow> cy_en_syspm_status_t result" where
  "Cy_SysPm_SystemEnterHibernate e w =
     (case hibernate_result e (n_hib w) of
        None \<Rightarrow> Stop Powered_down (emit (EnterHibernate None) (w\<lparr>n_hib := n_hib w + 1\<rparr>))
      | Some st \<Rightarrow> Ok st (emit (EnterHibernate (Some st)) (w\<lparr>n_hib := n_hib w + 1\<rparr>)))"

section \<open>\<^verbatim>\<open>main\<close> (lines 172-297)\<close>

text \<open>The \<^verbatim>\<open>switch\<close> of lines 263-295. The value that \<^verbatim>\<open>rtc_alarmconfig\<close> returns is
  dropped in both cases (lines 269 and 281).\<close>

definition handle_switch_event :: "env \<Rightarrow> en_switch_event_t \<Rightarrow> world \<Rightarrow> unit result" where
  "handle_switch_event e ev w =
     (case ev of
        SWITCH_SHORT_PRESS \<Rightarrow>
          and_then (debug_printf e (''Go to DeepSleep mode'' @ crlf) w) (\<lambda>_ w1.
          and_then (rtc_alarmconfig e w1) (\<lambda>_ w2.
          and_then (Cy_SysPm_CpuEnterDeepSleep e (Cy_SysLib_Delay LONG_GLITCH_DELAY_MS w2))
            (\<lambda>_ w3. debug_printf e (''Wakeup from DeepSleep mode'' @ crlf) w3)))
      | SWITCH_LONG_PRESS \<Rightarrow>
          and_then (debug_printf e (''Go to Hibernate mode'' @ crlf) w) (\<lambda>_ w1.
          and_then (rtc_alarmconfig e w1) (\<lambda>_ w2.
          and_then (Cy_SysPm_SystemEnterHibernate e
                      (emit SetHibernateWakeupSource (Cy_SysLib_Delay LONG_GLITCH_DELAY_MS w2)))
            (\<lambda>st w3.
               if CY_SYSPM_SUCCESS \<noteq> st
               then CY_ASSERT_0
                      (emit (Printf (''The CPU did not enter Hibernate mode'' @ crlf @ crlf)) w3)
               else Ok () w3)))
      | SWITCH_NO_EVENT \<Rightarrow> Ok () w)"

text \<open>One turn of the \<^verbatim>\<open>for (;;)\<close> of lines 261-296; \<open>None\<close> when the button is never
  released.\<close>

definition main_iteration :: "env \<Rightarrow> world \<Rightarrow> unit result option" where
  "main_iteration e w =
     (case get_switch_event e w of
        None \<Rightarrow> None
      | Some (ev, w1) \<Rightarrow> Some (handle_switch_event e ev w1))"

text \<open>The first \<open>n\<close> turns of the loop, which has no exit of its own.\<close>

fun main_loop :: "env \<Rightarrow> nat \<Rightarrow> world \<Rightarrow> unit result option" where
  "main_loop e 0 w = Some (Ok () w)"
| "main_loop e (Suc n) w =
     (case main_iteration e w of
        None \<Rightarrow> None
      | Some (Stop r w1) \<Rightarrow> Some (Stop r w1)
      | Some (Ok u w1) \<Rightarrow> main_loop e n w1)"

text \<open>Lines 215-220.\<close>

definition banner :: "string list" where
  "banner =
     [CHR 0x1B # ''[2J'' @ CHR 0x1B # ''[;H'',
      ''*************************************************************'' @ crlf,
      ''PDL: RTC periodic wakeup alarm example'' @ crlf,
      ''*************************************************************'' @ crlf,
      ''Short press '' @ [CHR 0x27] @ ''SW2'' @ [CHR 0x27] @ '' key to DeepSleep mode.''
        @ crlf @ crlf,
      ''Long press '' @ [CHR 0x27] @ ''SW2'' @ [CHR 0x27] @ '' key to Hibernate mode.''
        @ crlf @ crlf]"

definition print_banner :: "world \<Rightarrow> world" where
  "print_banner w = w\<lparr>trace := trace w @ map Printf banner\<rparr>"

text \<open>Lines 222-239: the button pin and the RTC interrupt.\<close>

definition configure_button_and_interrupt :: "world \<Rightarrow> world" where
  "configure_button_and_interrupt w =
     emit NvicEnableIRQ (emit NvicClearPendingIRQ (emit SysIntInit
       (emit SetInterruptMaskAlarm2 (emit InitUserButton w))))"

text \<open>Line 242.\<close>

definition reset_was_hib_wakeup :: "env \<Rightarrow> bool" where
  "reset_was_hib_wakeup e = (hib_wakeup_mask e = (reset_reason e AND hib_wakeup_mask e))"

text \<open>Lines 178-259: everything before the loop.\<close>

definition main_startup :: "env \<Rightarrow> world \<Rightarrow> unit result" where
  "main_startup e w =
     (if cybsp_init_result e \<noteq> CY_RSLT_SUCCESS then handle_error w
      else if uart_init_result e \<noteq> CY_RSLT_SUCCESS
        then CY_ASSERT_0 (if io_frozen e then emit IoUnfreeze w else w)
      else if uart_setup_result e \<noteq> CY_RSLT_SUCCESS
        then CY_ASSERT_0 (emit UartEnable (if io_frozen e then emit IoUnfreeze w else w))
      else if retarget_io_result e \<noteq> CY_RSLT_SUCCESS
        then CY_ASSERT_0 (emit UartEnable (if io_frozen e then emit IoUnfreeze w else w))
      else
        and_then
          (if reset_was_hib_wakeup e
           then debug_printf e (''Wakeup from the Hibernate mode'' @ crlf @ lf)
                  (configure_button_and_interrupt (print_banner
                     (emit UartEnable (if io_frozen e then emit IoUnfreeze w else w))))
           else Ok () (configure_button_and_interrupt (print_banner
                     (emit UartEnable (if io_frozen e then emit IoUnfreeze w else w)))))
          (\<lambda>_ w1.
        and_then (rtc_init e w1) (\<lambda>rtcSta w2.
          if rtcSta \<noteq> CY_RTC_SUCCESS then handle_error w2
          else and_then (debug_printf e (''Current date and time'' @ crlf) w2)
                 (\<lambda>_ w3. Ok () (enable_irq w3)))))"

text \<open>The state at reset: nothing has happened, the globals have their initial values
  (\<^verbatim>\<open>alarm_flag = 0u\<close>, line 105) and interrupts are not masked.\<close>

definition boot_world :: world where
  "boot_world =
     \<lparr>trace = [], alarm_flag = 0, buffer = [], primask = False, n_gpio = 0, n_alarm = 0,
      n_init = 0, n_time = 0, n_sleep = 0, n_hib = 0, overrun = False\<rparr>"

text \<open>The program from reset, up to \<open>n\<close> turns of the loop.\<close>

definition main :: "env \<Rightarrow> nat \<Rightarrow> unit result option" where
  "main e n =
     (case main_startup e boot_world of
        Stop r w \<Rightarrow> Some (Stop r w)
      | Ok u w \<Rightarrow> main_loop e n w)"

section \<open>Traces\<close>

text \<open>The events of \<open>k\<close> attempts of a retry loop whose first call is call number \<open>n\<close> of
  its driver function: each attempt is the call, with its result, and the delay.\<close>

primrec retry_events ::
  "(cy_en_rtc_status_t \<Rightarrow> hw_event) \<Rightarrow> (nat \<Rightarrow> cy_en_rtc_status_t) \<Rightarrow> nat \<Rightarrow> nat
     \<Rightarrow> hw_event list" where
  "retry_events ev f n 0 = []"
| "retry_events ev f n (Suc k) = ev (f n) # Delay INIT_DELAY_MS # retry_events ev f (Suc n) k"

text \<open>The status of every attempt but the last is a failure.\<close>

definition failing_for :: "nat \<Rightarrow> cy_en_rtc_status_t \<Rightarrow> nat \<Rightarrow> cy_en_rtc_status_t" where
  "failing_for k r i = (if i < k then r else CY_RTC_SUCCESS)"

text \<open>Whether a run has stopped for the given reason.\<close>

fun stopped_by :: "stop_reason \<Rightarrow> 'a result \<Rightarrow> bool" where
  "stopped_by x (Stop r w) = (r = x)"
| "stopped_by x (Ok a w) = False"

text \<open>Whether a run has returned the given value.\<close>

fun returned :: "'a \<Rightarrow> 'a result \<Rightarrow> bool" where
  "returned x (Ok a w) = (a = x)"
| "returned x (Stop r w) = False"

text \<open>Whether an event is the line that \<^verbatim>\<open>debug_printf\<close> prints for the message \<open>msg\<close>:
  some time stamp, then \<open>": "\<close>, the message, CR and LF.\<close>

fun logs_message :: "string \<Rightarrow> hw_event \<Rightarrow> bool" where
  "logs_message msg (Printf s) = suffix ('': '' @ msg @ crlf) s"
| "logs_message msg ev = False"

text \<open>The two instructions that put the CPU to sleep or power the system down.\<close>

fun is_sleep_instruction :: "hw_event \<Rightarrow> bool" where
  "is_sleep_instruction DeepSleep = True"
| "is_sleep_instruction (EnterHibernate st) = True"
| "is_sleep_instruction ev = False"

text \<open>The events other than console output.\<close>

fun is_printf :: "hw_event \<Rightarrow> bool" where
  "is_printf (Printf s) = True"
| "is_printf ev = False"

definition commands :: "hw_event list \<Rightarrow> hw_event list" where
  "commands evs = filter (\<lambda>ev. \<not> is_printf ev) evs"

section \<open>Scenarios\<close>

text \<open>Concrete environments on which the theorems below are run. The button reads pressed
  for the first \<open>d\<close> reads and released from then on.\<close>

definition held_for :: "nat \<Rightarrow> nat \<Rightarrow> bool" where
  "held_for d k = (k < d)"

definition always :: "'a \<Rightarrow> nat \<Rightarrow> 'a" where
  "always x k = x"

text \<open>The clock reads 1:02:03 on the 6th of May of year 4: every field has one digit.\<close>

definition one_digit_time :: cy_stc_rtc_config_t where
  "one_digit_time = \<lparr>sec = 3, min_rtc = 2, hour = 1, date = 6, month = 5, year = 4\<rparr>"

text \<open>The time of the alarm structure of lines 89-104: 10:00:10.\<close>

definition alarm_time :: cy_stc_rtc_config_t where
  "alarm_time = \<lparr>sec = 10, min_rtc = 0, hour = 10, date = 6, month = 9, year = 24\<rparr>"

text \<open>One layout of the six arrays: one after the other in the order of their declaration
  (line 470), in a stretch of memory that holds NUL characters at first.
  \<^verbatim>\<open>sprintf\<close> writes the characters and the NUL from the start of its array, whatever the
  size of the array; \<^verbatim>\<open>%s\<close> reads from the start of an array to the next NUL.\<close>

definition NUL :: char where
  "NUL = CHR 0x00"

definition write_string :: "nat \<Rightarrow> string \<Rightarrow> string \<Rightarrow> string" where
  "write_string off s mem = take off mem @ s @ [NUL] @ drop (off + length s + 1) mem"

definition read_string :: "nat \<Rightarrow> string \<Rightarrow> string" where
  "read_string off mem = takeWhile (\<lambda>c. c \<noteq> NUL) (drop off mem)"

definition declaration_order_arrays ::
  "cy_stc_rtc_config_t \<Rightarrow> string \<times> string \<times> string \<times> string \<times> string \<times> string" where
  "declaration_order_arrays t =
     (let mem = write_string 10 (printf_d (sint (year t)))
                 (write_string 8 (printf_d (sint (month t)))
                   (write_string 6 (printf_d (sint (date t)))
                     (write_string 4 (printf_d (sint (hour t)))
                       (write_string 2 (printf_d (sint (min_rtc t)))
                         (write_string 0 (printf_d (sint (sec t))) (replicate 24 NUL))))))
      in (read_string 0 mem, read_string 2 mem, read_string 4 mem, read_string 6 mem,
          read_string 8 mem, read_string 10 mem))"

text \<open>A board whose bring-up succeeds, whose RTC initialises at once and whose deep sleep is
  ended by the alarm; the button, the results of setting the alarm, the result of the
  power-down and the reset reason are the parameters.\<close>

definition board ::
  "(nat \<Rightarrow> bool) \<Rightarrow> (nat \<Rightarrow> cy_en_rtc_status_t) \<Rightarrow> (nat \<Rightarrow> cy_en_syspm_status_t option)
     \<Rightarrow> 32 word \<Rightarrow> env" where
  "board button alarm hib reason =
     \<lparr>cybsp_init_result = 0, io_frozen = False, uart_init_result = 0, uart_setup_result = 0,
      retarget_io_result = 0, reset_reason = reason, hib_wakeup_mask = 0x40000,
      gpio_pressed = button, rtc_init_result = always CY_RTC_SUCCESS,
      set_alarm_result = alarm, rtc_time = always one_digit_time,
      deep_sleep_wake = always (Some Alarm2_irq), hibernate_result = hib,
      arrays_after_overrun = declaration_order_arrays\<rparr>"

text \<open>The same board with a clock that reads 10:00:10 of the 6th of September of year 24.\<close>

definition two_digit_board ::
  "(nat \<Rightarrow> bool) \<Rightarrow> (nat \<Rightarrow> cy_en_rtc_status_t) \<Rightarrow> (nat \<Rightarrow> cy_en_syspm_status_t option)
     \<Rightarrow> 32 word \<Rightarrow> env" where
  "two_digit_board button alarm hib reason =
     (board button alarm hib reason)\<lparr>rtc_time := always alarm_time\<rparr>"

text \<open>The same board with an RTC that never initialises, and with one that initialises at the
  third attempt.\<close>

definition stuck_rtc_board :: env where
  "stuck_rtc_board =
     (board (held_for 0) (always CY_RTC_SUCCESS) (always None) 0)
       \<lparr>rtc_init_result := always CY_RTC_INVALID_STATE\<rparr>"

definition slow_rtc_board :: env where
  "slow_rtc_board =
     (board (held_for 0) (always CY_RTC_SUCCESS) (always None) 0)
       \<lparr>rtc_init_result := failing_for 2 CY_RTC_UNKNOWN\<rparr>"

section \<open>The button\<close>

lemma press_loop_released:
  assumes "\<forall>i<d. gpio_pressed e (n_gpio w + i)" and "\<not> gpio_pressed e (n_gpio w + d)"
  shows "press_loop e c w =
           Some (c + word_of_nat d,
                 w\<lparr>trace := trace w @ replicate d (Delay SHORT_GLITCH_DELAY_MS),
                   n_gpio := n_gpio w + d + 1\<rparr>)"
  using assms
proof (induction d arbitrary: c w)
  case 0
  then show ?case by (subst press_loop.simps) simp
next
  case (Suc d)
  let ?w1 = "Cy_SysLib_Delay SHORT_GLITCH_DELAY_MS (w\<lparr>n_gpio := n_gpio w + 1\<rparr>)"
  from Suc.prems(1) have "gpio_pressed e (n_gpio w + 0)" by blast
  then have pressed: "gpio_pressed e (n_gpio w)" by simp
  have "\<forall>i<d. gpio_pressed e (n_gpio ?w1 + i)"
  proof (intro allI impI)
    fix i assume "i < d"
    then have "Suc i < Suc d" by simp
    with Suc.prems(1) have "gpio_pressed e (n_gpio w + Suc i)" by blast
    then show "gpio_pressed e (n_gpio ?w1 + i)"
      by (simp add: Cy_SysLib_Delay_def emit_def)
  qed
  moreover have "\<not> gpio_pressed e (n_gpio ?w1 + d)"
    using Suc.prems(2) by (simp add: Cy_SysLib_Delay_def emit_def)
  ultimately have "press_loop e (c + 1) ?w1 =
      Some (c + 1 + word_of_nat d,
            ?w1\<lparr>trace := trace ?w1 @ replicate d (Delay SHORT_GLITCH_DELAY_MS),
                n_gpio := n_gpio ?w1 + d + 1\<rparr>)"
    by (rule Suc.IH)
  moreover have "press_loop e c w = press_loop e (c + 1) ?w1"
    using pressed by (subst press_loop.simps) simp
  ultimately show ?case
    by (simp add: Cy_SysLib_Delay_def emit_def replicate_app_Cons_same)
qed

lemma get_switch_event_released:
  assumes "\<forall>i<d. gpio_pressed e (n_gpio w + i)" and "\<not> gpio_pressed e (n_gpio w + d)"
  shows "get_switch_event e w =
           Some (press_event (word_of_nat d),
                 w\<lparr>trace := trace w @ replicate (Suc d) (Delay SHORT_GLITCH_DELAY_MS),
                   n_gpio := n_gpio w + d + 1\<rparr>)"
  by (simp add: get_switch_event_def press_loop_released [OF assms] Cy_SysLib_Delay_def
      emit_def replicate_append_same)

lemma press_event_unat:
  "press_event d =
     (if 200 < unat d then SWITCH_LONG_PRESS
      else if 10 < unat d then SWITCH_SHORT_PRESS else SWITCH_NO_EVENT)"
  by (simp add: press_event_def LONG_PRESS_COUNT_def SHORT_PRESS_COUNT_def word_less_nat_alt)

text \<open>C4. The classification of lines 401-409 is a function of the count alone: more than 200
  gives the long press, otherwise more than 10 the short press, otherwise no event; 0 and 10 give
  no event, 11 and 200 the short press, 201 the long press. A button that reads pressed \<open>n\<close>
  times and is then released makes \<^verbatim>\<open>get_switch_event\<close> return the event of \<open>n\<close>.\<close>

theorem press_classification:
  "press_event d =
     (if 200 < unat d then SWITCH_LONG_PRESS
      else if 10 < unat d then SWITCH_SHORT_PRESS else SWITCH_NO_EVENT)
   \<and> press_event 0 = SWITCH_NO_EVENT \<and> press_event 10 = SWITCH_NO_EVENT
   \<and> press_event 11 = SWITCH_SHORT_PRESS \<and> press_event 200 = SWITCH_SHORT_PRESS
   \<and> press_event 201 = SWITCH_LONG_PRESS
   \<and> ((\<forall>i<n. gpio_pressed e (n_gpio w + i)) \<and> \<not> gpio_pressed e (n_gpio w + n) \<and> n < 2 ^ 32
        \<longrightarrow> map_option fst (get_switch_event e w) =
              Some (if 200 < n then SWITCH_LONG_PRESS
                    else if 10 < n then SWITCH_SHORT_PRESS else SWITCH_NO_EVENT))"
proof -
  have "map_option fst (get_switch_event e w) =
          Some (if 200 < n then SWITCH_LONG_PRESS
                else if 10 < n then SWITCH_SHORT_PRESS else SWITCH_NO_EVENT)"
    if a: "\<forall>i<n. gpio_pressed e (n_gpio w + i)" and b: "\<not> gpio_pressed e (n_gpio w + n)"
      and c: "n < 2 ^ 32"
  proof -
    from c have "unat (word_of_nat n :: 32 word) = n"
      by (simp add: unat_of_nat)
    then show ?thesis
      by (simp add: get_switch_event_released [OF a b] press_event_unat)
  qed
  moreover have "press_event 0 = SWITCH_NO_EVENT" "press_event 10 = SWITCH_NO_EVENT"
    "press_event 11 = SWITCH_SHORT_PRESS" "press_event 200 = SWITCH_SHORT_PRESS"
    "press_event 201 = SWITCH_LONG_PRESS"
    by (simp_all add: press_event_def LONG_PRESS_COUNT_def SHORT_PRESS_COUNT_def)
  ultimately show ?thesis
    using press_event_unat [of d] by blast
qed

theorem press_classification_witness:
  "map_option fst
     (get_switch_event (board (held_for 11) (always CY_RTC_SUCCESS) (always None) 0) boot_world)
   = Some SWITCH_SHORT_PRESS
   \<and> press_event 11 = SWITCH_SHORT_PRESS"
  using press_classification
    [of 11 11 "board (held_for 11) (always CY_RTC_SUCCESS) (always None) 0" boot_world]
  by (simp add: board_def held_for_def boot_world_def)

section \<open>The time stamp\<close>

lemma dec_digits_small: "n < 10 \<Longrightarrow> dec_digits n = [''0123456789'' ! n]"
  by (subst dec_digits.simps) simp

lemma dec_digits_nonempty: "dec_digits n \<noteq> []"
  by (subst dec_digits.simps) simp

lemma dec_digits_big: "10 \<le> n \<Longrightarrow> 2 \<le> length (dec_digits n)"
proof -
  assume "10 \<le> n"
  then have "dec_digits n = dec_digits (n div 10) @ [''0123456789'' ! (n mod 10)]"
    by (subst dec_digits.simps) simp
  moreover have "1 \<le> length (dec_digits (n div 10))"
    using dec_digits_nonempty [of "n div 10"] by (cases "dec_digits (n div 10)") simp_all
  ultimately show ?thesis by simp
qed

lemma sprintf_d_2:
  "sprintf_d 2 v = (if 0 \<le> v \<and> v \<le> 9 then Some [''0123456789'' ! nat v] else None)"
proof (cases "0 \<le> v \<and> v \<le> 9")
  case True
  then have "nat v < 10" by linarith
  with True show ?thesis
    by (simp add: sprintf_d_def printf_d_def dec_digits_small)
next
  case False
  show ?thesis
  proof (cases "v < 0")
    case True
    then show ?thesis
      using dec_digits_nonempty [of "nat (- v)"]
      by (cases "dec_digits (nat (- v))") (simp_all add: sprintf_d_def printf_d_def)
  next
    case False
    with \<open>\<not> (0 \<le> v \<and> v \<le> 9)\<close> have "10 \<le> nat v" by simp
    from dec_digits_big [OF this] False \<open>\<not> (0 \<le> v \<and> v \<le> 9)\<close> show ?thesis
      by (simp add: sprintf_d_def printf_d_def)
  qed
qed

lemma sint_small: "x < 10 \<Longrightarrow> sint x = uint x" for x :: "32 word"
proof -
  assume "x < 10"
  then have u: "uint x < 10" by (simp add: word_less_def)
  have "sint x = signed_take_bit 31 (uint x)" by (simp add: sint_uint)
  also have "\<dots> = uint x"
  proof (rule signed_take_bit_int_eq_self)
    show "- (2 ^ 31) \<le> uint x" by (rule order_trans [of _ 0]) simp_all
    show "uint x < 2 ^ 31" using u by simp
  qed
  finally show ?thesis .
qed

lemma sint_one_digit: "(0 \<le> sint x \<and> sint x \<le> 9) = (x < 10)" for x :: "32 word"
proof
  assume a: "0 \<le> sint x \<and> sint x \<le> 9"
  have "uint x = uint (word_of_int (sint x) :: 32 word)" by simp
  also have "\<dots> = take_bit 32 (sint x)" by (simp only: uint_word_of_int_eq) simp
  also have "\<dots> = sint x" using a by (intro take_bit_int_eq_self) simp_all
  finally have "uint x < 10" using a by simp
  then show "x < 10" by (simp add: word_less_def)
next
  assume b: "x < 10"
  then have u: "uint x < 10" by (simp add: word_less_def)
  with sint_small [OF b] show "0 \<le> sint x \<and> sint x \<le> 9" by simp
qed

lemma sprintf_d_field:
  "sprintf_d 2 (sint x) = (if x < 10 then Some [''0123456789'' ! unat x] else None)"
  for x :: "32 word"
proof (cases "x < 10")
  case True
  then have u: "uint x < 10" by (simp add: word_less_def)
  from True have "0 \<le> sint x \<and> sint x \<le> 9" by (simp add: sint_one_digit)
  moreover have "sint x = uint x" using True by (rule sint_small)
  ultimately show ?thesis using True
    by (simp add: sprintf_d_2)
next
  case False
  then have "\<not> (0 \<le> sint x \<and> sint x \<le> 9)" by (simp add: sint_one_digit)
  with False show ?thesis by (simp add: sprintf_d_2)
qed

text \<open>Whether the six fields of a time fit their two-character arrays.\<close>

lemma convert_date_to_string_eq:
  "convert_date_to_string e t w =
     (if sec t < 10 \<and> min_rtc t < 10 \<and> hour t < 10 \<and> date t < 10 \<and> month t < 10 \<and> year t < 10
      then Ok () (w\<lparr>buffer :=
             [''0123456789'' ! unat (hour t)] @ '' : '' @ [''0123456789'' ! unat (min_rtc t)]
             @ '' : '' @ [''0123456789'' ! unat (sec t)] @ ''  ''
             @ [''0123456789'' ! unat (year t)] @ '' - '' @ [''0123456789'' ! unat (month t)]
             @ '' - '' @ [''0123456789'' ! unat (date t)]\<rparr>)
      else Ok () (w\<lparr>buffer := snprintf STRING_BUFFER_SIZE (time_stamp (arrays_after_overrun e t)),
                     overrun := True\<rparr>))"
  by (simp add: convert_date_to_string_def sprintf_d_field snprintf_def STRING_BUFFER_SIZE_def
      time_stamp_def)

lemma debug_printf_eq:
  "debug_printf e str w =
     (let t = rtc_time e (n_time w) in
      if sec t < 10 \<and> min_rtc t < 10 \<and> hour t < 10 \<and> date t < 10 \<and> month t < 10 \<and> year t < 10
      then Ok () (w\<lparr>trace := trace w @
               [Printf ([''0123456789'' ! unat (hour t)] @ '' : ''
                 @ [''0123456789'' ! unat (min_rtc t)] @ '' : ''
                 @ [''0123456789'' ! unat (sec t)] @ ''  ''
                 @ [''0123456789'' ! unat (year t)] @ '' - ''
                 @ [''0123456789'' ! unat (month t)] @ '' - ''
                 @ [''0123456789'' ! unat (date t)] @ '': '' @ str @ crlf)],
             buffer :=
               [''0123456789'' ! unat (hour t)] @ '' : '' @ [''0123456789'' ! unat (min_rtc t)]
               @ '' : '' @ [''0123456789'' ! unat (sec t)] @ ''  ''
               @ [''0123456789'' ! unat (year t)] @ '' - '' @ [''0123456789'' ! unat (month t)]
               @ '' - '' @ [''0123456789'' ! unat (date t)],
             n_time := n_time w + 1\<rparr>)
      else Ok () (w\<lparr>trace := trace w @
               [Printf (snprintf STRING_BUFFER_SIZE (time_stamp (arrays_after_overrun e t))
                 @ '': '' @ str @ crlf)],
             buffer := snprintf STRING_BUFFER_SIZE (time_stamp (arrays_after_overrun e t)),
             n_time := n_time w + 1, overrun := True\<rparr>))"
  by (simp add: debug_printf_def convert_date_to_string_eq emit_def Let_def)

text \<open>\<^verbatim>\<open>debug_printf\<close> always returns, having printed one line that ends with the message;
  the time stamp is left abstract.\<close>

lemma convert_date_to_string_shape:
  "\<exists>b ov. convert_date_to_string e t w = Ok () (w\<lparr>buffer := b, overrun := ov\<rparr>)"
proof (cases "sec t < 10 \<and> min_rtc t < 10 \<and> hour t < 10 \<and> date t < 10 \<and> month t < 10
    \<and> year t < 10")
  case True
  then have "convert_date_to_string e t w =
      Ok () (w\<lparr>buffer := buffer (world_of (convert_date_to_string e t w)),
               overrun := overrun w\<rparr>)"
    by (simp add: convert_date_to_string_eq)
  then show ?thesis by blast
next
  case False
  have "convert_date_to_string e t w =
      Ok () (w\<lparr>buffer := snprintf STRING_BUFFER_SIZE (time_stamp (arrays_after_overrun e t)),
               overrun := True\<rparr>)"
    by (simp only: convert_date_to_string_eq False if_False)
  then show ?thesis by blast
qed

lemma debug_printf_cases:
  obtains b ov where
      "debug_printf e str w =
         Ok () (w\<lparr>trace := trace w @ [Printf (b @ '': '' @ str @ crlf)], buffer := b,
                  n_time := n_time w + 1, overrun := ov\<rparr>)"
proof -
  obtain b ov where
    "convert_date_to_string e (rtc_time e (n_time w)) (w\<lparr>n_time := n_time w + 1\<rparr>) =
       Ok () (w\<lparr>n_time := n_time w + 1, buffer := b, overrun := ov\<rparr>)"
    using convert_date_to_string_shape by blast
  then have "debug_printf e str w =
      Ok () (w\<lparr>trace := trace w @ [Printf (b @ '': '' @ str @ crlf)], buffer := b,
               n_time := n_time w + 1, overrun := ov\<rparr>)"
    by (simp add: debug_printf_def emit_def)
  then show ?thesis by (rule that)
qed
section \<open>The bounded retries\<close>

lemma alarm_attempt_eq:
  "alarm_attempt e w =
     w\<lparr>trace := trace w @ retry_events SetAlarm (set_alarm_result e) (n_alarm w) 1,
       n_alarm := n_alarm w + 1\<rparr>"
  by (simp add: alarm_attempt_def Cy_SysLib_Delay_def emit_def)

text \<open>The loop makes \<open>k\<close> attempts, at least one and at most as many as the counter allows;
  all but the last fail, and the last succeeds unless the counter has run out.\<close>

lemma alarm_loop_shape:
  "\<exists>k. 1 \<le> k \<and> k \<le> unat (a - 1) + 1
       \<and> (\<forall>i<k - 1. set_alarm_result e (n_alarm w + i) \<noteq> CY_RTC_SUCCESS)
       \<and> (k \<le> unat (a - 1) \<longrightarrow> set_alarm_result e (n_alarm w + (k - 1)) = CY_RTC_SUCCESS)
       \<and> alarm_loop e a w =
           (set_alarm_result e (n_alarm w + (k - 1)),
            w\<lparr>trace := trace w @ retry_events SetAlarm (set_alarm_result e) (n_alarm w) k,
              n_alarm := n_alarm w + k\<rparr>)"
proof (induction e a w rule: alarm_loop.induct)
  case (1 e a w)
  let ?f = "set_alarm_result e"
  show ?case
  proof (cases "?f (n_alarm w) \<noteq> CY_RTC_SUCCESS \<and> a - 1 \<noteq> 0")
    case True
    let ?w1 = "alarm_attempt e w"
    have n1: "n_alarm ?w1 = Suc (n_alarm w)" by (simp add: alarm_attempt_eq)
    from True have ne: "a - 1 \<noteq> 0" by simp
    have "unat (a - 1 - 1) = unat (a - 1) - 1"
      by (rule unat_minus_one [OF ne])
    moreover have "0 < unat (a - 1)"
      using ne by (simp add: unat_gt_0)
    ultimately have budget: "unat (a - 1 - 1) + 1 = unat (a - 1)"
      by linarith
    from "1.IH" [OF True] obtain k where k: "1 \<le> k" "k \<le> unat (a - 1 - 1) + 1"
      and fails: "\<forall>i<k - 1. ?f (n_alarm ?w1 + i) \<noteq> CY_RTC_SUCCESS"
      and last: "k \<le> unat (a - 1 - 1) \<longrightarrow> ?f (n_alarm ?w1 + (k - 1)) = CY_RTC_SUCCESS"
      and run: "alarm_loop e (a - 1) ?w1 =
                  (?f (n_alarm ?w1 + (k - 1)),
                   ?w1\<lparr>trace := trace ?w1 @ retry_events SetAlarm ?f (n_alarm ?w1) k,
                       n_alarm := n_alarm ?w1 + k\<rparr>)"
      by blast
    have "\<forall>i<Suc k - 1. ?f (n_alarm w + i) \<noteq> CY_RTC_SUCCESS"
    proof (intro allI impI)
      fix i assume i: "i < Suc k - 1"
      show "?f (n_alarm w + i) \<noteq> CY_RTC_SUCCESS"
      proof (cases i)
        case 0
        with True show ?thesis by simp
      next
        case (Suc j)
        with i have "j < k - 1" by simp
        with fails have "?f (n_alarm ?w1 + j) \<noteq> CY_RTC_SUCCESS" by blast
        with Suc show ?thesis by (simp add: n1)
      qed
    qed
    moreover have "Suc k \<le> unat (a - 1) \<longrightarrow> ?f (n_alarm w + (Suc k - 1)) = CY_RTC_SUCCESS"
    proof
      assume "Suc k \<le> unat (a - 1)"
      with budget have "k \<le> unat (a - 1 - 1)" by linarith
      with last have "?f (n_alarm ?w1 + (k - 1)) = CY_RTC_SUCCESS" by blast
      moreover from k(1) have "n_alarm ?w1 + (k - 1) = n_alarm w + (Suc k - 1)"
        by (simp add: n1)
      ultimately show "?f (n_alarm w + (Suc k - 1)) = CY_RTC_SUCCESS" by simp
    qed
    moreover have "alarm_loop e a w =
        (?f (n_alarm w + (Suc k - 1)),
         w\<lparr>trace := trace w @ retry_events SetAlarm ?f (n_alarm w) (Suc k),
           n_alarm := n_alarm w + Suc k\<rparr>)"
    proof -
      have "alarm_loop e a w = alarm_loop e (a - 1) ?w1"
        using True by (subst alarm_loop.simps) simp
      moreover from k(1) have "n_alarm ?w1 + (k - 1) = n_alarm w + (Suc k - 1)"
        by (simp add: n1)
      ultimately show ?thesis
        using run by (simp add: alarm_attempt_eq)
    qed
    moreover from k budget have "1 \<le> Suc k" "Suc k \<le> unat (a - 1) + 1" by simp_all
    ultimately show ?thesis by blast
  next
    case False
    then have "alarm_loop e a w = (?f (n_alarm w), alarm_attempt e w)"
      by (subst alarm_loop.simps) auto
    moreover have "(1::nat) \<le> unat (a - 1) \<longrightarrow> ?f (n_alarm w + (1 - 1)) = CY_RTC_SUCCESS"
      using False by (auto simp: unat_gt_0 [symmetric])
    ultimately have "1 \<le> (1::nat) \<and> (1::nat) \<le> unat (a - 1) + 1
       \<and> (\<forall>i<(1::nat) - 1. ?f (n_alarm w + i) \<noteq> CY_RTC_SUCCESS)
       \<and> ((1::nat) \<le> unat (a - 1) \<longrightarrow> ?f (n_alarm w + (1 - 1)) = CY_RTC_SUCCESS)
       \<and> alarm_loop e a w =
           (?f (n_alarm w + (1 - 1)),
            w\<lparr>trace := trace w @ retry_events SetAlarm ?f (n_alarm w) 1,
              n_alarm := n_alarm w + 1\<rparr>)"
      by (simp add: alarm_attempt_eq)
    then show ?thesis by (rule exI)
  qed
qed

lemma alarm_loop_succeeds:
  assumes "j < 500"
    and "\<forall>i<j. set_alarm_result e (n_alarm w + i) \<noteq> CY_RTC_SUCCESS"
    and "set_alarm_result e (n_alarm w + j) = CY_RTC_SUCCESS"
  shows "alarm_loop e MAX_ATTEMPTS w =
           (CY_RTC_SUCCESS,
            w\<lparr>trace := trace w @ retry_events SetAlarm (set_alarm_result e) (n_alarm w) (Suc j),
              n_alarm := n_alarm w + Suc j\<rparr>)"
proof -
  let ?f = "set_alarm_result e"
  have m: "unat (MAX_ATTEMPTS - 1) = 499" by (simp add: MAX_ATTEMPTS_def)
  from alarm_loop_shape [of MAX_ATTEMPTS e w, unfolded m]
  obtain k where k: "1 \<le> k" "k \<le> 499 + 1"
    and fails: "\<forall>i<k - 1. ?f (n_alarm w + i) \<noteq> CY_RTC_SUCCESS"
    and last: "k \<le> 499 \<longrightarrow> ?f (n_alarm w + (k - 1)) = CY_RTC_SUCCESS"
    and run: "alarm_loop e MAX_ATTEMPTS w =
                (?f (n_alarm w + (k - 1)),
                 w\<lparr>trace := trace w @ retry_events SetAlarm ?f (n_alarm w) k,
                   n_alarm := n_alarm w + k\<rparr>)"
    by blast
  have "\<not> j < k - 1" using fails assms(3) by blast
  moreover have "\<not> k - 1 < j"
  proof
    assume lt: "k - 1 < j"
    with assms(1) have "k \<le> 499" by simp
    with last have "?f (n_alarm w + (k - 1)) = CY_RTC_SUCCESS" by blast
    with assms(2) lt show False by blast
  qed
  ultimately have "k = Suc j" using k(1) by simp
  with run assms(3) show ?thesis by simp
qed

lemma alarm_loop_exhausts:
  assumes "\<forall>i<500. set_alarm_result e (n_alarm w + i) \<noteq> CY_RTC_SUCCESS"
  shows "alarm_loop e MAX_ATTEMPTS w =
           (set_alarm_result e (n_alarm w + 499),
            w\<lparr>trace := trace w @ retry_events SetAlarm (set_alarm_result e) (n_alarm w) 500,
              n_alarm := n_alarm w + 500\<rparr>)"
proof -
  let ?f = "set_alarm_result e"
  have m: "unat (MAX_ATTEMPTS - 1) = 499" by (simp add: MAX_ATTEMPTS_def)
  from alarm_loop_shape [of MAX_ATTEMPTS e w, unfolded m]
  obtain k where k: "1 \<le> k" "k \<le> 499 + 1"
    and last: "k \<le> 499 \<longrightarrow> ?f (n_alarm w + (k - 1)) = CY_RTC_SUCCESS"
    and run: "alarm_loop e MAX_ATTEMPTS w =
                (?f (n_alarm w + (k - 1)),
                 w\<lparr>trace := trace w @ retry_events SetAlarm ?f (n_alarm w) k,
                   n_alarm := n_alarm w + k\<rparr>)"
    by blast
  have "\<not> k \<le> 499"
  proof
    assume le: "k \<le> 499"
    with last have "?f (n_alarm w + (k - 1)) = CY_RTC_SUCCESS" by blast
    moreover from le have "k - 1 < 500" by simp
    ultimately show False using assms by blast
  qed
  with k(2) have "k = 500" by simp
  with run show ?thesis by simp
qed

lemma init_attempt_eq:
  "init_attempt e w =
     w\<lparr>trace := trace w @ retry_events RtcInit (rtc_init_result e) (n_init w) 1,
       n_init := n_init w + 1\<rparr>"
  by (simp add: init_attempt_def Cy_SysLib_Delay_def emit_def)

lemma init_loop_shape:
  "\<exists>k. 1 \<le> k \<and> k \<le> unat (a - 1) + 1
       \<and> (\<forall>i<k - 1. rtc_init_result e (n_init w + i) \<noteq> CY_RTC_SUCCESS)
       \<and> (k \<le> unat (a - 1) \<longrightarrow> rtc_init_result e (n_init w + (k - 1)) = CY_RTC_SUCCESS)
       \<and> init_loop e a w =
           (rtc_init_result e (n_init w + (k - 1)),
            w\<lparr>trace := trace w @ retry_events RtcInit (rtc_init_result e) (n_init w) k,
              n_init := n_init w + k\<rparr>)"
proof (induction e a w rule: init_loop.induct)
  case (1 e a w)
  let ?f = "rtc_init_result e"
  show ?case
  proof (cases "?f (n_init w) \<noteq> CY_RTC_SUCCESS \<and> a - 1 \<noteq> 0")
    case True
    let ?w1 = "init_attempt e w"
    have n1: "n_init ?w1 = Suc (n_init w)" by (simp add: init_attempt_eq)
    from True have ne: "a - 1 \<noteq> 0" by simp
    have "unat (a - 1 - 1) = unat (a - 1) - 1"
      by (rule unat_minus_one [OF ne])
    moreover have "0 < unat (a - 1)"
      using ne by (simp add: unat_gt_0)
    ultimately have budget: "unat (a - 1 - 1) + 1 = unat (a - 1)"
      by linarith
    from "1.IH" [OF True] obtain k where k: "1 \<le> k" "k \<le> unat (a - 1 - 1) + 1"
      and fails: "\<forall>i<k - 1. ?f (n_init ?w1 + i) \<noteq> CY_RTC_SUCCESS"
      and last: "k \<le> unat (a - 1 - 1) \<longrightarrow> ?f (n_init ?w1 + (k - 1)) = CY_RTC_SUCCESS"
      and run: "init_loop e (a - 1) ?w1 =
                  (?f (n_init ?w1 + (k - 1)),
                   ?w1\<lparr>trace := trace ?w1 @ retry_events RtcInit ?f (n_init ?w1) k,
                       n_init := n_init ?w1 + k\<rparr>)"
      by blast
    have "\<forall>i<Suc k - 1. ?f (n_init w + i) \<noteq> CY_RTC_SUCCESS"
    proof (intro allI impI)
      fix i assume i: "i < Suc k - 1"
      show "?f (n_init w + i) \<noteq> CY_RTC_SUCCESS"
      proof (cases i)
        case 0
        with True show ?thesis by simp
      next
        case (Suc j)
        with i have "j < k - 1" by simp
        with fails have "?f (n_init ?w1 + j) \<noteq> CY_RTC_SUCCESS" by blast
        with Suc show ?thesis by (simp add: n1)
      qed
    qed
    moreover have "Suc k \<le> unat (a - 1) \<longrightarrow> ?f (n_init w + (Suc k - 1)) = CY_RTC_SUCCESS"
    proof
      assume "Suc k \<le> unat (a - 1)"
      with budget have "k \<le> unat (a - 1 - 1)" by linarith
      with last have "?f (n_init ?w1 + (k - 1)) = CY_RTC_SUCCESS" by blast
      moreover from k(1) have "n_init ?w1 + (k - 1) = n_init w + (Suc k - 1)"
        by (simp add: n1)
      ultimately show "?f (n_init w + (Suc k - 1)) = CY_RTC_SUCCESS" by simp
    qed
    moreover have "init_loop e a w =
        (?f (n_init w + (Suc k - 1)),
         w\<lparr>trace := trace w @ retry_events RtcInit ?f (n_init w) (Suc k),
           n_init := n_init w + Suc k\<rparr>)"
    proof -
      have "init_loop e a w = init_loop e (a - 1) ?w1"
        using True by (subst init_loop.simps) simp
      moreover from k(1) have "n_init ?w1 + (k - 1) = n_init w + (Suc k - 1)"
        by (simp add: n1)
      ultimately show ?thesis
        using run by (simp add: init_attempt_eq)
    qed
    moreover from k budget have "1 \<le> Suc k" "Suc k \<le> unat (a - 1) + 1" by simp_all
    ultimately show ?thesis by blast
  next
    case False
    then have "init_loop e a w = (?f (n_init w), init_attempt e w)"
      by (subst init_loop.simps) auto
    moreover have "(1::nat) \<le> unat (a - 1) \<longrightarrow> ?f (n_init w + (1 - 1)) = CY_RTC_SUCCESS"
      using False by (auto simp: unat_gt_0 [symmetric])
    ultimately have "1 \<le> (1::nat) \<and> (1::nat) \<le> unat (a - 1) + 1
       \<and> (\<forall>i<(1::nat) - 1. ?f (n_init w + i) \<noteq> CY_RTC_SUCCESS)
       \<and> ((1::nat) \<le> unat (a - 1) \<longrightarrow> ?f (n_init w + (1 - 1)) = CY_RTC_SUCCESS)
       \<and> init_loop e a w =
           (?f (n_init w + (1 - 1)),
            w\<lparr>trace := trace w @ retry_events RtcInit ?f (n_init w) 1,
              n_init := n_init w + 1\<rparr>)"
      by (simp add: init_attempt_eq)
    then show ?thesis by (rule exI)
  qed
qed

lemma init_loop_succeeds:
  assumes "j < 500"
    and "\<forall>i<j. rtc_init_result e (n_init w + i) \<noteq> CY_RTC_SUCCESS"
    and "rtc_init_result e (n_init w + j) = CY_RTC_SUCCESS"
  shows "init_loop e MAX_ATTEMPTS w =
           (CY_RTC_SUCCESS,
            w\<lparr>trace := trace w @ retry_events RtcInit (rtc_init_result e) (n_init w) (Suc j),
              n_init := n_init w + Suc j\<rparr>)"
proof -
  let ?f = "rtc_init_result e"
  have m: "unat (MAX_ATTEMPTS - 1) = 499" by (simp add: MAX_ATTEMPTS_def)
  from init_loop_shape [of MAX_ATTEMPTS e w, unfolded m]
  obtain k where k: "1 \<le> k" "k \<le> 499 + 1"
    and fails: "\<forall>i<k - 1. ?f (n_init w + i) \<noteq> CY_RTC_SUCCESS"
    and last: "k \<le> 499 \<longrightarrow> ?f (n_init w + (k - 1)) = CY_RTC_SUCCESS"
    and run: "init_loop e MAX_ATTEMPTS w =
                (?f (n_init w + (k - 1)),
                 w\<lparr>trace := trace w @ retry_events RtcInit ?f (n_init w) k,
                   n_init := n_init w + k\<rparr>)"
    by blast
  have "\<not> j < k - 1" using fails assms(3) by blast
  moreover have "\<not> k - 1 < j"
  proof
    assume lt: "k - 1 < j"
    with assms(1) have "k \<le> 499" by simp
    with last have "?f (n_init w + (k - 1)) = CY_RTC_SUCCESS" by blast
    with assms(2) lt show False by blast
  qed
  ultimately have "k = Suc j" using k(1) by simp
  with run assms(3) show ?thesis by simp
qed

lemma init_loop_exhausts:
  assumes "\<forall>i<500. rtc_init_result e (n_init w + i) \<noteq> CY_RTC_SUCCESS"
  shows "init_loop e MAX_ATTEMPTS w =
           (rtc_init_result e (n_init w + 499),
            w\<lparr>trace := trace w @ retry_events RtcInit (rtc_init_result e) (n_init w) 500,
              n_init := n_init w + 500\<rparr>)"
proof -
  let ?f = "rtc_init_result e"
  have m: "unat (MAX_ATTEMPTS - 1) = 499" by (simp add: MAX_ATTEMPTS_def)
  from init_loop_shape [of MAX_ATTEMPTS e w, unfolded m]
  obtain k where k: "1 \<le> k" "k \<le> 499 + 1"
    and last: "k \<le> 499 \<longrightarrow> ?f (n_init w + (k - 1)) = CY_RTC_SUCCESS"
    and run: "init_loop e MAX_ATTEMPTS w =
                (?f (n_init w + (k - 1)),
                 w\<lparr>trace := trace w @ retry_events RtcInit ?f (n_init w) k,
                   n_init := n_init w + k\<rparr>)"
    by blast
  have "\<not> k \<le> 499"
  proof
    assume le: "k \<le> 499"
    with last have "?f (n_init w + (k - 1)) = CY_RTC_SUCCESS" by blast
    moreover from le have "k - 1 < 500" by simp
    ultimately show False using assms by blast
  qed
  with k(2) have "k = 500" by simp
  with run show ?thesis by simp
qed

lemma alarm_loop_bounded:
  "\<exists>k r. 1 \<le> k \<and> k \<le> 500
     \<and> alarm_loop e MAX_ATTEMPTS w =
         (r, w\<lparr>trace := trace w @ retry_events SetAlarm (set_alarm_result e) (n_alarm w) k,
              n_alarm := n_alarm w + k\<rparr>)"
proof -
  have m: "unat (MAX_ATTEMPTS - 1) = 499" by (simp add: MAX_ATTEMPTS_def)
  from alarm_loop_shape [of MAX_ATTEMPTS e w, unfolded m]
  obtain k where "1 \<le> k" "k \<le> 499 + 1"
    "alarm_loop e MAX_ATTEMPTS w =
       (set_alarm_result e (n_alarm w + (k - 1)),
        w\<lparr>trace := trace w @ retry_events SetAlarm (set_alarm_result e) (n_alarm w) k,
          n_alarm := n_alarm w + k\<rparr>)"
    by blast
  then show ?thesis by (intro exI [of _ k] exI [of _ "set_alarm_result e (n_alarm w + (k - 1))"]) simp
qed

lemma init_loop_bounded:
  "\<exists>k r. 1 \<le> k \<and> k \<le> 500
     \<and> init_loop e MAX_ATTEMPTS w =
         (r, w\<lparr>trace := trace w @ retry_events RtcInit (rtc_init_result e) (n_init w) k,
              n_init := n_init w + k\<rparr>)"
proof -
  have m: "unat (MAX_ATTEMPTS - 1) = 499" by (simp add: MAX_ATTEMPTS_def)
  from init_loop_shape [of MAX_ATTEMPTS e w, unfolded m]
  obtain k where "1 \<le> k" "k \<le> 499 + 1"
    "init_loop e MAX_ATTEMPTS w =
       (rtc_init_result e (n_init w + (k - 1)),
        w\<lparr>trace := trace w @ retry_events RtcInit (rtc_init_result e) (n_init w) k,
          n_init := n_init w + k\<rparr>)"
    by blast
  then show ?thesis by (intro exI [of _ k] exI [of _ "rtc_init_result e (n_init w + (k - 1))"]) simp
qed

lemma rtc_alarmconfig_eq:
  "rtc_alarmconfig e w =
     (case alarm_loop e MAX_ATTEMPTS
             (world_of (debug_printf e (''RTC alarm will be generated after 1 second'' @ crlf) w))
      of (r, w2) \<Rightarrow> Ok r w2)"
proof -
  obtain b ov where
    "debug_printf e (''RTC alarm will be generated after 1 second'' @ crlf) w =
       Ok () (w\<lparr>trace := trace w @
                 [Printf (b @ '': '' @ (''RTC alarm will be generated after 1 second'' @ crlf) @ crlf)],
               buffer := b, n_time := n_time w + 1, overrun := ov\<rparr>)"
    by (rule debug_printf_cases)
  then show ?thesis
    by (simp only: rtc_alarmconfig_def and_then.simps world_of.simps)
qed

lemma debug_printf_world:
  "debug_printf e str w = Ok () (world_of (debug_printf e str w))"
  "n_alarm (world_of (debug_printf e str w)) = n_alarm w"
  "trace (world_of (debug_printf e str w)) =
     trace w @ [Printf (buffer (world_of (debug_printf e str w)) @ '': '' @ str @ crlf)]"
proof -
  obtain b ov where d:
    "debug_printf e str w =
       Ok () (w\<lparr>trace := trace w @ [Printf (b @ '': '' @ str @ crlf)],
               buffer := b, n_time := n_time w + 1, overrun := ov\<rparr>)"
    by (rule debug_printf_cases)
  show "debug_printf e str w = Ok () (world_of (debug_printf e str w))"
    "n_alarm (world_of (debug_printf e str w)) = n_alarm w"
    "trace (world_of (debug_printf e str w)) =
       trace w @ [Printf (buffer (world_of (debug_printf e str w)) @ '': '' @ str @ crlf)]"
    by (simp_all only: d world_of.simps) simp_all
qed

text \<open>C5. \<^verbatim>\<open>rtc_alarmconfig\<close> prints its status line, which leaves the state \<open>w1\<close>, and
  then returns after at least one and at most 500 attempts to set the alarm, whatever the
  peripheral answers. If setting the alarm fails \<open>j < 500\<close> times and then succeeds, the function
  returns success after exactly \<open>j + 1\<close> attempts; if all of the next 500 attempts fail, it
  returns the result of the 500th after exactly 500 attempts. \<^verbatim>\<open>rtc_init\<close> does the same with
  \<^verbatim>\<open>Cy_RTC_Init\<close>.\<close>

theorem bounded_retry:
  "(let w1 = world_of (debug_printf e (''RTC alarm will be generated after 1 second'' @ crlf) w)
    in debug_printf e (''RTC alarm will be generated after 1 second'' @ crlf) w = Ok () w1
     \<and> n_alarm w1 = n_alarm w
     \<and> trace w1 = trace w @ [Printf (buffer w1 @ '': ''
                     @ (''RTC alarm will be generated after 1 second'' @ crlf) @ crlf)]
     \<and> (\<exists>k r. 1 \<le> k \<and> k \<le> 500
          \<and> rtc_alarmconfig e w =
              Ok r (w1\<lparr>trace := trace w1
                           @ retry_events SetAlarm (set_alarm_result e) (n_alarm w) k,
                       n_alarm := n_alarm w + k\<rparr>))
     \<and> (j < 500 \<and> (\<forall>i<j. set_alarm_result e (n_alarm w + i) \<noteq> CY_RTC_SUCCESS)
        \<and> set_alarm_result e (n_alarm w + j) = CY_RTC_SUCCESS
      \<longrightarrow> rtc_alarmconfig e w =
            Ok CY_RTC_SUCCESS
              (w1\<lparr>trace := trace w1
                     @ retry_events SetAlarm (set_alarm_result e) (n_alarm w) (j + 1),
                 n_alarm := n_alarm w + (j + 1)\<rparr>))
     \<and> ((\<forall>i<500. set_alarm_result e (n_alarm w + i) \<noteq> CY_RTC_SUCCESS)
      \<longrightarrow> rtc_alarmconfig e w =
            Ok (set_alarm_result e (n_alarm w + 499))
              (w1\<lparr>trace := trace w1
                     @ retry_events SetAlarm (set_alarm_result e) (n_alarm w) 500,
                 n_alarm := n_alarm w + 500\<rparr>)))
   \<and> (\<exists>k r. 1 \<le> k \<and> k \<le> 500
        \<and> rtc_init e w =
            Ok r (w\<lparr>trace := trace w @ retry_events RtcInit (rtc_init_result e) (n_init w) k,
                    n_init := n_init w + k\<rparr>))
   \<and> (j < 500 \<and> (\<forall>i<j. rtc_init_result e (n_init w + i) \<noteq> CY_RTC_SUCCESS)
      \<and> rtc_init_result e (n_init w + j) = CY_RTC_SUCCESS
    \<longrightarrow> rtc_init e w =
          Ok CY_RTC_SUCCESS
            (w\<lparr>trace := trace w @ retry_events RtcInit (rtc_init_result e) (n_init w) (j + 1),
              n_init := n_init w + (j + 1)\<rparr>))
   \<and> ((\<forall>i<500. rtc_init_result e (n_init w + i) \<noteq> CY_RTC_SUCCESS)
    \<longrightarrow> rtc_init e w =
          Ok (rtc_init_result e (n_init w + 499))
            (w\<lparr>trace := trace w @ retry_events RtcInit (rtc_init_result e) (n_init w) 500,
              n_init := n_init w + 500\<rparr>))"
proof -
  define w1 where
    "w1 = world_of (debug_printf e (''RTC alarm will be generated after 1 second'' @ crlf) w)"
  have n: "n_alarm w1 = n_alarm w"
    unfolding w1_def by (rule debug_printf_world(2))
  have c: "rtc_alarmconfig e w = (case alarm_loop e MAX_ATTEMPTS w1 of (r, w2) \<Rightarrow> Ok r w2)"
    unfolding w1_def by (rule rtc_alarmconfig_eq)
  have a1: "debug_printf e (''RTC alarm will be generated after 1 second'' @ crlf) w = Ok () w1"
    unfolding w1_def by (rule debug_printf_world(1))
  have a2: "trace w1 = trace w @ [Printf (buffer w1 @ '': ''
                     @ (''RTC alarm will be generated after 1 second'' @ crlf) @ crlf)]"
    unfolding w1_def by (rule debug_printf_world(3))
  have a3: "\<exists>k r. 1 \<le> k \<and> k \<le> 500
          \<and> rtc_alarmconfig e w =
              Ok r (w1\<lparr>trace := trace w1
                           @ retry_events SetAlarm (set_alarm_result e) (n_alarm w) k,
                       n_alarm := n_alarm w + k\<rparr>)"
  proof -
    from alarm_loop_bounded [of e w1] obtain k r where "1 \<le> k" "k \<le> 500"
      "alarm_loop e MAX_ATTEMPTS w1 =
         (r, w1\<lparr>trace := trace w1 @ retry_events SetAlarm (set_alarm_result e) (n_alarm w1) k,
               n_alarm := n_alarm w1 + k\<rparr>)"
      by blast
    then show ?thesis
      unfolding c n by (intro exI [of _ k] exI [of _ r]) simp
  qed
  have a4: "rtc_alarmconfig e w =
            Ok CY_RTC_SUCCESS
              (w1\<lparr>trace := trace w1
                     @ retry_events SetAlarm (set_alarm_result e) (n_alarm w) (j + 1),
                 n_alarm := n_alarm w + (j + 1)\<rparr>)"
    if "j < 500 \<and> (\<forall>i<j. set_alarm_result e (n_alarm w + i) \<noteq> CY_RTC_SUCCESS)
        \<and> set_alarm_result e (n_alarm w + j) = CY_RTC_SUCCESS"
    using that alarm_loop_succeeds [of j e w1]
    unfolding c n by (simp del: retry_events.simps)
  have a5: "rtc_alarmconfig e w =
            Ok (set_alarm_result e (n_alarm w + 499))
              (w1\<lparr>trace := trace w1
                     @ retry_events SetAlarm (set_alarm_result e) (n_alarm w) 500,
                 n_alarm := n_alarm w + 500\<rparr>)"
    if "\<forall>i<500. set_alarm_result e (n_alarm w + i) \<noteq> CY_RTC_SUCCESS"
    using that alarm_loop_exhausts [of e w1]
    unfolding c n by (simp del: retry_events.simps)
  have b3: "\<exists>k r. 1 \<le> k \<and> k \<le> 500
        \<and> rtc_init e w =
            Ok r (w\<lparr>trace := trace w @ retry_events RtcInit (rtc_init_result e) (n_init w) k,
                    n_init := n_init w + k\<rparr>)"
  proof -
    from init_loop_bounded [of e w] obtain k r where "1 \<le> k" "k \<le> 500"
      "init_loop e MAX_ATTEMPTS w =
         (r, w\<lparr>trace := trace w @ retry_events RtcInit (rtc_init_result e) (n_init w) k,
              n_init := n_init w + k\<rparr>)"
      by blast
    then show ?thesis
      unfolding rtc_init_def by (intro exI [of _ k] exI [of _ r]) simp
  qed
  have b4: "rtc_init e w =
          Ok CY_RTC_SUCCESS
            (w\<lparr>trace := trace w @ retry_events RtcInit (rtc_init_result e) (n_init w) (j + 1),
              n_init := n_init w + (j + 1)\<rparr>)"
    if "j < 500 \<and> (\<forall>i<j. rtc_init_result e (n_init w + i) \<noteq> CY_RTC_SUCCESS)
      \<and> rtc_init_result e (n_init w + j) = CY_RTC_SUCCESS"
    using that init_loop_succeeds [of j e w]
    by (simp add: rtc_init_def del: retry_events.simps)
  have b5: "rtc_init e w =
          Ok (rtc_init_result e (n_init w + 499))
            (w\<lparr>trace := trace w @ retry_events RtcInit (rtc_init_result e) (n_init w) 500,
              n_init := n_init w + 500\<rparr>)"
    if "\<forall>i<500. rtc_init_result e (n_init w + i) \<noteq> CY_RTC_SUCCESS"
    using that init_loop_exhausts [of e w]
    by (simp add: rtc_init_def del: retry_events.simps)
  show ?thesis
    unfolding Let_def w1_def [symmetric]
    using n a1 a2 a3 a4 a5 b3 b4 b5 by blast
qed

lemma declaration_order_arrays_alarm_time:
  "declaration_order_arrays alarm_time = (''100'', ''0'', ''106'', ''6'', ''9'', ''24'')"
  by code_simp

lemma debug_printf_two_digit_board:
  "debug_printf (two_digit_board g a h rr) str w =
     Ok () (w\<lparr>trace := trace w @ [Printf (''106 : 0 : 100  24 - 9 - 6'' @ '': '' @ str @ crlf)],
             buffer := ''106 : 0 : 100  24 - 9 - 6'', n_time := n_time w + 1,
             overrun := True\<rparr>)"
proof -
  have "\<not> sec alarm_time < 10" by (simp add: alarm_time_def)
  then show ?thesis
    by (simp add: debug_printf_eq two_digit_board_def board_def always_def Let_def
        declaration_order_arrays_alarm_time time_stamp_def snprintf_def STRING_BUFFER_SIZE_def)
qed

theorem bounded_retry_witness:
  "rtc_alarmconfig (two_digit_board (held_for 11) (failing_for 3 CY_RTC_TIMEOUT) (always None) 0)
     boot_world =
     Ok CY_RTC_SUCCESS
       (boot_world
          \<lparr>trace := [Printf (''106 : 0 : 100  24 - 9 - 6: RTC alarm will be generated after 1 second''
                              @ crlf @ crlf),
                     SetAlarm CY_RTC_TIMEOUT, Delay 5, SetAlarm CY_RTC_TIMEOUT, Delay 5,
                     SetAlarm CY_RTC_TIMEOUT, Delay 5, SetAlarm CY_RTC_SUCCESS, Delay 5],
           buffer := ''106 : 0 : 100  24 - 9 - 6'', n_time := 1, n_alarm := 4, overrun := True\<rparr>)
   \<and> rtc_alarmconfig (board (held_for 11) (always CY_RTC_BAD_PARAM) (always None) 0) boot_world =
     Ok CY_RTC_BAD_PARAM
       (boot_world
          \<lparr>trace := Printf (''1 : 2 : 3  4 - 5 - 6: RTC alarm will be generated after 1 second''
                              @ crlf @ crlf)
                     # retry_events SetAlarm (always CY_RTC_BAD_PARAM) 0 500,
           buffer := ''1 : 2 : 3  4 - 5 - 6'', n_time := 1, n_alarm := 500\<rparr>)
   \<and> rtc_init slow_rtc_board boot_world =
     Ok CY_RTC_SUCCESS
       (boot_world
          \<lparr>trace := [RtcInit CY_RTC_UNKNOWN, Delay 5, RtcInit CY_RTC_UNKNOWN, Delay 5,
                     RtcInit CY_RTC_SUCCESS, Delay 5],
           n_init := 3\<rparr>)
   \<and> rtc_init stuck_rtc_board boot_world =
     Ok CY_RTC_INVALID_STATE
       (boot_world
          \<lparr>trace := retry_events RtcInit (always CY_RTC_INVALID_STATE) 0 500, n_init := 500\<rparr>)"
proof -
  have p: "debug_printf (board g a h 0) (''RTC alarm will be generated after 1 second'' @ crlf)
             boot_world =
           Ok () (boot_world\<lparr>trace := [Printf (''1 : 2 : 3  4 - 5 - 6: RTC alarm will be generated after 1 second'' @ crlf @ crlf)],
                buffer := ''1 : 2 : 3  4 - 5 - 6'', n_time := 1\<rparr>)" for g a h
    by (simp add: debug_printf_eq board_def always_def one_digit_time_def boot_world_def Let_def)
  have q: "debug_printf (two_digit_board g a h 0)
             (''RTC alarm will be generated after 1 second'' @ crlf) boot_world =
           Ok () (boot_world\<lparr>trace := [Printf (''106 : 0 : 100  24 - 9 - 6: RTC alarm will be generated after 1 second'' @ crlf @ crlf)],
                buffer := ''106 : 0 : 100  24 - 9 - 6'', n_time := 1, overrun := True\<rparr>)"
    for g a h
    by (simp add: debug_printf_two_digit_board boot_world_def)
  have r: "retry_events ev f n 4 =
             [ev (f n), Delay 5, ev (f (n + 1)), Delay 5, ev (f (n + 2)), Delay 5,
              ev (f (n + 3)), Delay 5]"
    "retry_events ev f n 3 =
             [ev (f n), Delay 5, ev (f (n + 1)), Delay 5, ev (f (n + 2)), Delay 5]" for ev f n
    by (simp_all add: eval_nat_numeral INIT_DELAY_MS_def)
  have s: "set_alarm_result (two_digit_board g a h rr) = a"
    "set_alarm_result (board g a h rr) = a" for g a h rr
    by (simp_all add: two_digit_board_def board_def)
  note A = bounded_retry
      [where e = "two_digit_board (held_for 11) (failing_for 3 CY_RTC_TIMEOUT) (always None) 0"
         and w = boot_world and j = 3, unfolded Let_def q world_of.simps s]
  note B = bounded_retry
      [where e = "board (held_for 11) (always CY_RTC_BAD_PARAM) (always None) 0"
         and w = boot_world and j = 0, unfolded Let_def p world_of.simps s]
  note C = bounded_retry [where e = slow_rtc_board and w = boot_world and j = 2]
  note D = bounded_retry [where e = stuck_rtc_board and w = boot_world and j = 0]
  have 1: "rtc_alarmconfig (two_digit_board (held_for 11) (failing_for 3 CY_RTC_TIMEOUT) (always None) 0)
     boot_world =
     Ok CY_RTC_SUCCESS
       (boot_world
          \<lparr>trace := [Printf (''106 : 0 : 100  24 - 9 - 6: RTC alarm will be generated after 1 second''
                              @ crlf @ crlf),
                     SetAlarm CY_RTC_TIMEOUT, Delay 5, SetAlarm CY_RTC_TIMEOUT, Delay 5,
                     SetAlarm CY_RTC_TIMEOUT, Delay 5, SetAlarm CY_RTC_SUCCESS, Delay 5],
           buffer := ''106 : 0 : 100  24 - 9 - 6'', n_time := 1, n_alarm := 4, overrun := True\<rparr>)"
    using A by (simp add: failing_for_def boot_world_def r del: retry_events.simps)
  have 2: "rtc_alarmconfig (board (held_for 11) (always CY_RTC_BAD_PARAM) (always None) 0) boot_world =
     Ok CY_RTC_BAD_PARAM
       (boot_world
          \<lparr>trace := Printf (''1 : 2 : 3  4 - 5 - 6: RTC alarm will be generated after 1 second''
                              @ crlf @ crlf)
                     # retry_events SetAlarm (always CY_RTC_BAD_PARAM) 0 500,
           buffer := ''1 : 2 : 3  4 - 5 - 6'', n_time := 1, n_alarm := 500\<rparr>)"
    using B by (simp add: always_def boot_world_def del: retry_events.simps)
  have 3: "rtc_init slow_rtc_board boot_world =
     Ok CY_RTC_SUCCESS
       (boot_world
          \<lparr>trace := [RtcInit CY_RTC_UNKNOWN, Delay 5, RtcInit CY_RTC_UNKNOWN, Delay 5,
                     RtcInit CY_RTC_SUCCESS, Delay 5],
           n_init := 3\<rparr>)"
    using C by (simp add: slow_rtc_board_def board_def failing_for_def boot_world_def r
        del: retry_events.simps)
  have 4: "rtc_init stuck_rtc_board boot_world =
     Ok CY_RTC_INVALID_STATE
       (boot_world
          \<lparr>trace := retry_events RtcInit (always CY_RTC_INVALID_STATE) 0 500, n_init := 500\<rparr>)"
    using D by (simp add: stuck_rtc_board_def board_def always_def boot_world_def
        del: retry_events.simps)
  from 1 2 3 4 show ?thesis by blast
qed
section \<open>The conversion buffers and the format of the status line\<close>

lemma dec_digits_field: "x < 10 \<Longrightarrow> [''0123456789'' ! unat x] = dec_digits (unat x)"
  for x :: "32 word"
  by (simp add: dec_digits_small word_less_nat_alt)

text \<open>C10. The code does not keep the conversions inside their arrays. At 10:00:10, the time
  of the alarm structure, the seconds are rendered as two digits, which with the terminating
  NUL are three characters for the two of \<^verbatim>\<open>secbuf\<close>: \<^verbatim>\<open>sprintf\<close> writes past the end of
  the array, and the time stamp is made of what the arrays hold after that. Only the values 0
  to 9 fit: a conversion overruns as soon as one field of the time is 10 or more.\<close>

theorem conversion_buffer_overrun:
  "printf_d (sint (sec alarm_time)) = ''10''
   \<and> length (printf_d (sint (sec alarm_time))) + 1 = 3
   \<and> sprintf_d 2 (sint (sec alarm_time)) = None
   \<and> convert_date_to_string e alarm_time w =
       Ok () (w\<lparr>buffer := snprintf STRING_BUFFER_SIZE
                            (time_stamp (arrays_after_overrun e alarm_time)),
                overrun := True\<rparr>)
   \<and> (sprintf_d 2 (sint (x :: 32 word)) = None) = (10 \<le> x)
   \<and> overrun (world_of (convert_date_to_string e t w)) =
       (overrun w \<or> 10 \<le> sec t \<or> 10 \<le> min_rtc t \<or> 10 \<le> hour t \<or> 10 \<le> date t
        \<or> 10 \<le> month t \<or> 10 \<le> year t)"
proof -
  have "dec_digits (Suc 0) = ''1''"
    by (simp add: dec_digits_small)
  then have "dec_digits 10 = ''10''"
    by (simp add: dec_digits.simps [of 10])
  then have "printf_d (sint (sec alarm_time)) = ''10''"
    by (simp add: alarm_time_def printf_d_def)
  moreover have "(sprintf_d 2 (sint x) = None) = (10 \<le> x)" for x :: "32 word"
    by (auto simp: sprintf_d_field)
  moreover have "convert_date_to_string e alarm_time w =
       Ok () (w\<lparr>buffer := snprintf STRING_BUFFER_SIZE
                            (time_stamp (arrays_after_overrun e alarm_time)),
                overrun := True\<rparr>)"
    by (simp add: convert_date_to_string_eq alarm_time_def)
  moreover have "sprintf_d 2 (sint (sec alarm_time)) = None"
    by (simp add: sprintf_d_2 alarm_time_def)
  moreover have "overrun (world_of (convert_date_to_string e t w)) =
       (overrun w \<or> 10 \<le> sec t \<or> 10 \<le> min_rtc t \<or> 10 \<le> hour t \<or> 10 \<le> date t
        \<or> 10 \<le> month t \<or> 10 \<le> year t)"
    by (auto simp: convert_date_to_string_eq not_less [symmetric])
  ultimately show ?thesis by simp
qed

text \<open>C8, as the code has it. When each of the six fields of the clock is below 10, the line
  that \<^verbatim>\<open>debug_printf\<close> writes is the hour, \<open>" : "\<close>, the minute, \<open>" : "\<close>, the second, two
  spaces, the year, \<open>" - "\<close>, the month, \<open>" - "\<close>, the day of the month, each number in decimal
  without padding, then \<open>": "\<close>, the message and CR LF. The global \<^verbatim>\<open>buffer\<close> holds the
  part before \<open>": "\<close>.\<close>

theorem status_line_format:
  assumes "t = rtc_time e (n_time w)"
    and "sec t < 10" and "min_rtc t < 10" and "hour t < 10"
    and "date t < 10" and "month t < 10" and "year t < 10"
  shows "debug_printf e str w =
           Ok () (w\<lparr>trace := trace w @
                    [Printf (dec_digits (unat (hour t)) @ '' : '' @ dec_digits (unat (min_rtc t))
                       @ '' : '' @ dec_digits (unat (sec t)) @ ''  '' @ dec_digits (unat (year t))
                       @ '' - '' @ dec_digits (unat (month t)) @ '' - ''
                       @ dec_digits (unat (date t)) @ '': '' @ str @ crlf)],
                  buffer := dec_digits (unat (hour t)) @ '' : '' @ dec_digits (unat (min_rtc t))
                       @ '' : '' @ dec_digits (unat (sec t)) @ ''  '' @ dec_digits (unat (year t))
                       @ '' - '' @ dec_digits (unat (month t)) @ '' - ''
                       @ dec_digits (unat (date t)),
                  n_time := n_time w + 1\<rparr>)"
  using assms
  by (simp add: debug_printf_eq Let_def dec_digits_field [symmetric])

theorem status_line_format_witness:
  "debug_printf (board (held_for 11) (always CY_RTC_SUCCESS) (always None) 0)
     (''Wakeup from DeepSleep mode'' @ crlf) boot_world =
   Ok () (boot_world
     \<lparr>trace := [Printf (''1 : 2 : 3  4 - 5 - 6: Wakeup from DeepSleep mode'' @ crlf @ crlf)],
      buffer := ''1 : 2 : 3  4 - 5 - 6'', n_time := 1\<rparr>)"
proof -
  let ?e = "board (held_for 11) (always CY_RTC_SUCCESS) (always None) 0"
  have t: "one_digit_time = rtc_time ?e (n_time boot_world)"
    by (simp add: board_def always_def)
  have d: "dec_digits (Suc 0) = ''1''" "dec_digits 2 = ''2''" "dec_digits 3 = ''3''"
    "dec_digits 4 = ''4''" "dec_digits 5 = ''5''" "dec_digits 6 = ''6''"
    by (simp_all add: dec_digits_small)
  show ?thesis
    using status_line_format [OF t, of "''Wakeup from DeepSleep mode'' @ crlf"]
    by (simp add: one_digit_time_def boot_world_def d)
qed

theorem status_line_format_counterexample:
  "trace (world_of (debug_printf (board (held_for 11) (always CY_RTC_SUCCESS) (always None) 0)
                      (''Go to DeepSleep mode'' @ crlf) boot_world))
     = [Printf (''1 : 2 : 3  4 - 5 - 6: Go to DeepSleep mode'' @ crlf @ crlf)]
   \<and> \<not> prefix ''01:02:03: Go to DeepSleep mode''
          (''1 : 2 : 3  4 - 5 - 6: Go to DeepSleep mode'' @ crlf @ crlf)
   \<and> \<not> prefix ''1:2:3: Go to DeepSleep mode''
          (''1 : 2 : 3  4 - 5 - 6: Go to DeepSleep mode'' @ crlf @ crlf)
   \<and> rtc_time (board (held_for 11) (always CY_RTC_SUCCESS) (always None) 0) 0 = one_digit_time
   \<and> hour one_digit_time = 1 \<and> min_rtc one_digit_time = 2 \<and> sec one_digit_time = 3"
  by (simp add: debug_printf_eq board_def always_def one_digit_time_def boot_world_def Let_def)

section \<open>One turn of the loop\<close>

lemma emitted_append: "trace w' = trace w @ evs \<Longrightarrow> emitted w w' = evs"
  by (simp add: emitted_def)

lemma press_loop_Some:
  assumes "press_loop e c w = Some y"
  shows "\<exists>d. (\<forall>i<d. gpio_pressed e (n_gpio w + i)) \<and> \<not> gpio_pressed e (n_gpio w + d)"
proof (rule press_loop.raw_induct
    [where P = "\<lambda>e c w y. \<exists>d. (\<forall>i<d. gpio_pressed e (n_gpio w + i))
                                \<and> \<not> gpio_pressed e (n_gpio w + d)", OF _ assms])
  fix pl :: "env \<Rightarrow> 32 word \<Rightarrow> world \<Rightarrow> (32 word \<times> world) option"
    and e :: env and c :: "32 word" and w :: world and y :: "32 word \<times> world"
  assume IH: "\<And>e c w y. pl e c w = Some y \<Longrightarrow>
                \<exists>d. (\<forall>i<d. gpio_pressed e (n_gpio w + i)) \<and> \<not> gpio_pressed e (n_gpio w + d)"
    and step: "(if gpio_pressed e (n_gpio w)
                then pl e (c + 1)
                       (Cy_SysLib_Delay SHORT_GLITCH_DELAY_MS (w\<lparr>n_gpio := n_gpio w + 1\<rparr>))
                else Some (c, w\<lparr>n_gpio := n_gpio w + 1\<rparr>)) = Some y"
  show "\<exists>d. (\<forall>i<d. gpio_pressed e (n_gpio w + i)) \<and> \<not> gpio_pressed e (n_gpio w + d)"
  proof (cases "gpio_pressed e (n_gpio w)")
    case False
    then have "(\<forall>i<0. gpio_pressed e (n_gpio w + i)) \<and> \<not> gpio_pressed e (n_gpio w + 0)"
      by simp
    then show ?thesis by (rule exI)
  next
    case True
    let ?w1 = "Cy_SysLib_Delay SHORT_GLITCH_DELAY_MS (w\<lparr>n_gpio := n_gpio w + 1\<rparr>)"
    from True step have "pl e (c + 1) ?w1 = Some y" by simp
    from IH [OF this] obtain d where d: "\<forall>i<d. gpio_pressed e (n_gpio ?w1 + i)"
      "\<not> gpio_pressed e (n_gpio ?w1 + d)" by blast
    have "\<forall>i<Suc d. gpio_pressed e (n_gpio w + i)"
    proof (intro allI impI)
      fix i assume "i < Suc d"
      show "gpio_pressed e (n_gpio w + i)"
      proof (cases i)
        case 0
        with True show ?thesis by simp
      next
        case (Suc j)
        with \<open>i < Suc d\<close> d(1) have "gpio_pressed e (n_gpio ?w1 + j)" by simp
        with Suc show ?thesis by (simp add: Cy_SysLib_Delay_def emit_def)
      qed
    qed
    moreover from d(2) have "\<not> gpio_pressed e (n_gpio w + Suc d)"
      by (simp add: Cy_SysLib_Delay_def emit_def)
    ultimately show ?thesis by blast
  qed
qed

text \<open>When \<^verbatim>\<open>get_switch_event\<close> returns, the button was pressed for some number \<open>d\<close> of
  reads; the event is that of \<open>d\<close> and only delays have happened.\<close>

lemma get_switch_event_Some:
  assumes "get_switch_event e w = Some (ev, w1)"
  obtains d where "ev = press_event (word_of_nat d)"
    and "w1 = w\<lparr>trace := trace w @ replicate (Suc d) (Delay SHORT_GLITCH_DELAY_MS),
                n_gpio := n_gpio w + d + 1\<rparr>"
proof -
  from assms obtain y where "press_loop e 0 w = Some y"
    by (auto simp: get_switch_event_def split: option.splits)
  from press_loop_Some [OF this] obtain d where
    "\<forall>i<d. gpio_pressed e (n_gpio w + i)" "\<not> gpio_pressed e (n_gpio w + d)" by blast
  from get_switch_event_released [OF this] assms that show thesis by simp
qed

lemma alarm_loop_run:
  obtains k where "1 \<le> k" and "k \<le> 500"
    and "alarm_loop e MAX_ATTEMPTS w =
           (set_alarm_result e (n_alarm w + (k - 1)),
            w\<lparr>trace := trace w @ retry_events SetAlarm (set_alarm_result e) (n_alarm w) k,
              n_alarm := n_alarm w + k\<rparr>)"
proof -
  have m: "unat (MAX_ATTEMPTS - 1) = 499" by (simp add: MAX_ATTEMPTS_def)
  from alarm_loop_shape [of MAX_ATTEMPTS e w, unfolded m]
  obtain k where "1 \<le> k" and "k \<le> 499 + 1"
    and "alarm_loop e MAX_ATTEMPTS w =
           (set_alarm_result e (n_alarm w + (k - 1)),
            w\<lparr>trace := trace w @ retry_events SetAlarm (set_alarm_result e) (n_alarm w) k,
              n_alarm := n_alarm w + k\<rparr>)"
    by blast
  then show thesis by (intro that [of k]) simp_all
qed

lemma init_loop_run:
  obtains k where "1 \<le> k" and "k \<le> 500"
    and "init_loop e MAX_ATTEMPTS w =
           (rtc_init_result e (n_init w + (k - 1)),
            w\<lparr>trace := trace w @ retry_events RtcInit (rtc_init_result e) (n_init w) k,
              n_init := n_init w + k\<rparr>)"
proof -
  have m: "unat (MAX_ATTEMPTS - 1) = 499" by (simp add: MAX_ATTEMPTS_def)
  from init_loop_shape [of MAX_ATTEMPTS e w, unfolded m]
  obtain k where "1 \<le> k" and "k \<le> 499 + 1"
    and "init_loop e MAX_ATTEMPTS w =
           (rtc_init_result e (n_init w + (k - 1)),
            w\<lparr>trace := trace w @ retry_events RtcInit (rtc_init_result e) (n_init w) k,
              n_init := n_init w + k\<rparr>)"
    by blast
  then show thesis by (intro that [of k]) simp_all
qed

lemma retry_events_set:
  "x \<in> set (retry_events ev f n k) \<Longrightarrow> x = Delay INIT_DELAY_MS \<or> (\<exists>r. x = ev r)"
  by (induction k arbitrary: n) auto

lemma retry_events_first: "1 \<le> k \<Longrightarrow> ev (f n) \<in> set (retry_events ev f n k)"
  by (cases k) simp_all

subsection \<open>The steps of the loop body\<close>

lemma debug_printf_step:
  obtains w' p where "debug_printf e str w = Ok () w'"
      "trace w' = trace w @ [Printf p]" "logs_message str (Printf p)"
      "alarm_flag w' = alarm_flag w" "primask w' = primask w"
      "n_alarm w' = n_alarm w" "n_init w' = n_init w"
proof -
  obtain b ov where
    "debug_printf e str w =
       Ok () (w\<lparr>trace := trace w @ [Printf (b @ '': '' @ str @ crlf)], buffer := b,
                n_time := n_time w + 1, overrun := ov\<rparr>)"
    by (rule debug_printf_cases)
  then show thesis
    by (rule that [where p = "b @ '': '' @ str @ crlf"]) (simp_all add: suffix_def)
qed

lemma rtc_alarmconfig_step:
  obtains w' p k r where "1 \<le> k" "k \<le> 500" "rtc_alarmconfig e w = Ok r w'"
      "trace w' = trace w @ Printf p # retry_events SetAlarm (set_alarm_result e) (n_alarm w) k"
      "alarm_flag w' = alarm_flag w" "primask w' = primask w"
proof -
  obtain w1 p where printed: "debug_printf e (''RTC alarm will be generated after 1 second'' @ crlf) w = Ok () w1"
      "trace w1 = trace w @ [Printf p]"
      "alarm_flag w1 = alarm_flag w" "primask w1 = primask w"
      "n_alarm w1 = n_alarm w"
    by (rule debug_printf_step)
  obtain k where k: "1 \<le> k" "k \<le> 500"
    and loop: "alarm_loop e MAX_ATTEMPTS w1 =
           (set_alarm_result e (n_alarm w1 + (k - 1)),
            w1\<lparr>trace := trace w1 @ retry_events SetAlarm (set_alarm_result e) (n_alarm w1) k,
               n_alarm := n_alarm w1 + k\<rparr>)"
    by (rule alarm_loop_run)
  have "rtc_alarmconfig e w =
          Ok (set_alarm_result e (n_alarm w1 + (k - 1)))
            (w1\<lparr>trace := trace w1 @ retry_events SetAlarm (set_alarm_result e) (n_alarm w1) k,
               n_alarm := n_alarm w1 + k\<rparr>)"
    by (simp only: rtc_alarmconfig_def printed(1) and_then.simps loop prod.case)
  with k show thesis
    by (rule that [where p = p]) (simp_all add: printed)
qed

lemma deep_sleep_step:
  obtains (asleep) w' where "Cy_SysPm_CpuEnterDeepSleep e w = Stop Asleep_forever w'"
      "trace w' = trace w @ [DeepSleep]" "alarm_flag w' = alarm_flag w" "primask w' = primask w"
  | (woken) w' where "Cy_SysPm_CpuEnterDeepSleep e w = Ok () w'"
      "trace w' = trace w @ [DeepSleep]"
      "alarm_flag w' = alarm_flag w \<or> alarm_flag w' = 1" "primask w' = primask w"
proof (cases "deep_sleep_wake e (n_sleep w)")
  case None
  show thesis
    by (rule that(1) [where w' = "emit DeepSleep (w\<lparr>n_sleep := n_sleep w + 1\<rparr>)"])
      (simp_all add: Cy_SysPm_CpuEnterDeepSleep_def None emit_def)
next
  case (Some src)
  show thesis
    by (rule that(2)
        [where w' = "if primask w then emit DeepSleep (w\<lparr>n_sleep := n_sleep w + 1\<rparr>)
             else rtc_interrupt_handler (src = Alarm2_irq)
                    (emit DeepSleep (w\<lparr>n_sleep := n_sleep w + 1\<rparr>))"])
      (simp_all add: Cy_SysPm_CpuEnterDeepSleep_def Some emit_def rtc_interrupt_handler_def
        Cy_RTC_Alarm2Interrupt_def)
qed

lemma hibernate_step:
  obtains (powered_down) w' where "Cy_SysPm_SystemEnterHibernate e w = Stop Powered_down w'"
      "hibernate_result e (n_hib w) = None"
      "trace w' = trace w @ [EnterHibernate None]" "alarm_flag w' = alarm_flag w"
      "primask w' = primask w"
  | (returned) w' st where "Cy_SysPm_SystemEnterHibernate e w = Ok st w'"
      "hibernate_result e (n_hib w) = Some st"
      "trace w' = trace w @ [EnterHibernate (Some st)]" "alarm_flag w' = alarm_flag w"
      "primask w' = primask w"
proof (cases "hibernate_result e (n_hib w)")
  case None
  show thesis
    by (rule that(1) [where w' = "emit (EnterHibernate None) (w\<lparr>n_hib := n_hib w + 1\<rparr>)"])
      (simp_all add: Cy_SysPm_SystemEnterHibernate_def None emit_def)
next
  case (Some st)
  show thesis
    by (rule that(2)
        [where w' = "emit (EnterHibernate (Some st)) (w\<lparr>n_hib := n_hib w + 1\<rparr>)" and st = st])
      (simp_all add: Cy_SysPm_SystemEnterHibernate_def Some emit_def)
qed

lemma delay_step:
  "trace (Cy_SysLib_Delay ms w) = trace w @ [Delay ms]"
  "alarm_flag (Cy_SysLib_Delay ms w) = alarm_flag w"
  "primask (Cy_SysLib_Delay ms w) = primask w"
  "n_hib (Cy_SysLib_Delay ms w) = n_hib w"
  by (simp_all add: Cy_SysLib_Delay_def emit_def)

lemma emit_step:
  "trace (emit ev w) = trace w @ [ev]"
  "alarm_flag (emit ev w) = alarm_flag w"
  "primask (emit ev w) = primask w"
  "n_hib (emit ev w) = n_hib w"
  by (simp_all add: emit_def)

subsection \<open>The two cases of the \<^verbatim>\<open>switch\<close>\<close>

text \<open>The two ways in which the short-press case can go: the deep sleep never ends, or the
  case completes.\<close>

lemma short_press_cases:
  obtains
    (asleep) w' pa pb k where "1 \<le> k" "k \<le> 500"
      "handle_switch_event e SWITCH_SHORT_PRESS w = Stop Asleep_forever w'"
      "trace w' = trace w @ [Printf pa, Printf pb]
         @ retry_events SetAlarm (set_alarm_result e) (n_alarm w) k
         @ [Delay LONG_GLITCH_DELAY_MS, DeepSleep]"
      "alarm_flag w' = alarm_flag w" "primask w' = primask w"
      "logs_message (''Go to DeepSleep mode'' @ crlf) (Printf pa)"
  | (woken) w' pa pb pc k where "1 \<le> k" "k \<le> 500"
      "handle_switch_event e SWITCH_SHORT_PRESS w = Ok () w'"
      "trace w' = trace w @ [Printf pa, Printf pb]
         @ retry_events SetAlarm (set_alarm_result e) (n_alarm w) k
         @ [Delay LONG_GLITCH_DELAY_MS, DeepSleep, Printf pc]"
      "alarm_flag w' = alarm_flag w \<or> alarm_flag w' = 1" "primask w' = primask w"
      "logs_message (''Go to DeepSleep mode'' @ crlf) (Printf pa)"
      "logs_message (''Wakeup from DeepSleep mode'' @ crlf) (Printf pc)"
proof -
  obtain w1 pa where first: "debug_printf e (''Go to DeepSleep mode'' @ crlf) w = Ok () w1"
      "trace w1 = trace w @ [Printf pa]" "logs_message (''Go to DeepSleep mode'' @ crlf) (Printf pa)"
      "alarm_flag w1 = alarm_flag w" "primask w1 = primask w"
      "n_alarm w1 = n_alarm w"
    by (rule debug_printf_step)
  obtain w2 pb k r where second: "1 \<le> k" "k \<le> 500" "rtc_alarmconfig e w1 = Ok r w2"
      "trace w2 = trace w1 @ Printf pb # retry_events SetAlarm (set_alarm_result e) (n_alarm w1) k"
      "alarm_flag w2 = alarm_flag w1" "primask w2 = primask w1"
    by (rule rtc_alarmconfig_step)
  let ?w3 = "Cy_SysLib_Delay LONG_GLITCH_DELAY_MS w2"
  have body: "handle_switch_event e SWITCH_SHORT_PRESS w =
                and_then (Cy_SysPm_CpuEnterDeepSleep e ?w3)
                  (\<lambda>_ w3. debug_printf e (''Wakeup from DeepSleep mode'' @ crlf) w3)"
    by (simp only: handle_switch_event_def en_switch_event_t.case first(1) second(3)
        and_then.simps)
  have t3: "trace ?w3 = trace w @ [Printf pa, Printf pb]
              @ retry_events SetAlarm (set_alarm_result e) (n_alarm w) k
              @ [Delay LONG_GLITCH_DELAY_MS]"
    by (simp add: delay_step second first)
  show thesis
  proof (cases rule: deep_sleep_step [of e ?w3])
    case sl: (asleep w4)
    have "handle_switch_event e SWITCH_SHORT_PRESS w = Stop Asleep_forever w4"
      by (simp only: body sl(1) and_then.simps)
    with second(1,2) show thesis
    proof (rule asleep [where pa = pa and pb = pb])
      show "trace w4 = trace w @ [Printf pa, Printf pb]
         @ retry_events SetAlarm (set_alarm_result e) (n_alarm w) k
         @ [Delay LONG_GLITCH_DELAY_MS, DeepSleep]"
        by (simp add: sl t3)
      show "alarm_flag w4 = alarm_flag w"
        by (simp add: sl delay_step second first)
      show "primask w4 = primask w"
        by (simp add: sl delay_step second first)
      show "logs_message (''Go to DeepSleep mode'' @ crlf) (Printf pa)"
        by (rule first(3))
    qed
  next
    case sleep: (woken w4)
    have body4: "handle_switch_event e SWITCH_SHORT_PRESS w =
                   debug_printf e (''Wakeup from DeepSleep mode'' @ crlf) w4"
      by (simp only: body sleep(1) and_then.simps)
    have f4: "alarm_flag w4 = alarm_flag w \<or> alarm_flag w4 = 1"
      using sleep(3) by (simp add: delay_step second first)
    obtain w5 pc where last: "debug_printf e (''Wakeup from DeepSleep mode'' @ crlf) w4 = Ok () w5"
        "trace w5 = trace w4 @ [Printf pc]"
        "logs_message (''Wakeup from DeepSleep mode'' @ crlf) (Printf pc)"
        "alarm_flag w5 = alarm_flag w4" "primask w5 = primask w4"
      by (rule debug_printf_step)
    from second(1,2) body4 [unfolded last(1)] show thesis
    proof (rule woken [where pa = pa and pb = pb and pc = pc])
      show "trace w5 = trace w @ [Printf pa, Printf pb]
         @ retry_events SetAlarm (set_alarm_result e) (n_alarm w) k
         @ [Delay LONG_GLITCH_DELAY_MS, DeepSleep, Printf pc]"
        by (simp add: last sleep t3)
      show "alarm_flag w5 = alarm_flag w \<or> alarm_flag w5 = 1"
        using f4 by (simp add: last)
      show "primask w5 = primask w"
        by (simp add: last sleep delay_step second first)
      show "logs_message (''Go to DeepSleep mode'' @ crlf) (Printf pa)"
        by (rule first(3))
      show "logs_message (''Wakeup from DeepSleep mode'' @ crlf) (Printf pc)"
        by (rule last(3))
    qed
  qed
qed
text \<open>The three ways in which the long-press case can go: the system powers down, the
  power-down call returns success, or it returns a failure and the assertion stops the
  program.\<close>

lemma long_press_cases:
  obtains
    (powered_down) w' pa pb k where "1 \<le> k" "k \<le> 500"
      "handle_switch_event e SWITCH_LONG_PRESS w = Stop Powered_down w'"
      "trace w' = trace w @ [Printf pa, Printf pb]
         @ retry_events SetAlarm (set_alarm_result e) (n_alarm w) k
         @ [Delay LONG_GLITCH_DELAY_MS, SetHibernateWakeupSource, EnterHibernate None]"
      "alarm_flag w' = alarm_flag w" "primask w' = primask w"
  | (returned_success) w' pa pb k where "1 \<le> k" "k \<le> 500"
      "handle_switch_event e SWITCH_LONG_PRESS w = Ok () w'"
      "trace w' = trace w @ [Printf pa, Printf pb]
         @ retry_events SetAlarm (set_alarm_result e) (n_alarm w) k
         @ [Delay LONG_GLITCH_DELAY_MS, SetHibernateWakeupSource,
            EnterHibernate (Some CY_SYSPM_SUCCESS)]"
      "alarm_flag w' = alarm_flag w" "primask w' = primask w"
  | (rejected) w' pa pb k st where "1 \<le> k" "k \<le> 500" "st \<noteq> CY_SYSPM_SUCCESS"
      "handle_switch_event e SWITCH_LONG_PRESS w = Stop Halted w'"
      "trace w' = trace w @ [Printf pa, Printf pb]
         @ retry_events SetAlarm (set_alarm_result e) (n_alarm w) k
         @ [Delay LONG_GLITCH_DELAY_MS, SetHibernateWakeupSource, EnterHibernate (Some st),
            Printf (''The CPU did not enter Hibernate mode'' @ crlf @ crlf), AssertFail]"
      "alarm_flag w' = alarm_flag w" "primask w' = primask w"
proof -
  obtain w1 pa where first: "debug_printf e (''Go to Hibernate mode'' @ crlf) w = Ok () w1"
      "trace w1 = trace w @ [Printf pa]"
      "alarm_flag w1 = alarm_flag w" "primask w1 = primask w"
      "n_alarm w1 = n_alarm w"
    by (rule debug_printf_step)
  obtain w2 pb k r where second: "1 \<le> k" "k \<le> 500" "rtc_alarmconfig e w1 = Ok r w2"
      "trace w2 = trace w1 @ Printf pb # retry_events SetAlarm (set_alarm_result e) (n_alarm w1) k"
      "alarm_flag w2 = alarm_flag w1" "primask w2 = primask w1"
    by (rule rtc_alarmconfig_step)
  let ?w3 = "emit SetHibernateWakeupSource (Cy_SysLib_Delay LONG_GLITCH_DELAY_MS w2)"
  have body: "handle_switch_event e SWITCH_LONG_PRESS w =
                and_then (Cy_SysPm_SystemEnterHibernate e ?w3)
                  (\<lambda>st w3.
                     if CY_SYSPM_SUCCESS \<noteq> st
                     then CY_ASSERT_0
                            (emit (Printf (''The CPU did not enter Hibernate mode''
                                           @ crlf @ crlf)) w3)
                     else Ok () w3)"
    by (simp only: handle_switch_event_def en_switch_event_t.case first(1) second(3)
        and_then.simps)
  have t3: "trace ?w3 = trace w @ [Printf pa, Printf pb]
              @ retry_events SetAlarm (set_alarm_result e) (n_alarm w) k
              @ [Delay LONG_GLITCH_DELAY_MS, SetHibernateWakeupSource]"
    by (simp add: delay_step emit_step second first)
  show thesis
  proof (cases rule: hibernate_step [of e ?w3])
    case hib: (powered_down w4)
    have "handle_switch_event e SWITCH_LONG_PRESS w = Stop Powered_down w4"
      by (simp only: body hib(1) and_then.simps)
    with second(1,2) show thesis
      by (rule powered_down [where pa = pa and pb = pb])
        (simp_all add: hib t3 delay_step emit_step second first)
  next
    case hib: (returned w4 st)
    show thesis
    proof (cases "st = CY_SYSPM_SUCCESS")
      case True
      have "handle_switch_event e SWITCH_LONG_PRESS w = Ok () w4"
        by (simp only: body hib(1) and_then.simps True) simp
      with second(1,2) show thesis
        by (rule returned_success [where pa = pa and pb = pb])
          (use True in \<open>simp_all add: hib t3 delay_step emit_step second first\<close>)
    next
      case False
      let ?w5 = "emit AssertFail
                   (emit (Printf (''The CPU did not enter Hibernate mode'' @ crlf @ crlf)) w4)"
      from False have "CY_SYSPM_SUCCESS \<noteq> st" by blast
      then have "handle_switch_event e SWITCH_LONG_PRESS w = Stop Halted ?w5"
        by (simp only: body hib(1) and_then.simps CY_ASSERT_0_def) simp
      with second(1,2) False show thesis
        by (rule rejected [where pa = pa and pb = pb])
          (simp_all add: hib t3 delay_step emit_step second first)
    qed
  qed
qed
subsection \<open>Routing\<close>

lemma before_marker:
  "m \<notin> set xs \<Longrightarrow> x \<in> set xs \<Longrightarrow> x \<in> set (takeWhile (\<lambda>y. y \<noteq> m) (xs @ m # ys))"
proof -
  assume m: "m \<notin> set xs" and x: "x \<in> set xs"
  from m have "takeWhile (\<lambda>y. y \<noteq> m) xs = xs"
    by auto
  with x show ?thesis by (simp add: takeWhile_tail)
qed

lemma main_iteration_Some:
  assumes "get_switch_event e w = Some (ev, w1)" and "main_iteration e w = Some r"
  shows "r = handle_switch_event e ev w1"
  using assms by (simp add: main_iteration_def)

text \<open>C6. In every turn of the loop, the event that the button gives is handled by
  \<^verbatim>\<open>handle_switch_event\<close> and by nothing else. After a short press the alarm is set and
  then the deep sleep is entered, and no power-down call is made; after a long press the alarm
  is set, then the wake-up source is selected and the power-down is requested, and no deep
  sleep is entered; without an event the turn ends at once, with nothing but the delays of the
  button sampling.\<close>

theorem event_routing:
  assumes "get_switch_event e w = Some (ev, w1)"
  shows "(let r = handle_switch_event e ev w1 in
          main_iteration e w = Some r
          \<and> (ev = SWITCH_SHORT_PRESS \<longrightarrow>
               (\<forall>st. EnterHibernate st \<notin> set (emitted w (world_of r)))
               \<and> SetHibernateWakeupSource \<notin> set (emitted w (world_of r))
               \<and> DeepSleep \<in> set (emitted w (world_of r))
               \<and> (\<exists>st. SetAlarm st
                     \<in> set (takeWhile (\<lambda>x. x \<noteq> DeepSleep) (emitted w (world_of r)))))
          \<and> (ev = SWITCH_LONG_PRESS \<longrightarrow>
               DeepSleep \<notin> set (emitted w (world_of r))
               \<and> (\<exists>st. EnterHibernate st \<in> set (emitted w (world_of r)))
               \<and> (\<exists>st. SetAlarm st
                     \<in> set (takeWhile (\<lambda>x. x \<noteq> SetHibernateWakeupSource)
                             (emitted w (world_of r)))))
          \<and> (ev = SWITCH_NO_EVENT \<longrightarrow>
               r = Ok () w1 \<and> set (emitted w w1) \<subseteq> {Delay SHORT_GLITCH_DELAY_MS}))"
proof -
  define r where "r = handle_switch_event e ev w1"
  from assms obtain d where
    w1: "w1 = w\<lparr>trace := trace w @ replicate (Suc d) (Delay SHORT_GLITCH_DELAY_MS),
                n_gpio := n_gpio w + d + 1\<rparr>"
    by (rule get_switch_event_Some)
  let ?ds = "replicate (Suc d) (Delay SHORT_GLITCH_DELAY_MS)"
  have t1: "trace w1 = trace w @ ?ds" by (simp add: w1)
  have r: "r = handle_switch_event e ev w1"
    by (rule r_def)
  have it: "main_iteration e w = Some r"
    using assms by (simp add: main_iteration_def r_def)
  have no_retry: "DeepSleep \<notin> set (retry_events SetAlarm f n k)"
    "SetHibernateWakeupSource \<notin> set (retry_events SetAlarm f n k)"
    "EnterHibernate st \<notin> set (retry_events SetAlarm f n k)" for f n k st
    using retry_events_set [of _ SetAlarm f n k] by blast+
  have short: "(\<forall>st. EnterHibernate st \<notin> set (emitted w (world_of r)))
            \<and> SetHibernateWakeupSource \<notin> set (emitted w (world_of r))
            \<and> DeepSleep \<in> set (emitted w (world_of r))
            \<and> (\<exists>st. SetAlarm st
                  \<in> set (takeWhile (\<lambda>x. x \<noteq> DeepSleep) (emitted w (world_of r))))"
    if ev: "ev = SWITCH_SHORT_PRESS"
  proof -
    have marker: ?thesis
      if k: "1 \<le> k"
        and tr: "trace (world_of r) = trace w1 @ [Printf pa, Printf pb]
                   @ retry_events SetAlarm (set_alarm_result e) (n_alarm w1) k
                   @ [Delay LONG_GLITCH_DELAY_MS, DeepSleep] @ rest"
        and rest: "\<forall>st. EnterHibernate st \<notin> set rest" "SetHibernateWakeupSource \<notin> set rest"
      for k pa pb rest
    proof -
      let ?pre = "?ds @ [Printf pa, Printf pb]
                    @ retry_events SetAlarm (set_alarm_result e) (n_alarm w1) k
                    @ [Delay LONG_GLITCH_DELAY_MS]"
      have em: "emitted w (world_of r) = ?pre @ DeepSleep # rest"
        by (simp add: tr emitted_def t1)
      have "SetAlarm (set_alarm_result e (n_alarm w1)) \<in> set ?pre"
        using retry_events_first [OF k] by simp
      moreover have "DeepSleep \<notin> set ?pre"
        by (simp add: no_retry)
      ultimately have "SetAlarm (set_alarm_result e (n_alarm w1))
          \<in> set (takeWhile (\<lambda>x. x \<noteq> DeepSleep) (emitted w (world_of r)))"
        unfolding em by (intro before_marker)
      then have "\<exists>st. SetAlarm st
          \<in> set (takeWhile (\<lambda>x. x \<noteq> DeepSleep) (emitted w (world_of r)))" by (rule exI)
      moreover have "(\<forall>st. EnterHibernate st \<notin> set (emitted w (world_of r)))
          \<and> SetHibernateWakeupSource \<notin> set (emitted w (world_of r))
          \<and> DeepSleep \<in> set (emitted w (world_of r))"
        using rest by (simp add: em no_retry)
      ultimately show ?thesis by blast
    qed
    show ?thesis
    proof (cases rule: short_press_cases [of e w1])
      case (asleep w' pa pb k)
      from marker [OF asleep(1), of pa pb "[]"] asleep(3,4) show ?thesis
        by (simp add: r ev)
    next
      case (woken w' pa pb pc k)
      from marker [OF woken(1), of pa pb "[Printf pc]"] woken(3,4) show ?thesis
        by (simp add: r ev)
    qed
  qed
  have long: "DeepSleep \<notin> set (emitted w (world_of r))
            \<and> (\<exists>st. EnterHibernate st \<in> set (emitted w (world_of r)))
            \<and> (\<exists>st. SetAlarm st
                  \<in> set (takeWhile (\<lambda>x. x \<noteq> SetHibernateWakeupSource)
                          (emitted w (world_of r))))"
    if ev: "ev = SWITCH_LONG_PRESS"
  proof -
    have marker: "(\<exists>st. EnterHibernate st \<in> set (emitted w (world_of r)))
          \<and> (\<exists>st. SetAlarm st
                \<in> set (takeWhile (\<lambda>x. x \<noteq> SetHibernateWakeupSource) (emitted w (world_of r))))
          \<and> DeepSleep \<notin> set (emitted w (world_of r))"
      if k: "1 \<le> k"
        and tr: "trace (world_of r) = trace w1 @ [Printf pa, Printf pb]
                   @ retry_events SetAlarm (set_alarm_result e) (n_alarm w1) k
                   @ [Delay LONG_GLITCH_DELAY_MS, SetHibernateWakeupSource, EnterHibernate x]
                   @ rest"
        and rest: "DeepSleep \<notin> set rest"
      for k pa pb x rest
    proof -
      let ?pre = "?ds @ [Printf pa, Printf pb]
                    @ retry_events SetAlarm (set_alarm_result e) (n_alarm w1) k
                    @ [Delay LONG_GLITCH_DELAY_MS]"
      have em: "emitted w (world_of r) =
                  ?pre @ SetHibernateWakeupSource # (EnterHibernate x # rest)"
        by (simp add: tr emitted_def t1)
      have "SetAlarm (set_alarm_result e (n_alarm w1)) \<in> set ?pre"
        using retry_events_first [OF k] by simp
      moreover have "SetHibernateWakeupSource \<notin> set ?pre"
        by (simp add: no_retry)
      ultimately have "SetAlarm (set_alarm_result e (n_alarm w1))
          \<in> set (takeWhile (\<lambda>x. x \<noteq> SetHibernateWakeupSource) (emitted w (world_of r)))"
        unfolding em by (intro before_marker)
      then have "\<exists>st. SetAlarm st
          \<in> set (takeWhile (\<lambda>x. x \<noteq> SetHibernateWakeupSource) (emitted w (world_of r)))"
        by (rule exI)
      moreover have "EnterHibernate x \<in> set (emitted w (world_of r))"
        by (simp add: em)
      moreover have "DeepSleep \<notin> set (emitted w (world_of r))"
        using rest by (simp add: em no_retry)
      ultimately show ?thesis by blast
    qed
    show ?thesis
    proof (cases rule: long_press_cases [of e w1])
      case (powered_down w' pa pb k)
      from marker [OF powered_down(1), of pa pb None "[]"] powered_down show ?thesis
        by (simp add: r ev)
    next
      case (returned_success w' pa pb k)
      from marker [OF returned_success(1), of pa pb "Some CY_SYSPM_SUCCESS" "[]"]
        returned_success show ?thesis
        by (simp add: r ev)
    next
      case (rejected w' pa pb k st)
      from marker [OF rejected(1), of pa pb "Some st"
          "[Printf (''The CPU did not enter Hibernate mode'' @ crlf @ crlf), AssertFail]"]
        rejected show ?thesis
        by (simp add: r ev)
    qed
  qed
  have none: "r = Ok () w1 \<and> set (emitted w w1) \<subseteq> {Delay SHORT_GLITCH_DELAY_MS}"
    if ev: "ev = SWITCH_NO_EVENT"
  proof -
    have "r = Ok () w1" by (simp add: r ev handle_switch_event_def)
    moreover have "set (emitted w w1) \<subseteq> {Delay SHORT_GLITCH_DELAY_MS}"
      by (auto simp: emitted_def t1)
    ultimately show ?thesis by simp
  qed
  show ?thesis
    unfolding Let_def r_def [symmetric]
    using it short long none by blast
qed
text \<open>Within a turn of the loop, every call that sets the alarm comes before the sleep or
  power-down instruction: nothing after that instruction arms the alarm. (Whether the arming
  has succeeded is not tested by the loop.)\<close>

lemma from_marker:
  "\<forall>x\<in>set xs. \<not> P x \<Longrightarrow> P m \<Longrightarrow> dropWhile (\<lambda>x. \<not> P x) (xs @ m # ys) = m # ys"
  by (simp add: dropWhile_append3)

lemma no_marker: "\<forall>x\<in>set xs. \<not> P x \<Longrightarrow> dropWhile (\<lambda>x. \<not> P x) xs = []"
  by simp

lemma arming_precedes_sleep:
  assumes "main_iteration e w = Some r"
  shows "SetAlarm st
           \<notin> set (dropWhile (\<lambda>x. \<not> is_sleep_instruction x) (emitted w (world_of r)))"
proof -
  from assms obtain ev w1 where g: "get_switch_event e w = Some (ev, w1)"
    by (auto simp: main_iteration_def split: option.splits)
  from g assms have r: "r = handle_switch_event e ev w1"
    by (rule main_iteration_Some)
  from g obtain d where
    w1: "w1 = w\<lparr>trace := trace w @ replicate (Suc d) (Delay SHORT_GLITCH_DELAY_MS),
                n_gpio := n_gpio w + d + 1\<rparr>"
    by (rule get_switch_event_Some)
  let ?ds = "replicate (Suc d) (Delay SHORT_GLITCH_DELAY_MS)"
  have t1: "trace w1 = trace w @ ?ds" by (simp add: w1)
  have retry: "\<forall>x\<in>set (retry_events SetAlarm f n k). \<not> is_sleep_instruction x" for f n k
  proof
    fix x assume "x \<in> set (retry_events SetAlarm f n k)"
    from retry_events_set [OF this] show "\<not> is_sleep_instruction x" by auto
  qed
  have quiet: ?thesis
    if "emitted w (world_of r) = ?ds @ ps" "\<forall>x\<in>set ps. \<not> is_sleep_instruction x" for ps
  proof -
    from that(2) have "\<forall>x\<in>set (?ds @ ps). \<not> is_sleep_instruction x" by auto
    then have "dropWhile (\<lambda>x. \<not> is_sleep_instruction x) (?ds @ ps) = []"
      by (rule no_marker)
    then show ?thesis unfolding that(1) by (simp only: list.set empty_iff not_False_eq_True)
  qed
  have slept: ?thesis
    if "emitted w (world_of r) =
          (?ds @ [Printf pa, Printf pb] @ retry_events SetAlarm f n k @ ms) @ m # rest"
      "\<forall>x\<in>set ms. \<not> is_sleep_instruction x" "is_sleep_instruction m"
      "SetAlarm st \<notin> set (m # rest)"
    for pa pb f n k ms m rest
  proof -
    from that(2) retry [of f n k]
    have "\<forall>x\<in>set (?ds @ [Printf pa, Printf pb] @ retry_events SetAlarm f n k @ ms).
            \<not> is_sleep_instruction x"
      by auto
    from from_marker [OF this that(3)]
    have "dropWhile (\<lambda>x. \<not> is_sleep_instruction x) (emitted w (world_of r)) = m # rest"
      unfolding that(1) .
    with that(4) show ?thesis by (simp only: simp_thms)
  qed
  show ?thesis
  proof (cases ev)
    case SWITCH_NO_EVENT
    then have "r = Ok () w1" by (simp add: r handle_switch_event_def)
    then have "emitted w (world_of r) = ?ds @ []" by (simp add: emitted_def t1)
    then show ?thesis by (rule quiet) simp
  next
    case SWITCH_SHORT_PRESS
    show ?thesis
    proof (cases rule: short_press_cases [of e w1])
      case (asleep w' pa pb k)
      then have "emitted w (world_of r) =
          (?ds @ [Printf pa, Printf pb]
            @ retry_events SetAlarm (set_alarm_result e) (n_alarm w1) k
            @ [Delay LONG_GLITCH_DELAY_MS]) @ DeepSleep # []"
        by (simp add: r SWITCH_SHORT_PRESS emitted_def t1)
      then show ?thesis by (rule slept) simp_all
    next
      case (woken w' pa pb pc k)
      then have "emitted w (world_of r) =
          (?ds @ [Printf pa, Printf pb]
            @ retry_events SetAlarm (set_alarm_result e) (n_alarm w1) k
            @ [Delay LONG_GLITCH_DELAY_MS]) @ DeepSleep # [Printf pc]"
        by (simp add: r SWITCH_SHORT_PRESS emitted_def t1)
      then show ?thesis by (rule slept) simp_all
    qed
  next
    case SWITCH_LONG_PRESS
    show ?thesis
    proof (cases rule: long_press_cases [of e w1])
      case (powered_down w' pa pb k)
      then have "emitted w (world_of r) =
          (?ds @ [Printf pa, Printf pb]
            @ retry_events SetAlarm (set_alarm_result e) (n_alarm w1) k
            @ [Delay LONG_GLITCH_DELAY_MS, SetHibernateWakeupSource])
          @ EnterHibernate None # []"
        by (simp add: r SWITCH_LONG_PRESS emitted_def t1)
      then show ?thesis by (rule slept) simp_all
    next
      case (returned_success w' pa pb k)
      then have "emitted w (world_of r) =
          (?ds @ [Printf pa, Printf pb]
            @ retry_events SetAlarm (set_alarm_result e) (n_alarm w1) k
            @ [Delay LONG_GLITCH_DELAY_MS, SetHibernateWakeupSource])
          @ EnterHibernate (Some CY_SYSPM_SUCCESS) # []"
        by (simp add: r SWITCH_LONG_PRESS emitted_def t1)
      then show ?thesis by (rule slept) simp_all
    next
      case (rejected w' pa pb k s)
      then have "emitted w (world_of r) =
          (?ds @ [Printf pa, Printf pb]
            @ retry_events SetAlarm (set_alarm_result e) (n_alarm w1) k
            @ [Delay LONG_GLITCH_DELAY_MS, SetHibernateWakeupSource])
          @ EnterHibernate (Some s)
            # [Printf (''The CPU did not enter Hibernate mode'' @ crlf @ crlf), AssertFail]"
        by (simp add: r SWITCH_LONG_PRESS emitted_def t1)
      then show ?thesis by (rule slept) simp_all
    qed
  qed
qed

subsection \<open>Running the scenarios\<close>

lemma board_sel:
  "cybsp_init_result (board g a h rr) = 0" "io_frozen (board g a h rr) = False"
  "uart_init_result (board g a h rr) = 0" "uart_setup_result (board g a h rr) = 0"
  "retarget_io_result (board g a h rr) = 0" "reset_reason (board g a h rr) = rr"
  "hib_wakeup_mask (board g a h rr) = 0x40000" "gpio_pressed (board g a h rr) = g"
  "rtc_init_result (board g a h rr) = always CY_RTC_SUCCESS"
  "set_alarm_result (board g a h rr) = a" "rtc_time (board g a h rr) = always one_digit_time"
  "deep_sleep_wake (board g a h rr) = always (Some Alarm2_irq)"
  "hibernate_result (board g a h rr) = h"
  by (simp_all add: board_def)

lemma get_switch_event_board:
  "get_switch_event (board (held_for d) a h rr) w =
     Some (press_event (word_of_nat (d - n_gpio w)),
           w\<lparr>trace := trace w @ replicate (Suc (d - n_gpio w)) (Delay SHORT_GLITCH_DELAY_MS),
             n_gpio := n_gpio w + (d - n_gpio w) + 1\<rparr>)"
proof (rule get_switch_event_released)
  show "\<forall>i<d - n_gpio w. gpio_pressed (board (held_for d) a h rr) (n_gpio w + i)"
    by (auto simp: board_sel held_for_def)
  show "\<not> gpio_pressed (board (held_for d) a h rr) (n_gpio w + (d - n_gpio w))"
    by (simp add: board_sel held_for_def)
qed

lemma debug_printf_board:
  "debug_printf (board g a h rr) str w =
     Ok () (w\<lparr>trace := trace w @ [Printf (''1 : 2 : 3  4 - 5 - 6: '' @ str @ crlf)],
              buffer := ''1 : 2 : 3  4 - 5 - 6'', n_time := n_time w + 1\<rparr>)"
  by (simp add: debug_printf_eq board_sel always_def one_digit_time_def Let_def)

lemma two_digit_board_sel:
  "cybsp_init_result (two_digit_board g a h rr) = 0" "io_frozen (two_digit_board g a h rr) = False"
  "uart_init_result (two_digit_board g a h rr) = 0"
  "uart_setup_result (two_digit_board g a h rr) = 0"
  "retarget_io_result (two_digit_board g a h rr) = 0" "reset_reason (two_digit_board g a h rr) = rr"
  "hib_wakeup_mask (two_digit_board g a h rr) = 0x40000"
  "gpio_pressed (two_digit_board g a h rr) = g"
  "rtc_init_result (two_digit_board g a h rr) = always CY_RTC_SUCCESS"
  "set_alarm_result (two_digit_board g a h rr) = a"
  "rtc_time (two_digit_board g a h rr) = always alarm_time"
  "deep_sleep_wake (two_digit_board g a h rr) = always (Some Alarm2_irq)"
  "hibernate_result (two_digit_board g a h rr) = h"
  by (simp_all add: two_digit_board_def board_def)

lemma get_switch_event_two_digit_board:
  "get_switch_event (two_digit_board (held_for d) a h rr) w =
     Some (press_event (word_of_nat (d - n_gpio w)),
           w\<lparr>trace := trace w @ replicate (Suc (d - n_gpio w)) (Delay SHORT_GLITCH_DELAY_MS),
             n_gpio := n_gpio w + (d - n_gpio w) + 1\<rparr>)"
proof (rule get_switch_event_released)
  show "\<forall>i<d - n_gpio w. gpio_pressed (two_digit_board (held_for d) a h rr) (n_gpio w + i)"
    by (auto simp: two_digit_board_sel held_for_def)
  show "\<not> gpio_pressed (two_digit_board (held_for d) a h rr) (n_gpio w + (d - n_gpio w))"
    by (simp add: two_digit_board_sel held_for_def)
qed

lemmas run_simps =
  handle_switch_event_def debug_printf_board board_sel debug_printf_two_digit_board
  two_digit_board_sel always_def rtc_alarmconfig_def
  alarm_attempt_def Cy_SysLib_Delay_def emit_def Cy_SysPm_CpuEnterDeepSleep_def
  Cy_SysPm_SystemEnterHibernate_def rtc_interrupt_handler_def Cy_RTC_Alarm2Interrupt_def
  CY_ASSERT_0_def

theorem event_routing_witness:
  "overrun (world_of (the
       (main_iteration (two_digit_board (held_for 11) (always CY_RTC_SUCCESS) (always None) 0)
          boot_world)))
   \<and> map_option (returned ())
     (main_iteration (two_digit_board (held_for 11) (always CY_RTC_SUCCESS) (always None) 0)
        boot_world)
     = Some True
   \<and> DeepSleep \<in> set (emitted boot_world (world_of (the
       (main_iteration (two_digit_board (held_for 11) (always CY_RTC_SUCCESS) (always None) 0)
          boot_world))))
   \<and> SetAlarm CY_RTC_SUCCESS \<in> set (emitted boot_world (world_of (the
       (main_iteration (two_digit_board (held_for 11) (always CY_RTC_SUCCESS) (always None) 0)
          boot_world))))
   \<and> overrun (world_of (the
       (main_iteration (two_digit_board (held_for 201) (always CY_RTC_SUCCESS) (always None) 0)
          boot_world)))
   \<and> map_option (stopped_by Powered_down)
     (main_iteration (two_digit_board (held_for 201) (always CY_RTC_SUCCESS) (always None) 0)
        boot_world)
     = Some True
   \<and> EnterHibernate None \<in> set (emitted boot_world (world_of (the
       (main_iteration (two_digit_board (held_for 201) (always CY_RTC_SUCCESS) (always None) 0)
          boot_world))))
   \<and> DeepSleep \<notin> set (emitted boot_world (world_of (the
       (main_iteration (two_digit_board (held_for 201) (always CY_RTC_SUCCESS) (always None) 0)
          boot_world))))
   \<and> main_iteration (board (held_for 0) (always CY_RTC_SUCCESS) (always None) 0) boot_world
     = Some (Ok () (boot_world\<lparr>trace := [Delay SHORT_GLITCH_DELAY_MS], n_gpio := 1\<rparr>))"
proof -
  let ?short = "two_digit_board (held_for 11) (always CY_RTC_SUCCESS) (always None) 0"
  let ?long = "two_digit_board (held_for 201) (always CY_RTC_SUCCESS) (always None) 0"
  let ?none = "board (held_for 0) (always CY_RTC_SUCCESS) (always None) 0"
  let ?w11 = "boot_world\<lparr>trace := replicate 12 (Delay SHORT_GLITCH_DELAY_MS), n_gpio := 12\<rparr>"
  let ?w201 = "boot_world\<lparr>trace := replicate 202 (Delay SHORT_GLITCH_DELAY_MS), n_gpio := 202\<rparr>"
  let ?w0 = "boot_world\<lparr>trace := [Delay SHORT_GLITCH_DELAY_MS], n_gpio := 1\<rparr>"
  have g1: "get_switch_event ?short boot_world = Some (SWITCH_SHORT_PRESS, ?w11)"
    by (simp add: get_switch_event_two_digit_board boot_world_def press_event_def
        LONG_PRESS_COUNT_def SHORT_PRESS_COUNT_def)
  have g2: "get_switch_event ?long boot_world = Some (SWITCH_LONG_PRESS, ?w201)"
    by (simp add: get_switch_event_two_digit_board boot_world_def press_event_def
        LONG_PRESS_COUNT_def SHORT_PRESS_COUNT_def)
  have g3: "get_switch_event ?none boot_world = Some (SWITCH_NO_EVENT, ?w0)"
    by (simp add: get_switch_event_board boot_world_def press_event_def LONG_PRESS_COUNT_def
        SHORT_PRESS_COUNT_def)
  have s1: "returned () (handle_switch_event ?short SWITCH_SHORT_PRESS ?w11)"
    "overrun (world_of (handle_switch_event ?short SWITCH_SHORT_PRESS ?w11))"
    "SetAlarm CY_RTC_SUCCESS
       \<in> set (emitted boot_world (world_of (handle_switch_event ?short SWITCH_SHORT_PRESS ?w11)))"
    by (simp_all add: run_simps alarm_loop.simps emitted_def boot_world_def)
  have s2: "stopped_by Powered_down (handle_switch_event ?long SWITCH_LONG_PRESS ?w201)"
    "overrun (world_of (handle_switch_event ?long SWITCH_LONG_PRESS ?w201))"
    "EnterHibernate None
       \<in> set (emitted boot_world (world_of (handle_switch_event ?long SWITCH_LONG_PRESS ?w201)))"
    by (simp_all add: run_simps alarm_loop.simps emitted_def boot_world_def)
  note A = event_routing [OF g1, unfolded Let_def]
  note B = event_routing [OF g2, unfolded Let_def]
  note C = event_routing [OF g3, unfolded Let_def]
  from A have m1: "main_iteration ?short boot_world =
      Some (handle_switch_event ?short SWITCH_SHORT_PRESS ?w11)" by blast
  from B have m2: "main_iteration ?long boot_world =
      Some (handle_switch_event ?long SWITCH_LONG_PRESS ?w201)" by blast
  from C have m3: "main_iteration ?none boot_world = Some (Ok () ?w0)"
    by simp
  from A have a: "DeepSleep \<in> set (emitted boot_world (world_of
      (handle_switch_event ?short SWITCH_SHORT_PRESS ?w11)))" by blast
  from B have b: "DeepSleep \<notin> set (emitted boot_world (world_of
      (handle_switch_event ?long SWITCH_LONG_PRESS ?w201)))" by blast
  show ?thesis
    unfolding m1 m2 m3 option.sel option.map
    using s1 s2 a b by blast
qed
lemma main_startup_board:
  "main_startup (board g a h rr) boot_world =
     Ok () (boot_world
       \<lparr>trace := UartEnable # map Printf banner
          @ [InitUserButton, SetInterruptMaskAlarm2, SysIntInit, NvicClearPendingIRQ,
             NvicEnableIRQ]
          @ (if reset_was_hib_wakeup (board g a h rr)
             then [Printf (''1 : 2 : 3  4 - 5 - 6: Wakeup from the Hibernate mode''
                           @ crlf @ lf @ crlf)]
             else [])
          @ [RtcInit CY_RTC_SUCCESS, Delay INIT_DELAY_MS,
             Printf (''1 : 2 : 3  4 - 5 - 6: Current date and time'' @ crlf @ crlf),
             EnableIrq],
        buffer := ''1 : 2 : 3  4 - 5 - 6'',
        n_init := 1,
        n_time := (if reset_was_hib_wakeup (board g a h rr) then 2 else 1)\<rparr>)"
  by (simp add: main_startup_def CY_RSLT_SUCCESS_def print_banner_def
      configure_button_and_interrupt_def emit_def boot_world_def rtc_init_def init_loop.simps
      init_attempt_def Cy_SysLib_Delay_def debug_printf_board board_sel always_def
      enable_irq_def)

lemma commands_simps:
  "commands [] = []"
  "commands (Printf s # evs) = commands evs"
  "commands (Delay n # evs) = Delay n # commands evs"
  "commands (RtcInit st # evs) = RtcInit st # commands evs"
  "commands (SetAlarm st # evs) = SetAlarm st # commands evs"
  "commands (DeepSleep # evs) = DeepSleep # commands evs"
  "commands (SetHibernateWakeupSource # evs) = SetHibernateWakeupSource # commands evs"
  "commands (EnterHibernate x # evs) = EnterHibernate x # commands evs"
  "commands (IoUnfreeze # evs) = IoUnfreeze # commands evs"
  "commands (UartEnable # evs) = UartEnable # commands evs"
  "commands (InitUserButton # evs) = InitUserButton # commands evs"
  "commands (SetInterruptMaskAlarm2 # evs) = SetInterruptMaskAlarm2 # commands evs"
  "commands (SysIntInit # evs) = SysIntInit # commands evs"
  "commands (NvicClearPendingIRQ # evs) = NvicClearPendingIRQ # commands evs"
  "commands (NvicEnableIRQ # evs) = NvicEnableIRQ # commands evs"
  "commands (DisableIrq # evs) = DisableIrq # commands evs"
  "commands (EnableIrq # evs) = EnableIrq # commands evs"
  "commands (AssertFail # evs) = AssertFail # commands evs"
  "commands (xs @ ys) = commands xs @ commands ys"
  "commands (map Printf ss) = []"
  "commands (replicate n (Delay m)) = replicate n (Delay m)"
  by (simp_all add: commands_def)

lemma commands_retry_events:
  "commands (retry_events SetAlarm f n k) = retry_events SetAlarm f n k"
  by (induction k arbitrary: n) (simp_all add: commands_simps)

subsection \<open>A rejected power-down\<close>

text \<open>C7, as the code has it. When the power-down call returns a status other than success,
  the program prints the line "The CPU did not enter Hibernate mode" (with \<^verbatim>\<open>printf\<close>, so
  without a time stamp) and fails the assertion: it stops, and nothing runs after it. It does
  not call \<^verbatim>\<open>handle_error\<close>: interrupts are left as they were, and no
  \<^verbatim>\<open>__disable_irq\<close> is executed.\<close>

theorem hibernate_rejected:
  assumes "debug_printf e (''Go to Hibernate mode'' @ crlf) w = Ok () w1"
    and "rtc_alarmconfig e w1 = Ok rr w2"
    and "hibernate_result e (n_hib w2) = Some st"
    and "st \<noteq> CY_SYSPM_SUCCESS"
  shows "handle_switch_event e SWITCH_LONG_PRESS w =
           Stop Halted
             (w2\<lparr>trace := trace w2 @
                   [Delay LONG_GLITCH_DELAY_MS, SetHibernateWakeupSource,
                    EnterHibernate (Some st),
                    Printf (''The CPU did not enter Hibernate mode'' @ crlf @ crlf),
                    AssertFail],
                n_hib := n_hib w2 + 1\<rparr>)
         \<and> primask (world_of (handle_switch_event e SWITCH_LONG_PRESS w)) = primask w
         \<and> DisableIrq \<notin> set (emitted w (world_of (handle_switch_event e SWITCH_LONG_PRESS w)))"
proof -
  let ?w3 = "emit SetHibernateWakeupSource (Cy_SysLib_Delay LONG_GLITCH_DELAY_MS w2)"
  let ?w' = "w2\<lparr>trace := trace w2 @
                   [Delay LONG_GLITCH_DELAY_MS, SetHibernateWakeupSource,
                    EnterHibernate (Some st),
                    Printf (''The CPU did not enter Hibernate mode'' @ crlf @ crlf),
                    AssertFail],
                n_hib := n_hib w2 + 1\<rparr>"
  have hib: "Cy_SysPm_SystemEnterHibernate e ?w3 =
               Ok st (emit (EnterHibernate (Some st)) (?w3\<lparr>n_hib := n_hib ?w3 + 1\<rparr>))"
    using assms(3) by (simp add: Cy_SysPm_SystemEnterHibernate_def emit_step delay_step)
  from assms(4) have ne: "CY_SYSPM_SUCCESS \<noteq> st" by blast
  have "handle_switch_event e SWITCH_LONG_PRESS w =
          Stop Halted (emit AssertFail
            (emit (Printf (''The CPU did not enter Hibernate mode'' @ crlf @ crlf))
               (emit (EnterHibernate (Some st)) (?w3\<lparr>n_hib := n_hib ?w3 + 1\<rparr>))))"
    using ne
    by (simp only: handle_switch_event_def en_switch_event_t.case assms(1,2) and_then.simps hib
        CY_ASSERT_0_def) simp
  also have "emit AssertFail
            (emit (Printf (''The CPU did not enter Hibernate mode'' @ crlf @ crlf))
               (emit (EnterHibernate (Some st)) (?w3\<lparr>n_hib := n_hib ?w3 + 1\<rparr>))) = ?w'"
    by (simp add: emit_def Cy_SysLib_Delay_def)
  finally have run: "handle_switch_event e SWITCH_LONG_PRESS w = Stop Halted ?w'" .
  obtain pa where w1: "trace w1 = trace w @ [Printf pa]" "primask w1 = primask w"
  proof -
    obtain w' p where printed: "debug_printf e (''Go to Hibernate mode'' @ crlf) w = Ok () w'"
      "trace w' = trace w @ [Printf p]" "primask w' = primask w"
      by (rule debug_printf_step)
    with assms(1) have "w' = w1" by simp
    with printed that show thesis by blast
  qed
  obtain w' p k r where armed: "1 \<le> k" "rtc_alarmconfig e w1 = Ok r w'"
      "trace w' = trace w1 @ Printf p # retry_events SetAlarm (set_alarm_result e) (n_alarm w1) k"
      "primask w' = primask w1"
    by (rule rtc_alarmconfig_step)
  with assms(2) have same: "w' = w2" by simp
  have w2: "primask w2 = primask w1 \<and> DisableIrq \<notin> set (emitted w1 w2)"
    using armed same
      retry_events_set [of DisableIrq SetAlarm "set_alarm_result e" "n_alarm w1" k]
    by (auto simp: emitted_def)
  have tr2: "trace w2 = trace w1 @ emitted w1 w2"
    using armed same by (simp add: emitted_def)
  have "emitted w ?w' = Printf pa # emitted w1 w2 @
                   [Delay LONG_GLITCH_DELAY_MS, SetHibernateWakeupSource,
                    EnterHibernate (Some st),
                    Printf (''The CPU did not enter Hibernate mode'' @ crlf @ crlf),
                    AssertFail]"
    by (rule emitted_append) (simp add: tr2 w1)
  with w2 have "DisableIrq \<notin> set (emitted w ?w')" by simp
  moreover have "primask ?w' = primask w" using w1 w2 by simp
  ultimately show ?thesis by (simp add: run)
qed

lemma main_loop_one: "main_loop e (Suc 0) w = main_iteration e w"
proof (cases "main_iteration e w")
  case None
  then show ?thesis by simp
next
  case (Some r)
  then show ?thesis by (cases r) simp_all
qed

lemma alarm_loop_always_failing:
  "r \<noteq> CY_RTC_SUCCESS \<Longrightarrow>
     alarm_loop (board g (always r) h rr) MAX_ATTEMPTS w =
       (r, w\<lparr>trace := trace w @ retry_events SetAlarm (always r) (n_alarm w) 500,
             n_alarm := n_alarm w + 500\<rparr>)"
  using alarm_loop_exhausts [of "board g (always r) h rr" w]
  by (simp add: board_sel always_def del: retry_events.simps)

lemma alarm_loop_always_ok:
  "alarm_loop (board g (always CY_RTC_SUCCESS) h rr) MAX_ATTEMPTS w =
     (CY_RTC_SUCCESS,
      w\<lparr>trace := trace w @ [SetAlarm CY_RTC_SUCCESS, Delay INIT_DELAY_MS],
        n_alarm := n_alarm w + 1\<rparr>)"
  using alarm_loop_succeeds [of 0 "board g (always CY_RTC_SUCCESS) h rr" w]
  by (simp add: board_sel always_def)

lemma press_event_simps:
  "press_event 0 = SWITCH_NO_EVENT"
  "press_event 11 = SWITCH_SHORT_PRESS"
  "press_event 201 = SWITCH_LONG_PRESS"
  by (simp_all add: press_event_def LONG_PRESS_COUNT_def SHORT_PRESS_COUNT_def)

lemma main_board:
  "main (board g a h rr) n =
     main_loop (board g a h rr) n (world_of (main_startup (board g a h rr) boot_world))"
  by (simp add: main_def main_startup_board)

lemma started_board:
  "world_of (main_startup (board g a h rr) boot_world) =
     \<lparr>trace = UartEnable # map Printf banner
          @ [InitUserButton, SetInterruptMaskAlarm2, SysIntInit, NvicClearPendingIRQ,
             NvicEnableIRQ]
          @ (if reset_was_hib_wakeup (board g a h rr)
             then [Printf (''1 : 2 : 3  4 - 5 - 6: Wakeup from the Hibernate mode''
                           @ crlf @ lf @ crlf)]
             else [])
          @ [RtcInit CY_RTC_SUCCESS, Delay INIT_DELAY_MS,
             Printf (''1 : 2 : 3  4 - 5 - 6: Current date and time'' @ crlf @ crlf),
             EnableIrq],
      alarm_flag = 0, buffer = ''1 : 2 : 3  4 - 5 - 6'', primask = False, n_gpio = 0,
      n_alarm = 0, n_init = 1,
      n_time = (if reset_was_hib_wakeup (board g a h rr) then 2 else 1),
      n_sleep = 0, n_hib = 0, overrun = False\<rparr>"
  unfolding main_startup_board by (simp add: boot_world_def)

lemmas main_simps =
  main_board started_board main_loop_one main_iteration_def
  get_switch_event_board press_event_simps

theorem hibernate_rejected_witness:
  "handle_switch_event
     (board (held_for 201) (always CY_RTC_SUCCESS) (always (Some CY_SYSPM_FAIL)) 0)
     SWITCH_LONG_PRESS boot_world =
   Stop Halted
     (boot_world
        \<lparr>trace :=
           [Printf (''1 : 2 : 3  4 - 5 - 6: Go to Hibernate mode'' @ crlf @ crlf),
            Printf (''1 : 2 : 3  4 - 5 - 6: RTC alarm will be generated after 1 second''
                    @ crlf @ crlf),
            SetAlarm CY_RTC_SUCCESS, Delay INIT_DELAY_MS, Delay LONG_GLITCH_DELAY_MS,
            SetHibernateWakeupSource, EnterHibernate (Some CY_SYSPM_FAIL),
            Printf (''The CPU did not enter Hibernate mode'' @ crlf @ crlf), AssertFail],
         buffer := ''1 : 2 : 3  4 - 5 - 6'', n_alarm := 1, n_time := 2, n_hib := 1\<rparr>)"
proof -
  let ?e = "board (held_for 201) (always CY_RTC_SUCCESS) (always (Some CY_SYSPM_FAIL)) 0"
  let ?w1 = "boot_world
        \<lparr>trace := [Printf (''1 : 2 : 3  4 - 5 - 6: Go to Hibernate mode'' @ crlf @ crlf)],
         buffer := ''1 : 2 : 3  4 - 5 - 6'', n_time := 1\<rparr>"
  let ?w2 = "boot_world
        \<lparr>trace :=
           [Printf (''1 : 2 : 3  4 - 5 - 6: Go to Hibernate mode'' @ crlf @ crlf),
            Printf (''1 : 2 : 3  4 - 5 - 6: RTC alarm will be generated after 1 second''
                    @ crlf @ crlf),
            SetAlarm CY_RTC_SUCCESS, Delay INIT_DELAY_MS],
         buffer := ''1 : 2 : 3  4 - 5 - 6'', n_alarm := 1, n_time := 2\<rparr>"
  have a: "debug_printf ?e (''Go to Hibernate mode'' @ crlf) boot_world = Ok () ?w1"
    by (simp add: debug_printf_board boot_world_def)
  have b: "rtc_alarmconfig ?e ?w1 = Ok CY_RTC_SUCCESS ?w2"
    by (simp add: rtc_alarmconfig_def debug_printf_board alarm_loop_always_ok boot_world_def)
  have c: "hibernate_result ?e (n_hib ?w2) = Some CY_SYSPM_FAIL"
    by (simp add: board_sel always_def)
  have d: "CY_SYSPM_FAIL \<noteq> CY_SYSPM_SUCCESS" by simp
  from hibernate_rejected [OF a b c d] show ?thesis
    by (simp add: boot_world_def)
qed

theorem hibernate_rejected_counterexample:
  "map_option (stopped_by Halted)
     (main (board (held_for 201) (always CY_RTC_SUCCESS) (always (Some CY_SYSPM_FAIL)) 0) 1)
     = Some True
   \<and> map_option (primask \<circ> world_of)
     (main (board (held_for 201) (always CY_RTC_SUCCESS) (always (Some CY_SYSPM_FAIL)) 0) 1)
     = Some False
   \<and> map_option (commands \<circ> trace \<circ> world_of)
     (main (board (held_for 201) (always CY_RTC_SUCCESS) (always (Some CY_SYSPM_FAIL)) 0) 1)
     = Some ([UartEnable, InitUserButton, SetInterruptMaskAlarm2, SysIntInit,
              NvicClearPendingIRQ, NvicEnableIRQ, RtcInit CY_RTC_SUCCESS, Delay INIT_DELAY_MS,
              EnableIrq]
             @ replicate 202 (Delay SHORT_GLITCH_DELAY_MS)
             @ [SetAlarm CY_RTC_SUCCESS, Delay INIT_DELAY_MS, Delay LONG_GLITCH_DELAY_MS,
                SetHibernateWakeupSource, EnterHibernate (Some CY_SYSPM_FAIL), AssertFail])"
  by (simp add: main_simps run_simps alarm_loop_always_ok commands_simps
      reset_was_hib_wakeup_def)

subsection \<open>The start of the program\<close>

text \<open>\<^verbatim>\<open>rtc_init\<close> returns success exactly when one of the next 500 calls of
  \<^verbatim>\<open>Cy_RTC_Init\<close> does.\<close>

lemma rtc_init_cases:
  obtains (failed) k r where "1 \<le> k" "k \<le> 500" "r \<noteq> CY_RTC_SUCCESS"
      "rtc_init e w =
         Ok r (w\<lparr>trace := trace w @ retry_events RtcInit (rtc_init_result e) (n_init w) k,
                 n_init := n_init w + k\<rparr>)"
      "\<forall>j<500. rtc_init_result e (n_init w + j) \<noteq> CY_RTC_SUCCESS"
  | (succeeded) k where "1 \<le> k" "k \<le> 500"
      "rtc_init e w =
         Ok CY_RTC_SUCCESS
           (w\<lparr>trace := trace w @ retry_events RtcInit (rtc_init_result e) (n_init w) k,
              n_init := n_init w + k\<rparr>)"
      "rtc_init_result e (n_init w + (k - 1)) = CY_RTC_SUCCESS"
proof -
  let ?f = "rtc_init_result e"
  have m: "unat (MAX_ATTEMPTS - 1) = 499" by (simp add: MAX_ATTEMPTS_def)
  from init_loop_shape [of MAX_ATTEMPTS e w, unfolded m]
  obtain k where k: "1 \<le> k" "k \<le> 499 + 1"
    and fails: "\<forall>i<k - 1. ?f (n_init w + i) \<noteq> CY_RTC_SUCCESS"
    and last: "k \<le> 499 \<longrightarrow> ?f (n_init w + (k - 1)) = CY_RTC_SUCCESS"
    and loop: "init_loop e MAX_ATTEMPTS w =
                (?f (n_init w + (k - 1)),
                 w\<lparr>trace := trace w @ retry_events RtcInit ?f (n_init w) k,
                   n_init := n_init w + k\<rparr>)"
    by blast
  from k have k500: "k \<le> 500" by simp
  have init: "rtc_init e w =
      Ok (?f (n_init w + (k - 1)))
        (w\<lparr>trace := trace w @ retry_events RtcInit ?f (n_init w) k, n_init := n_init w + k\<rparr>)"
    by (simp only: rtc_init_def loop prod.case)
  show thesis
  proof (cases "?f (n_init w + (k - 1)) = CY_RTC_SUCCESS")
    case True
    from k(1) k500 init [unfolded True] True show thesis by (rule succeeded)
  next
    case False
    with last have "\<not> k \<le> 499" by blast
    with k have k5: "k = 500" by simp
    have "\<forall>j<500. ?f (n_init w + j) \<noteq> CY_RTC_SUCCESS"
    proof (intro allI impI)
      fix j :: nat assume "j < 500"
      then have "j < k - 1 \<or> j = k - 1" using k5 by auto
      with fails False show "?f (n_init w + j) \<noteq> CY_RTC_SUCCESS" by blast
    qed
    with k(1) k500 False init show thesis by (rule failed)
  qed
qed

text \<open>From \<^verbatim>\<open>rtc_init\<close> to the entry of the loop (lines 248-259).\<close>

lemma startup_tail_cases:
  fixes e w
  defines "tail \<equiv> and_then (rtc_init e w) (\<lambda>rtcSta w2.
          if rtcSta \<noteq> CY_RTC_SUCCESS then handle_error w2
          else and_then (debug_printf e (''Current date and time'' @ crlf) w2)
                 (\<lambda>_ w3. Ok () (enable_irq w3)))"
  obtains (halted) w' k where "tail = Stop Halted w'" "alarm_flag w' = alarm_flag w"
      "trace w' = trace w @ retry_events RtcInit (rtc_init_result e) (n_init w) k
                   @ [DisableIrq, AssertFail]"
      "\<forall>j<500. rtc_init_result e (n_init w + j) \<noteq> CY_RTC_SUCCESS"
  | (started) w' k pc where "tail = Ok () w'" "alarm_flag w' = alarm_flag w"
      "trace w' = trace w @ retry_events RtcInit (rtc_init_result e) (n_init w) k
                   @ [Printf pc, EnableIrq]"
      "logs_message (''Current date and time'' @ crlf) (Printf pc)"
      "1 \<le> k" "k \<le> 500" "rtc_init_result e (n_init w + (k - 1)) = CY_RTC_SUCCESS"
proof (cases rule: rtc_init_cases [of e w])
  case (failed k r)
  let ?w2 = "w\<lparr>trace := trace w @ retry_events RtcInit (rtc_init_result e) (n_init w) k,
              n_init := n_init w + k\<rparr>"
  from failed(3) have "tail = Stop Halted (emit AssertFail (disable_irq ?w2))"
    by (simp only: tail_def failed(4) and_then.simps handle_error_def CY_ASSERT_0_def) simp
  then show thesis
  proof (rule halted [where k = k])
    show "alarm_flag (emit AssertFail (disable_irq ?w2)) = alarm_flag w"
      by (simp add: emit_def disable_irq_def)
    show "trace (emit AssertFail (disable_irq ?w2)) =
        trace w @ retry_events RtcInit (rtc_init_result e) (n_init w) k
          @ [DisableIrq, AssertFail]"
      by (simp add: emit_def disable_irq_def)
    show "\<forall>j<500. rtc_init_result e (n_init w + j) \<noteq> CY_RTC_SUCCESS"
      by (rule failed(5))
  qed
next
  case (succeeded k)
  let ?w2 = "w\<lparr>trace := trace w @ retry_events RtcInit (rtc_init_result e) (n_init w) k,
              n_init := n_init w + k\<rparr>"
  have body: "tail = and_then (debug_printf e (''Current date and time'' @ crlf) ?w2)
               (\<lambda>_ w3. Ok () (enable_irq w3))"
    by (simp only: tail_def succeeded(3) and_then.simps) simp
  obtain w3 pc where last: "debug_printf e (''Current date and time'' @ crlf) ?w2 = Ok () w3"
      "trace w3 = trace ?w2 @ [Printf pc]"
      "logs_message (''Current date and time'' @ crlf) (Printf pc)"
      "alarm_flag w3 = alarm_flag ?w2"
    by (rule debug_printf_step)
  have "tail = Ok () (enable_irq w3)"
    by (simp only: body last(1) and_then.simps)
  then show thesis
  proof (rule started [where pc = pc and k = k])
    show "alarm_flag (enable_irq w3) = alarm_flag w"
      by (simp add: emit_def enable_irq_def last)
    show "trace (enable_irq w3) =
        trace w @ retry_events RtcInit (rtc_init_result e) (n_init w) k
          @ [Printf pc, EnableIrq]"
      by (simp add: emit_def enable_irq_def last)
    show "logs_message (''Current date and time'' @ crlf) (Printf pc)"
      by (rule last(3))
    show "1 \<le> k" "k \<le> 500" "rtc_init_result e (n_init w + (k - 1)) = CY_RTC_SUCCESS"
      by (rule succeeded)+
  qed
qed

text \<open>After a successful bring-up: the banner and the configuration of the button and of the
  interrupt, the line of the wake-up from hibernate when the reset reason says so,
  \<^verbatim>\<open>rtc_init\<close>, and then either the stop or the last status line and the loop.\<close>

lemma main_startup_brought_up:
  assumes "cybsp_init_result e = CY_RSLT_SUCCESS" "uart_init_result e = CY_RSLT_SUCCESS"
    "uart_setup_result e = CY_RSLT_SUCCESS" "retarget_io_result e = CY_RSLT_SUCCESS"
  obtains (halted) w' pre hibline k where "main_startup e w = Stop Halted w'"
      "alarm_flag w' = alarm_flag w"
      "trace w' = trace w @ pre @ UartEnable # map Printf banner
         @ [InitUserButton, SetInterruptMaskAlarm2, SysIntInit, NvicClearPendingIRQ,
            NvicEnableIRQ]
         @ hibline @ retry_events RtcInit (rtc_init_result e) (n_init w) k
         @ [DisableIrq, AssertFail]"
      "set pre \<subseteq> {IoUnfreeze}"
      "if reset_was_hib_wakeup e
       then \<exists>p. hibline = [Printf p]
              \<and> logs_message (''Wakeup from the Hibernate mode'' @ crlf @ lf) (Printf p)
       else hibline = []"
      "\<forall>j<500. rtc_init_result e (n_init w + j) \<noteq> CY_RTC_SUCCESS"
  | (started) w' pre hibline k pc where "main_startup e w = Ok () w'"
      "alarm_flag w' = alarm_flag w"
      "trace w' = trace w @ pre @ UartEnable # map Printf banner
         @ [InitUserButton, SetInterruptMaskAlarm2, SysIntInit, NvicClearPendingIRQ,
            NvicEnableIRQ]
         @ hibline @ retry_events RtcInit (rtc_init_result e) (n_init w) k
         @ [Printf pc, EnableIrq]"
      "set pre \<subseteq> {IoUnfreeze}"
      "logs_message (''Current date and time'' @ crlf) (Printf pc)"
      "if reset_was_hib_wakeup e
       then \<exists>p. hibline = [Printf p]
              \<and> logs_message (''Wakeup from the Hibernate mode'' @ crlf @ lf) (Printf p)
       else hibline = []"
      "1 \<le> k" "k \<le> 500" "rtc_init_result e (n_init w + (k - 1)) = CY_RTC_SUCCESS"
proof -
  let ?pre = "if io_frozen e then [IoUnfreeze] else []"
  let ?w0 = "if io_frozen e then emit IoUnfreeze w else w"
  let ?w1 = "configure_button_and_interrupt (print_banner (emit UartEnable ?w0))"
  have w1: "trace ?w1 = trace w @ ?pre @ UartEnable # map Printf banner
         @ [InitUserButton, SetInterruptMaskAlarm2, SysIntInit, NvicClearPendingIRQ,
            NvicEnableIRQ]"
    "alarm_flag ?w1 = alarm_flag w" "n_init ?w1 = n_init w"
    by (simp_all add: configure_button_and_interrupt_def print_banner_def emit_def)
  have pre: "set ?pre \<subseteq> {IoUnfreeze}" by auto
  obtain w2 hibline where w2:
    "main_startup e w =
          and_then (rtc_init e w2) (\<lambda>rtcSta w2.
            if rtcSta \<noteq> CY_RTC_SUCCESS then handle_error w2
            else and_then (debug_printf e (''Current date and time'' @ crlf) w2)
                   (\<lambda>_ w3. Ok () (enable_irq w3)))"
    "trace w2 = trace ?w1 @ hibline" "alarm_flag w2 = alarm_flag w" "n_init w2 = n_init w"
    "if reset_was_hib_wakeup e
       then \<exists>p. hibline = [Printf p]
              \<and> logs_message (''Wakeup from the Hibernate mode'' @ crlf @ lf) (Printf p)
       else hibline = []"
  proof (cases "reset_was_hib_wakeup e")
    case False
    with assms have "main_startup e w =
          and_then (rtc_init e ?w1) (\<lambda>rtcSta w2.
            if rtcSta \<noteq> CY_RTC_SUCCESS then handle_error w2
            else and_then (debug_printf e (''Current date and time'' @ crlf) w2)
                   (\<lambda>_ w3. Ok () (enable_irq w3)))"
      by (simp only: main_startup_def if_False and_then.simps simp_thms)
    then show thesis
      by (rule that [where hibline = "[]"]) (use w1 False in simp_all)
  next
    case True
    with assms have body: "main_startup e w =
          and_then (debug_printf e (''Wakeup from the Hibernate mode'' @ crlf @ lf) ?w1)
          (\<lambda>_ w1. and_then (rtc_init e w1) (\<lambda>rtcSta w2.
            if rtcSta \<noteq> CY_RTC_SUCCESS then handle_error w2
            else and_then (debug_printf e (''Current date and time'' @ crlf) w2)
                   (\<lambda>_ w3. Ok () (enable_irq w3))))"
      by (simp only: main_startup_def if_False if_True and_then.simps simp_thms)
    obtain w2 p where hib:
      "debug_printf e (''Wakeup from the Hibernate mode'' @ crlf @ lf) ?w1 = Ok () w2"
      "trace w2 = trace ?w1 @ [Printf p]"
      "logs_message (''Wakeup from the Hibernate mode'' @ crlf @ lf) (Printf p)"
      "alarm_flag w2 = alarm_flag ?w1" "n_init w2 = n_init ?w1"
      by (rule debug_printf_step
          [where e = e and str = "''Wakeup from the Hibernate mode'' @ crlf @ lf" and w = ?w1])
        blast
    have "main_startup e w =
          and_then (rtc_init e w2) (\<lambda>rtcSta w2.
            if rtcSta \<noteq> CY_RTC_SUCCESS then handle_error w2
            else and_then (debug_printf e (''Current date and time'' @ crlf) w2)
                   (\<lambda>_ w3. Ok () (enable_irq w3)))"
      by (simp only: body hib(1) and_then.simps)
    then show thesis
    proof (rule that [where hibline = "[Printf p]"])
      show "trace w2 = trace ?w1 @ [Printf p]" by (rule hib(2))
      show "alarm_flag w2 = alarm_flag w" by (simp only: hib(4) w1(2))
      show "n_init w2 = n_init w" by (simp only: hib(5) w1(3))
      show "if reset_was_hib_wakeup e
         then \<exists>p'. [Printf p] = [Printf p']
              \<and> logs_message (''Wakeup from the Hibernate mode'' @ crlf @ lf) (Printf p')
         else [Printf p] = []"
        using True hib(3) by (simp only: if_True) blast
    qed
  qed
  have t2: "trace w2 @ rest = trace w @ ?pre @ UartEnable # map Printf banner
         @ [InitUserButton, SetInterruptMaskAlarm2, SysIntInit, NvicClearPendingIRQ,
            NvicEnableIRQ]
         @ hibline @ rest" for rest
    by (simp only: w2(2) w1(1) append_assoc append_Cons)
  show thesis
  proof (cases rule: startup_tail_cases [of e w2])
    case tl: (halted w' k)
    from tl(1) [folded w2(1)] show thesis
    proof (rule halted [where pre = ?pre and hibline = hibline and k = k])
      show "alarm_flag w' = alarm_flag w" by (simp only: tl(2) w2(3))
      show "trace w' = trace w @ ?pre @ UartEnable # map Printf banner
         @ [InitUserButton, SetInterruptMaskAlarm2, SysIntInit, NvicClearPendingIRQ,
            NvicEnableIRQ]
         @ hibline @ retry_events RtcInit (rtc_init_result e) (n_init w) k
         @ [DisableIrq, AssertFail]"
        by (simp only: tl(3) w2(4) t2)
      show "set ?pre \<subseteq> {IoUnfreeze}" by (rule pre)
      show "if reset_was_hib_wakeup e
       then \<exists>p. hibline = [Printf p]
              \<and> logs_message (''Wakeup from the Hibernate mode'' @ crlf @ lf) (Printf p)
       else hibline = []" by (rule w2(5))
      show "\<forall>j<500. rtc_init_result e (n_init w + j) \<noteq> CY_RTC_SUCCESS"
        using tl(4) by (simp only: w2(4))
    qed
  next
    case tl: (started w' k pc)
    from tl(1) [folded w2(1)] show thesis
    proof (rule started [where pre = ?pre and hibline = hibline and k = k and pc = pc])
      show "alarm_flag w' = alarm_flag w" by (simp only: tl(2) w2(3))
      show "trace w' = trace w @ ?pre @ UartEnable # map Printf banner
         @ [InitUserButton, SetInterruptMaskAlarm2, SysIntInit, NvicClearPendingIRQ,
            NvicEnableIRQ]
         @ hibline @ retry_events RtcInit (rtc_init_result e) (n_init w) k
         @ [Printf pc, EnableIrq]"
        by (simp only: tl(3) w2(4) t2)
      show "set ?pre \<subseteq> {IoUnfreeze}" by (rule pre)
      show "logs_message (''Current date and time'' @ crlf) (Printf pc)" by (rule tl(4))
      show "if reset_was_hib_wakeup e
       then \<exists>p. hibline = [Printf p]
              \<and> logs_message (''Wakeup from the Hibernate mode'' @ crlf @ lf) (Printf p)
       else hibline = []" by (rule w2(5))
      show "1 \<le> k" "k \<le> 500" by (rule tl(5) tl(6))+
      show "rtc_init_result e (n_init w + (k - 1)) = CY_RTC_SUCCESS"
        using tl(7) by (simp only: w2(4))
    qed
  qed
qed

text \<open>Whatever the bring-up gives, the code before the loop stops at a failed assertion or
  reaches the loop, and leaves the flag as it is.\<close>

lemma main_startup_cases:
  obtains (halted) w' where "main_startup e w = Stop Halted w'" "alarm_flag w' = alarm_flag w"
  | (started) w' where "main_startup e w = Ok () w'" "alarm_flag w' = alarm_flag w"
proof -
  let ?w0 = "if io_frozen e then emit IoUnfreeze w else w"
  consider (a) "cybsp_init_result e \<noteq> CY_RSLT_SUCCESS"
    | (b) "cybsp_init_result e = CY_RSLT_SUCCESS" "uart_init_result e \<noteq> CY_RSLT_SUCCESS"
    | (c) "cybsp_init_result e = CY_RSLT_SUCCESS" "uart_init_result e = CY_RSLT_SUCCESS"
        "uart_setup_result e \<noteq> CY_RSLT_SUCCESS"
    | (d) "cybsp_init_result e = CY_RSLT_SUCCESS" "uart_init_result e = CY_RSLT_SUCCESS"
        "uart_setup_result e = CY_RSLT_SUCCESS" "retarget_io_result e \<noteq> CY_RSLT_SUCCESS"
    | (ok) "cybsp_init_result e = CY_RSLT_SUCCESS" "uart_init_result e = CY_RSLT_SUCCESS"
        "uart_setup_result e = CY_RSLT_SUCCESS" "retarget_io_result e = CY_RSLT_SUCCESS"
    by blast
  then show thesis
  proof cases
    case a
    then have "main_startup e w = Stop Halted (emit AssertFail (disable_irq w))"
      by (simp add: main_startup_def handle_error_def CY_ASSERT_0_def)
    then show thesis by (rule halted) (simp add: emit_def disable_irq_def)
  next
    case b
    then have "main_startup e w = Stop Halted (emit AssertFail ?w0)"
      by (simp add: main_startup_def CY_ASSERT_0_def)
    then show thesis by (rule halted) (simp add: emit_def)
  next
    case c
    then have "main_startup e w = Stop Halted (emit AssertFail (emit UartEnable ?w0))"
      by (simp add: main_startup_def CY_ASSERT_0_def)
    then show thesis by (rule halted) (simp add: emit_def)
  next
    case d
    then have "main_startup e w = Stop Halted (emit AssertFail (emit UartEnable ?w0))"
      by (simp add: main_startup_def CY_ASSERT_0_def)
    then show thesis by (rule halted) (simp add: emit_def)
  next
    case ok
    then show thesis
    proof (cases rule: main_startup_brought_up [where e = e and w = w])
      case (halted w' pre hibline k)
      from halted(1,2) show thesis by (rule that(1))
    next
      case (started w' pre hibline k pc)
      from started(1,2) show thesis by (rule that(2))
    qed
  qed
qed
lemma log_lines_differ:
  assumes "logs_message (''Current date and time'' @ crlf) (Printf s)"
  shows "\<not> logs_message (''Wakeup from the Hibernate mode'' @ crlf @ lf) (Printf s)"
proof
  assume "logs_message (''Wakeup from the Hibernate mode'' @ crlf @ lf) (Printf s)"
  then have "suffix ('': '' @ (''Wakeup from the Hibernate mode'' @ crlf @ lf) @ crlf) s"
    by simp
  moreover from assms have "suffix ('': '' @ (''Current date and time'' @ crlf) @ crlf) s"
    by simp
  ultimately have
    "suffix ('': '' @ (''Wakeup from the Hibernate mode'' @ crlf @ lf) @ crlf)
            ('': '' @ (''Current date and time'' @ crlf) @ crlf)
     \<or> suffix ('': '' @ (''Current date and time'' @ crlf) @ crlf)
               ('': '' @ (''Wakeup from the Hibernate mode'' @ crlf @ lf) @ crlf)"
    by (rule suffix_same_cases)
  then show False
    by (simp add: suffix_to_prefix crlf_def lf_def)
qed

lemma banner_not_hib_line:
  "s \<in> set banner \<Longrightarrow>
     \<not> logs_message (''Wakeup from the Hibernate mode'' @ crlf @ lf) (Printf s)"
  by (auto simp: banner_def suffix_to_prefix crlf_def lf_def)

text \<open>C9. The code before the loop prints the line of the message "Wakeup from the
  Hibernate mode" exactly when the bring-up has succeeded, so that the reset reason is read,
  and the reset reason has the bits of \<^verbatim>\<open>CY_SYSLIB_RESET_HIB_WAKEUP\<close> (the test of line
  242), whatever the clock reads. The events of \<^verbatim>\<open>main_startup\<close> all precede the loop,
  which the program enters exactly when the bring-up has succeeded and one of the first 500
  calls of \<^verbatim>\<open>Cy_RTC_Init\<close> succeeds.\<close>

theorem hibernate_wakeup_logged:
  "(\<exists>x\<in>set (emitted w (world_of (main_startup e w))).
       logs_message (''Wakeup from the Hibernate mode'' @ crlf @ lf) x)
     = (cybsp_init_result e = CY_RSLT_SUCCESS \<and> uart_init_result e = CY_RSLT_SUCCESS
        \<and> uart_setup_result e = CY_RSLT_SUCCESS \<and> retarget_io_result e = CY_RSLT_SUCCESS
        \<and> reset_was_hib_wakeup e)
   \<and> returned () (main_startup e w)
     = (cybsp_init_result e = CY_RSLT_SUCCESS \<and> uart_init_result e = CY_RSLT_SUCCESS
        \<and> uart_setup_result e = CY_RSLT_SUCCESS \<and> retarget_io_result e = CY_RSLT_SUCCESS
        \<and> (\<exists>j<500. rtc_init_result e (n_init w + j) = CY_RTC_SUCCESS))"
proof -
  define L where "L = logs_message (''Wakeup from the Hibernate mode'' @ crlf @ lf)"
  define up where "up = (cybsp_init_result e = CY_RSLT_SUCCESS
        \<and> uart_init_result e = CY_RSLT_SUCCESS
        \<and> uart_setup_result e = CY_RSLT_SUCCESS \<and> retarget_io_result e = CY_RSLT_SUCCESS)"
  have others: "\<not> L IoUnfreeze" "\<not> L UartEnable" "\<not> L InitUserButton"
    "\<not> L SetInterruptMaskAlarm2" "\<not> L SysIntInit" "\<not> L NvicClearPendingIRQ"
    "\<not> L NvicEnableIRQ" "\<not> L EnableIrq" "\<not> L (Delay n)" "\<not> L (RtcInit st)"
    "\<not> L DisableIrq" "\<not> L AssertFail" for n st
    by (simp_all add: L_def)
  have banner: "\<not> L (Printf s)" if "s \<in> set banner" for s
    unfolding L_def by (rule banner_not_hib_line [OF that])
  have retry: "\<not> L x" if "x \<in> set (retry_events RtcInit f n k)" for x f n k
    using retry_events_set [OF that] others by blast
  have hibl: "(\<exists>x\<in>set hibline. L x) = reset_was_hib_wakeup e"
    if "if reset_was_hib_wakeup e
        then \<exists>p. hibline = [Printf p]
              \<and> logs_message (''Wakeup from the Hibernate mode'' @ crlf @ lf) (Printf p)
        else hibline = []" for hibline
  proof (cases "reset_was_hib_wakeup e")
    case True
    with that obtain p where "hibline = [Printf p]" "L (Printf p)"
      unfolding L_def by auto
    with True show ?thesis by simp
  next
    case False
    with that show ?thesis by simp
  qed
  have goal: "(\<exists>x\<in>set (emitted w (world_of (main_startup e w))). L x)
                = (up \<and> reset_was_hib_wakeup e)
              \<and> returned () (main_startup e w)
                = (up \<and> (\<exists>j<500. rtc_init_result e (n_init w + j) = CY_RTC_SUCCESS))"
  proof (cases up)
    case True
    then have ok: "cybsp_init_result e = CY_RSLT_SUCCESS" "uart_init_result e = CY_RSLT_SUCCESS"
      "uart_setup_result e = CY_RSLT_SUCCESS" "retarget_io_result e = CY_RSLT_SUCCESS"
      by (simp_all add: up_def)
    from ok show ?thesis
    proof (cases rule: main_startup_brought_up [where e = e and w = w])
      case (halted w' pre hibline k)
      have em: "emitted w w' = pre @ UartEnable # map Printf banner
         @ [InitUserButton, SetInterruptMaskAlarm2, SysIntInit, NvicClearPendingIRQ,
            NvicEnableIRQ]
         @ hibline @ retry_events RtcInit (rtc_init_result e) (n_init w) k
         @ [DisableIrq, AssertFail]"
        using halted(3) by (rule emitted_append)
      have pre: "\<not> L x" if "x \<in> set pre" for x
        using halted(4) that others by blast
      have "(\<exists>x\<in>set (emitted w w'). L x) = (\<exists>x\<in>set hibline. L x)"
        unfolding em using pre banner retry others by auto
      with hibl [OF halted(5)] have "(\<exists>x\<in>set (emitted w w'). L x) = reset_was_hib_wakeup e"
        by simp
      moreover have "\<not> (\<exists>j<500. rtc_init_result e (n_init w + j) = CY_RTC_SUCCESS)"
        using halted(6) by blast
      ultimately show ?thesis
        using True by (simp add: halted(1))
    next
      case (started w' pre hibline k pc)
      have em: "emitted w w' = pre @ UartEnable # map Printf banner
         @ [InitUserButton, SetInterruptMaskAlarm2, SysIntInit, NvicClearPendingIRQ,
            NvicEnableIRQ]
         @ hibline @ retry_events RtcInit (rtc_init_result e) (n_init w) k
         @ [Printf pc, EnableIrq]"
        using started(3) by (rule emitted_append)
      have pre: "\<not> L x" if "x \<in> set pre" for x
        using started(4) that others by blast
      have pc: "\<not> L (Printf pc)"
        unfolding L_def by (rule log_lines_differ [OF started(5)])
      have "(\<exists>x\<in>set (emitted w w'). L x) = (\<exists>x\<in>set hibline. L x)"
        unfolding em using pre banner retry pc others by auto
      with hibl [OF started(6)] have "(\<exists>x\<in>set (emitted w w'). L x) = reset_was_hib_wakeup e"
        by simp
      moreover have "\<exists>j<500. rtc_init_result e (n_init w + j) = CY_RTC_SUCCESS"
      proof (intro exI conjI)
        show "k - 1 < 500" using started(7,8) by simp
        show "rtc_init_result e (n_init w + (k - 1)) = CY_RTC_SUCCESS" by (rule started(9))
      qed
      ultimately show ?thesis
        using True by (simp add: started(1))
    qed
  next
    case False
    let ?pre = "if io_frozen e then [IoUnfreeze] else []"
    let ?w0 = "if io_frozen e then emit IoUnfreeze w else w"
    have w0: "trace ?w0 = trace w @ ?pre" by (simp add: emit_def)
    from False consider (a) "cybsp_init_result e \<noteq> CY_RSLT_SUCCESS"
      | (b) "cybsp_init_result e = CY_RSLT_SUCCESS" "uart_init_result e \<noteq> CY_RSLT_SUCCESS"
      | (c) "cybsp_init_result e = CY_RSLT_SUCCESS" "uart_init_result e = CY_RSLT_SUCCESS"
          "uart_setup_result e \<noteq> CY_RSLT_SUCCESS"
      | (d) "cybsp_init_result e = CY_RSLT_SUCCESS" "uart_init_result e = CY_RSLT_SUCCESS"
          "uart_setup_result e = CY_RSLT_SUCCESS" "retarget_io_result e \<noteq> CY_RSLT_SUCCESS"
      unfolding up_def by blast
    then obtain w' rest where stop: "main_startup e w = Stop Halted w'"
      "trace w' = trace w @ rest" "set rest \<subseteq> {IoUnfreeze, UartEnable, DisableIrq, AssertFail}"
    proof cases
      case a
      then have "main_startup e w = Stop Halted (emit AssertFail (disable_irq w))"
        by (simp add: main_startup_def handle_error_def CY_ASSERT_0_def)
      then show thesis
        by (rule that [where rest = "[DisableIrq, AssertFail]"])
          (simp_all add: emit_def disable_irq_def)
    next
      case b
      then have "main_startup e w = Stop Halted (emit AssertFail ?w0)"
        by (simp add: main_startup_def CY_ASSERT_0_def)
      then show thesis
        by (rule that [where rest = "?pre @ [AssertFail]"]) (auto simp: emit_def)
    next
      case c
      then have "main_startup e w = Stop Halted (emit AssertFail (emit UartEnable ?w0))"
        by (simp add: main_startup_def CY_ASSERT_0_def)
      then show thesis
        by (rule that [where rest = "?pre @ [UartEnable, AssertFail]"]) (auto simp: emit_def)
    next
      case d
      then have "main_startup e w = Stop Halted (emit AssertFail (emit UartEnable ?w0))"
        by (simp add: main_startup_def CY_ASSERT_0_def)
      then show thesis
        by (rule that [where rest = "?pre @ [UartEnable, AssertFail]"]) (auto simp: emit_def)
    qed
    have "emitted w w' = rest"
      using stop(2) by (rule emitted_append)
    with stop(3) others have "\<not> (\<exists>x\<in>set (emitted w w'). L x)"
      by auto
    with False show ?thesis
      by (simp add: stop(1))
  qed
  show ?thesis
    using goal unfolding L_def up_def by (simp only: conj_assoc)
qed

theorem hibernate_wakeup_logged_witness:
  "list_ex (logs_message (''Wakeup from the Hibernate mode'' @ crlf @ lf))
       (emitted boot_world (world_of (main_startup
          (two_digit_board (held_for 0) (always CY_RTC_SUCCESS) (always None) 0x40000)
          boot_world)))
   \<and> returned () (main_startup
        (two_digit_board (held_for 0) (always CY_RTC_SUCCESS) (always None) 0x40000) boot_world)
   \<and> overrun (world_of (main_startup
        (two_digit_board (held_for 0) (always CY_RTC_SUCCESS) (always None) 0x40000) boot_world))
   \<and> \<not> list_ex (logs_message (''Wakeup from the Hibernate mode'' @ crlf @ lf))
       (emitted boot_world (world_of (main_startup
          (board (held_for 0) (always CY_RTC_SUCCESS) (always None) 0) boot_world)))
   \<and> returned () (main_startup
        (board (held_for 0) (always CY_RTC_SUCCESS) (always None) 0) boot_world)
   \<and> \<not> returned () (main_startup stuck_rtc_board boot_world)"
proof -
  let ?hib = "two_digit_board (held_for 0) (always CY_RTC_SUCCESS) (always None) 0x40000"
  let ?cold = "board (held_for 0) (always CY_RTC_SUCCESS) (always None) 0"
  have c: "reset_was_hib_wakeup ?hib" "\<not> reset_was_hib_wakeup ?cold"
    by (simp_all add: reset_was_hib_wakeup_def board_sel two_digit_board_sel)
  have ok: "\<exists>j<500. always CY_RTC_SUCCESS (n_init boot_world + j) = CY_RTC_SUCCESS"
    by (intro exI [of _ 0]) (simp add: always_def)
  have o: "overrun (world_of (main_startup ?hib boot_world))"
    by (simp add: main_startup_def c CY_RSLT_SUCCESS_def print_banner_def
      configure_button_and_interrupt_def emit_def boot_world_def rtc_init_def init_loop.simps
      init_attempt_def Cy_SysLib_Delay_def debug_printf_two_digit_board two_digit_board_sel
      always_def enable_irq_def)
  note A = hibernate_wakeup_logged [where e = ?hib and w = boot_world]
  note B = hibernate_wakeup_logged [where e = ?cold and w = boot_world]
  note C = hibernate_wakeup_logged [where e = stuck_rtc_board and w = boot_world]
  from A c(1) ok have 1: "\<exists>x\<in>set (emitted boot_world (world_of (main_startup ?hib boot_world))).
       logs_message (''Wakeup from the Hibernate mode'' @ crlf @ lf) x"
    "returned () (main_startup ?hib boot_world)"
    by (simp_all only: two_digit_board_sel CY_RSLT_SUCCESS_def simp_thms)
  from B c(2) ok have 2: "\<not> (\<exists>x\<in>set (emitted boot_world (world_of (main_startup ?cold boot_world))).
       logs_message (''Wakeup from the Hibernate mode'' @ crlf @ lf) x)"
    "returned () (main_startup ?cold boot_world)"
    by (simp_all only: board_sel CY_RSLT_SUCCESS_def simp_thms)
  have "\<not> (\<exists>j<500. rtc_init_result stuck_rtc_board (n_init boot_world + j) = CY_RTC_SUCCESS)"
    by (simp add: stuck_rtc_board_def always_def)
  with C have 3: "\<not> returned () (main_startup stuck_rtc_board boot_world)"
    by (simp only: simp_thms)
  from 1 2 3 o show ?thesis
    by (simp only: list_ex_iff simp_thms)
qed
subsection \<open>The wake flag\<close>

lemma main_iteration_flag:
  assumes "main_iteration e w = Some r"
  shows "alarm_flag (world_of r) = alarm_flag w \<or> alarm_flag (world_of r) = 1"
proof -
  from assms obtain ev w1 where g: "get_switch_event e w = Some (ev, w1)"
    by (auto simp: main_iteration_def split: option.splits)
  from g assms have r: "r = handle_switch_event e ev w1"
    by (rule main_iteration_Some)
  from g have f1: "alarm_flag w1 = alarm_flag w"
    by (rule get_switch_event_Some) simp
  show ?thesis
  proof (cases ev)
    case SWITCH_NO_EVENT
    then show ?thesis by (simp add: r handle_switch_event_def f1)
  next
    case SWITCH_SHORT_PRESS
    show ?thesis
      by (cases rule: short_press_cases [of e w1])
        (auto simp: r SWITCH_SHORT_PRESS f1)
  next
    case SWITCH_LONG_PRESS
    show ?thesis
      by (cases rule: long_press_cases [of e w1])
        (auto simp: r SWITCH_LONG_PRESS f1)
  qed
qed

lemma main_loop_flag:
  "alarm_flag w = 1 \<Longrightarrow> main_loop e n w = Some r \<Longrightarrow> alarm_flag (world_of r) = 1"
proof (induction n arbitrary: w)
  case 0
  then show ?case by auto
next
  case (Suc n)
  from Suc.prems(2) obtain r1 where it: "main_iteration e w = Some r1"
    by (auto split: option.splits)
  from main_iteration_flag [OF it] Suc.prems(1) have f: "alarm_flag (world_of r1) = 1"
    by auto
  show ?case
  proof (cases r1)
    case (Ok u w1)
    with it Suc.prems(2) have "main_loop e n w1 = Some r" by simp
    moreover from f Ok have "alarm_flag w1 = 1" by simp
    ultimately show ?thesis by (rule Suc.IH [rotated])
  next
    case (Stop x w1)
    with it Suc.prems(2) have "r = Stop x w1" by simp
    with f Stop show ?thesis by simp
  qed
qed

lemma main_startup_flag: "alarm_flag (world_of (main_startup e w)) = alarm_flag w"
  by (cases rule: main_startup_cases [of e w]) simp_all

text \<open>C3, as the code has it. The flag is 0 at reset; the handler of the alarm-2 interrupt
  sets it to 1 and does nothing else; the code before the loop leaves it as it is; a turn of
  the loop leaves it as it is or (when the alarm interrupt ends the deep sleep) set; so once
  set it stays set through any number of turns: the loop never clears it.\<close>

theorem alarm_flag_latch:
  "alarm_flag boot_world = 0
   \<and> Cy_RTC_Alarm2Interrupt w = w\<lparr>alarm_flag := 1\<rparr>
   \<and> alarm_flag (world_of (main_startup e w)) = alarm_flag w
   \<and> (main_iteration e w = Some r \<longrightarrow>
        alarm_flag (world_of r) = alarm_flag w \<or> alarm_flag (world_of r) = 1)
   \<and> (alarm_flag w = 1 \<and> main_loop e n w = Some r' \<longrightarrow> alarm_flag (world_of r') = 1)"
  using main_iteration_flag [of e w r] main_loop_flag [of w e n r'] main_startup_flag [of e w]
  by (simp add: boot_world_def Cy_RTC_Alarm2Interrupt_def)

lemma started_fields:
  "alarm_flag (world_of (main_startup (board g a h rr) boot_world)) = 0"
  "primask (world_of (main_startup (board g a h rr) boot_world)) = False"
  "n_gpio (world_of (main_startup (board g a h rr) boot_world)) = 0"
  "n_alarm (world_of (main_startup (board g a h rr) boot_world)) = 0"
  "n_sleep (world_of (main_startup (board g a h rr) boot_world)) = 0"
  "n_hib (world_of (main_startup (board g a h rr) boot_world)) = 0"
  by (simp_all add: started_board)

lemmas loop_simps =
  main_board main_loop_one main_iteration_def get_switch_event_board
  press_event_simps started_fields

theorem alarm_flag_latch_counterexample:
  "alarm_flag boot_world = 0
   \<and> map_option (alarm_flag \<circ> world_of)
       (main (board (held_for 11) (always CY_RTC_SUCCESS) (always None) 0) 1) = Some 1
   \<and> map_option (returned ())
       (main (board (held_for 11) (always CY_RTC_SUCCESS) (always None) 0) 2) = Some True
   \<and> map_option (alarm_flag \<circ> world_of)
       (main (board (held_for 11) (always CY_RTC_SUCCESS) (always None) 0) 2) = Some 1"
proof (intro conjI)
  show "alarm_flag boot_world = 0"
    by (simp add: boot_world_def)
  show "map_option (alarm_flag \<circ> world_of)
       (main (board (held_for 11) (always CY_RTC_SUCCESS) (always None) 0) 1) = Some 1"
    by (simp add: loop_simps run_simps alarm_loop_always_ok)
  show "map_option (returned ())
       (main (board (held_for 11) (always CY_RTC_SUCCESS) (always None) 0) 2) = Some True"
    by (simp add: loop_simps run_simps alarm_loop_always_ok numeral_2_eq_2)
  show "map_option (alarm_flag \<circ> world_of)
       (main (board (held_for 11) (always CY_RTC_SUCCESS) (always None) 0) 2) = Some 1"
    by (simp add: loop_simps run_simps alarm_loop_always_ok numeral_2_eq_2)
qed

theorem alarm_flag_latch_witness:
  "alarm_flag (world_of (the
      (main (board (held_for 11) (always CY_RTC_SUCCESS) (always None) 0) 1))) = 1
   \<and> alarm_flag (world_of (the
      (main_loop (board (held_for 11) (always CY_RTC_SUCCESS) (always None) 0) 1
         (world_of (the
            (main (board (held_for 11) (always CY_RTC_SUCCESS) (always None) 0) 1)))))) = 1"
proof -
  let ?e = "board (held_for 11) (always CY_RTC_SUCCESS) (always None) 0"
  let ?w = "world_of (the (main ?e 1))"
  have f: "alarm_flag ?w = 1"
    by (simp add: loop_simps run_simps alarm_loop_always_ok)
  have it: "main_iteration ?e ?w = Some (the (main_iteration ?e ?w))"
    by (simp add: main_iteration_def get_switch_event_board)
  have one: "main_loop ?e 1 ?w = main_iteration ?e ?w"
    using main_loop_one [of ?e ?w] by (simp only: One_nat_def)
  have lp: "main_loop ?e 1 ?w = Some (the (main_loop ?e 1 ?w))"
    unfolding one by (rule it)
  from alarm_flag_latch
    [of ?w ?e "the (main_iteration ?e ?w)" 1 "the (main_loop ?e 1 ?w)"] f it lp
  show ?thesis by blast
qed

subsection \<open>A failed arming is not noticed\<close>

lemma rtc_alarmconfig_always_failing:
  "r \<noteq> CY_RTC_SUCCESS \<Longrightarrow>
     rtc_alarmconfig (board g (always r) h rr) w =
       Ok r (w\<lparr>trace := trace w
                 @ Printf (''1 : 2 : 3  4 - 5 - 6: ''
                           @ (''RTC alarm will be generated after 1 second'' @ crlf) @ crlf)
                 # retry_events SetAlarm (always r) (n_alarm w) 500,
               buffer := ''1 : 2 : 3  4 - 5 - 6'', n_time := n_time w + 1,
               n_alarm := n_alarm w + 500\<rparr>)"
  by (simp add: rtc_alarmconfig_def debug_printf_board alarm_loop_always_failing
      del: retry_events.simps)

lemma retry_events_always:
  "set (retry_events ev (always r) n k) \<subseteq> {ev r, Delay INIT_DELAY_MS}"
  by (induction k arbitrary: n) (auto simp: always_def)

text \<open>C1. The code does not treat a failed arming as fatal. With a short press (11 samples)
  and an RTC that refuses every attempt with \<^verbatim>\<open>CY_RTC_INVALID_STATE\<close>,
  \<^verbatim>\<open>rtc_alarmconfig\<close> returns that status after 500 attempts; \<^verbatim>\<open>main\<close> drops the value
  (line 269), waits 100 ms and enters deep sleep; no assertion fails and the turn of the loop
  completes.\<close>

theorem alarm_failure_ignored_deep_sleep:
  "returned CY_RTC_INVALID_STATE
     (rtc_alarmconfig (board (held_for 11) (always CY_RTC_INVALID_STATE) (always None) 0) w)
   \<and> map_option (returned ())
       (main (board (held_for 11) (always CY_RTC_INVALID_STATE) (always None) 0) 1)
       = Some True
   \<and> map_option
       (commands
        \<circ> emitted (world_of (main_startup
             (board (held_for 11) (always CY_RTC_INVALID_STATE) (always None) 0) boot_world))
        \<circ> world_of)
       (main (board (held_for 11) (always CY_RTC_INVALID_STATE) (always None) 0) 1)
       = Some (replicate 12 (Delay SHORT_GLITCH_DELAY_MS)
               @ retry_events SetAlarm (always CY_RTC_INVALID_STATE) 0 500
               @ [Delay LONG_GLITCH_DELAY_MS, DeepSleep])
   \<and> AssertFail \<notin> set (retry_events SetAlarm (always CY_RTC_INVALID_STATE) 0 500)
   \<and> SetAlarm CY_RTC_SUCCESS \<notin> set (retry_events SetAlarm (always CY_RTC_INVALID_STATE) 0 500)"
proof (intro conjI)
  let ?e = "board (held_for 11) (always CY_RTC_INVALID_STATE) (always None) 0"
  show "returned CY_RTC_INVALID_STATE (rtc_alarmconfig ?e w)"
    by (simp add: rtc_alarmconfig_always_failing del: retry_events.simps)
  show "map_option (returned ()) (main ?e 1) = Some True"
    by (simp add: loop_simps handle_switch_event_def debug_printf_board
        rtc_alarmconfig_always_failing Cy_SysPm_CpuEnterDeepSleep_def board_sel always_def
        del: retry_events.simps)
  show "map_option (commands \<circ> emitted (world_of (main_startup ?e boot_world)) \<circ> world_of)
          (main ?e 1)
        = Some (replicate 12 (Delay SHORT_GLITCH_DELAY_MS)
                @ retry_events SetAlarm (always CY_RTC_INVALID_STATE) 0 500
                @ [Delay LONG_GLITCH_DELAY_MS, DeepSleep])"
    by (simp add: loop_simps handle_switch_event_def debug_printf_board
        rtc_alarmconfig_always_failing Cy_SysPm_CpuEnterDeepSleep_def board_sel always_def
        rtc_interrupt_handler_def Cy_RTC_Alarm2Interrupt_def Cy_SysLib_Delay_def emit_def
        emitted_def commands_simps commands_retry_events
        del: retry_events.simps)
  show "AssertFail \<notin> set (retry_events SetAlarm (always CY_RTC_INVALID_STATE) 0 500)"
    using retry_events_always [of SetAlarm CY_RTC_INVALID_STATE 0 500] by auto
  show "SetAlarm CY_RTC_SUCCESS \<notin> set (retry_events SetAlarm (always CY_RTC_INVALID_STATE) 0 500)"
    using retry_events_always [of SetAlarm CY_RTC_INVALID_STATE 0 500] by auto
qed

text \<open>C2. The code issues the power-down without a successful arming. With a long press
  (201 samples) and an RTC that answers every attempt with \<^verbatim>\<open>CY_RTC_TIMEOUT\<close>, the
  500 attempts of \<^verbatim>\<open>rtc_alarmconfig\<close> all fail; \<^verbatim>\<open>main\<close> drops the value (line 281),
  selects the wake-up source and requests the power-down, which here takes place. No
  successful arming is among the events of the run.\<close>

theorem alarm_failure_ignored_hibernate:
  "map_option (stopped_by Powered_down)
       (main (board (held_for 201) (always CY_RTC_TIMEOUT) (always None) 0) 1)
       = Some True
   \<and> map_option
       (commands
        \<circ> emitted (world_of (main_startup
             (board (held_for 201) (always CY_RTC_TIMEOUT) (always None) 0) boot_world))
        \<circ> world_of)
       (main (board (held_for 201) (always CY_RTC_TIMEOUT) (always None) 0) 1)
       = Some (replicate 202 (Delay SHORT_GLITCH_DELAY_MS)
               @ retry_events SetAlarm (always CY_RTC_TIMEOUT) 0 500
               @ [Delay LONG_GLITCH_DELAY_MS, SetHibernateWakeupSource, EnterHibernate None])
   \<and> SetAlarm CY_RTC_SUCCESS \<notin> set (retry_events SetAlarm (always CY_RTC_TIMEOUT) 0 500)
   \<and> SetAlarm CY_RTC_SUCCESS
       \<notin> set (trace (world_of (main_startup
             (board (held_for 201) (always CY_RTC_TIMEOUT) (always None) 0) boot_world)))"
proof (intro conjI)
  let ?e = "board (held_for 201) (always CY_RTC_TIMEOUT) (always None) 0"
  show "map_option (stopped_by Powered_down) (main ?e 1) = Some True"
    by (simp add: loop_simps handle_switch_event_def debug_printf_board
        rtc_alarmconfig_always_failing Cy_SysPm_SystemEnterHibernate_def board_sel always_def
        del: retry_events.simps)
  show "map_option (commands \<circ> emitted (world_of (main_startup ?e boot_world)) \<circ> world_of)
          (main ?e 1)
        = Some (replicate 202 (Delay SHORT_GLITCH_DELAY_MS)
                @ retry_events SetAlarm (always CY_RTC_TIMEOUT) 0 500
                @ [Delay LONG_GLITCH_DELAY_MS, SetHibernateWakeupSource, EnterHibernate None])"
    by (simp add: loop_simps handle_switch_event_def debug_printf_board
        rtc_alarmconfig_always_failing Cy_SysPm_SystemEnterHibernate_def board_sel always_def
        Cy_SysLib_Delay_def emit_def emitted_def commands_simps commands_retry_events
        del: retry_events.simps)
  show "SetAlarm CY_RTC_SUCCESS \<notin> set (retry_events SetAlarm (always CY_RTC_TIMEOUT) 0 500)"
    using retry_events_always [of SetAlarm CY_RTC_TIMEOUT 0 500] by auto
  show "SetAlarm CY_RTC_SUCCESS \<notin> set (trace (world_of (main_startup ?e boot_world)))"
    by (auto simp: started_board)
qed

end
